theory Spec2Isabelle
  imports Complex_Main
begin

section \<open>Traffic API: multi-source fetch, normalisation and commercial fallback\<close>

text \<open>
  A shallow embedding of the traffic aggregation service: the three provider adapters
  (TII for Ireland, WebTRIS for the UK, Google Maps as the paid fallback), the
  orchestrator \<open>fetchTrafficWithFallback\<close> of the HTTP server, the response summary,
  the M1 junction report and the segment enrichment with its local fallback.

  Conventions of the model.
  \<^item> JavaScript numbers are exact rationals (\<open>rat\<close>); \<open>Math.round\<close> is
    \<open>\<lfloor>x + 1/2\<rfloor>\<close>. Binary floating point and \<open>NaN\<close> are not modelled.
  \<^item> Strings are \<open>string\<close>; case conversion acts on the ASCII letters.
  \<^item> A field a provider may omit is an \<open>option\<close>; \<open>a || b\<close> takes \<open>b\<close> when \<open>a\<close>
    is absent, zero or the empty string, as JavaScript's truthiness does. Numeric
    fields of provider payloads hold numbers (or are absent), text fields hold text.
    The segment enrichment, which takes its input unchecked, works on untyped values.
  \<^item> A thrown exception is a value \<open>Inl e\<close>; \<open>try/catch\<close> is a case distinction on it.
  \<^item> Module-level state (the caches, the API call counters), the clock and the
    network are fields of one explicit \<open>world\<close> record that every operation threads.
\<close>

subsection \<open>Exceptions, strings and numbers\<close>

datatype exn = Error string | TypeError string

fun message :: "exn \<Rightarrow> string" where
  "message (Error m) = m"
| "message (TypeError m) = m"

definition isDigit :: "char \<Rightarrow> bool" where
  "isDigit c = (let n = (of_char c :: nat) in 48 \<le> n \<and> n \<le> 57)"

definition isSpace :: "char \<Rightarrow> bool" where
  "isSpace c = (let n = (of_char c :: nat) in (9 \<le> n \<and> n \<le> 13) \<or> n = 32 \<or> n = 160)"

definition upperChar :: "char \<Rightarrow> char" where
  "upperChar c = (let n = (of_char c :: nat) in if 97 \<le> n \<and> n \<le> 122 then char_of (n - 32) else c)"

definition lowerChar :: "char \<Rightarrow> char" where
  "lowerChar c = (let n = (of_char c :: nat) in if 65 \<le> n \<and> n \<le> 90 then char_of (n + 32) else c)"

definition isLetter :: "char \<Rightarrow> bool" where
  "isLetter c = (let n = (of_char (upperChar c) :: nat) in 65 \<le> n \<and> n \<le> 90)"

definition toUpperCase :: "string \<Rightarrow> string" where
  "toUpperCase s = map upperChar s"

definition toLowerCase :: "string \<Rightarrow> string" where
  "toLowerCase s = map lowerChar s"

text \<open>\<open>s.includes(t)\<close>: \<open>t\<close> occurs in \<open>s\<close> as a contiguous substring.\<close>

fun includes_str :: "string \<Rightarrow> string \<Rightarrow> bool" where
  "includes_str [] t = (t = [])"
| "includes_str (c # s) t = (take (length t) (c # s) = t \<or> includes_str s t)"

text \<open>A regular expression \<open>/word/i\<close>: the word occurs somewhere, in any letter case.\<close>

definition test_word_i :: "string \<Rightarrow> string \<Rightarrow> bool" where
  "test_word_i word s = includes_str (toUpperCase s) (toUpperCase word)"

definition trim :: "string \<Rightarrow> string" where
  "trim s = rev (dropWhile isSpace (rev (dropWhile isSpace s)))"

definition Math_round :: "rat \<Rightarrow> rat" where
  "Math_round x = of_int \<lfloor>x + 1 / 2\<rfloor>"

definition Math_ceil :: "rat \<Rightarrow> rat" where
  "Math_ceil x = of_int \<lceil>x\<rceil>"

text \<open>\<open>a || d\<close> on an optional number, an optional string, and between two optionals.\<close>

definition truthy_num :: "rat option \<Rightarrow> bool" where
  "truthy_num a = (case a of None \<Rightarrow> False | Some v \<Rightarrow> v \<noteq> 0)"

definition truthy_str :: "string option \<Rightarrow> bool" where
  "truthy_str a = (case a of None \<Rightarrow> False | Some v \<Rightarrow> v \<noteq> [])"

definition or_num :: "rat option \<Rightarrow> rat \<Rightarrow> rat" where
  "or_num a d = (if truthy_num a then the a else d)"

definition or_str :: "string option \<Rightarrow> string \<Rightarrow> string" where
  "or_str a d = (if truthy_str a then the a else d)"

definition or_num_opt :: "rat option \<Rightarrow> rat option \<Rightarrow> rat option" where
  "or_num_opt a b = (if truthy_num a then a else b)"

definition or_str_opt :: "string option \<Rightarrow> string option \<Rightarrow> string option" where
  "or_str_opt a b = (if truthy_str a then a else b)"

text \<open>
  A timestamp is provider text, the clock reading in milliseconds (\<open>Date.now()\<close>), or
  the ISO rendering of a clock reading (\<open>new Date().toISOString()\<close>).
\<close>

datatype stamp = Text string | Millis int | ISO int

subsection \<open>TII adapter: normalisation (tiiAdapter.js)\<close>

record tii_situationRecord =
  sr_roadName :: "string option"
  sr_directionBound :: "string option"
  sr_travelTime :: "rat option"
  sr_freeFlowTravelTime :: "rat option"
  sr_lat :: "rat option"
  sr_lon :: "rat option"
  sr_startLocation :: "string option"
  sr_endLocation :: "string option"

record tii_situation =
  st_header_id :: "string option"
  st_situationRecord :: "tii_situationRecord list"

text \<open>One element of the feed's \<open>situation\<close> array.\<close>

record tii_item =
  it_situation :: "tii_situation option"
  it_situationRecord :: "tii_situationRecord list"
  it_road :: "string option"
  it_lat :: "rat option"
  it_lon :: "rat option"
  it_publicationTime :: "string option"
  it_id :: "string option"

record tii_record =
  tii_road :: string
  tii_direction :: string
  tii_travelTimeMinutes :: rat
  tii_freeFlowTimeMinutes :: rat
  tii_delayMinutes :: rat
  tii_congestionLevel :: string
  tii_lat :: "rat option"
  tii_lon :: "rat option"
  tii_from :: "string option"
  tii_to :: "string option"
  tii_timestamp :: stamp
  tii_rawId :: "string option"

text \<open>The empty object \<open>{}\<close> standing in for a missing situation record.\<close>

definition empty_situationRecord :: tii_situationRecord where
  "empty_situationRecord =
     \<lparr>sr_roadName = None, sr_directionBound = None, sr_travelTime = None,
      sr_freeFlowTravelTime = None, sr_lat = None, sr_lon = None,
      sr_startLocation = None, sr_endLocation = None\<rparr>"

definition empty_situation :: tii_situation where
  "empty_situation = \<lparr>st_header_id = None, st_situationRecord = []\<rparr>"

text \<open>\<open>(xs || [])[0] || {}\<close>\<close>

definition first_situationRecord :: "tii_situationRecord list \<Rightarrow> tii_situationRecord" where
  "first_situationRecord xs = (case xs of [] \<Rightarrow> empty_situationRecord | x # _ \<Rightarrow> x)"

text \<open>\<open>road.replace(/^R/i, '')\<close>\<close>

definition strip_leading_R :: "string \<Rightarrow> string" where
  "strip_leading_R s = (case s of [] \<Rightarrow> [] | c # cs \<Rightarrow> if upperChar c = CHR ''R'' then cs else s)"

text \<open>The congestion ladder of \<open>normalizeTIIRecord\<close>, applied to its local \<open>delay\<close>.\<close>

definition tii_congestion :: "rat \<Rightarrow> string" where
  "tii_congestion delay =
     (if delay > 10 then ''heavy''
      else if delay > 5 then ''moderate''
      else if delay > 2 then ''light''
      else ''none'')"

definition normalizeTIIRecord :: "int \<Rightarrow> tii_item \<Rightarrow> tii_record" where
  "normalizeTIIRecord clock record =
     (let situation = (case it_situation record of None \<Rightarrow> empty_situation | Some s \<Rightarrow> s);
          situationRecord = first_situationRecord (st_situationRecord situation);
          road = or_str (sr_roadName situationRecord) (or_str (it_road record) ''Unknown'');
          direction = or_str (sr_directionBound situationRecord) ''Unknown'';
          travelTime = or_num (sr_travelTime situationRecord) 0;
          freeFlowTime = or_num (sr_freeFlowTravelTime situationRecord) travelTime;
          delay = max 0 (travelTime - freeFlowTime);
          congestionLevel = tii_congestion delay
      in \<lparr>tii_road = strip_leading_R road,
          tii_direction = direction,
          tii_travelTimeMinutes = Math_round (travelTime / 60),
          tii_freeFlowTimeMinutes = Math_round (freeFlowTime / 60),
          tii_delayMinutes = Math_round (delay / 60),
          tii_congestionLevel = congestionLevel,
          tii_lat = or_num_opt (it_lat record) (sr_lat situationRecord),
          tii_lon = or_num_opt (it_lon record) (sr_lon situationRecord),
          tii_from = sr_startLocation situationRecord,
          tii_to = sr_endLocation situationRecord,
          tii_timestamp = (if truthy_str (it_publicationTime record)
                           then Text (the (it_publicationTime record)) else ISO clock),
          tii_rawId = or_str_opt (st_header_id situation) (it_id record)\<rparr>)"

subsection \<open>WebTRIS adapter: normalisation (webtrisAdapter.js)\<close>

record webtris_site =
  site_id :: "string option"
  site_name :: "string option"
  site_direction :: "string option"
  site_typicalSpeed :: "rat option"
  site_length :: "rat option"
  site_latitude :: "rat option"
  site_longitude :: "rat option"
  site_area :: "string option"
  site_description :: "string option"

record webtris_report =
  rep_siteId :: "string option"
  rep_speed :: "rat option"
  rep_averageSpeed :: "rat option"
  rep_vehicleFlow :: "rat option"
  rep_volume :: "rat option"
  rep_timestamp :: "string option"

record webtris_record =
  wt_siteId :: "string option"
  wt_road :: string
  wt_direction :: string
  wt_lat :: "rat option"
  wt_lon :: "rat option"
  wt_area :: "string option"
  wt_description :: "string option"
  wt_vehicleFlow :: rat
  wt_averageSpeed :: rat
  wt_congestionLevel :: string
  wt_travelTimeMinutes :: rat
  wt_freeFlowTimeMinutes :: rat
  wt_delayMinutes :: rat
  wt_timestamp :: stamp

text \<open>The empty object \<open>{}\<close> used when no report matches a site.\<close>

definition empty_report :: webtris_report where
  "empty_report =
     \<lparr>rep_siteId = None, rep_speed = None, rep_averageSpeed = None,
      rep_vehicleFlow = None, rep_volume = None, rep_timestamp = None\<rparr>"

text \<open>\<open>road.replace(/^M/i, 'M')\<close>\<close>

definition normalize_leading_M :: "string \<Rightarrow> string" where
  "normalize_leading_M s =
     (case s of [] \<Rightarrow> [] | c # cs \<Rightarrow> if upperChar c = CHR ''M'' then CHR ''M'' # cs else s)"

text \<open>The congestion ladder of \<open>normalizeWebTRISRecord\<close>, on speed and typical speed.\<close>

definition webtris_congestion :: "rat \<Rightarrow> rat \<Rightarrow> string" where
  "webtris_congestion speed typicalSpeed =
     (let speedRatio = speed / typicalSpeed
      in if speedRatio < 3 / 10 \<or> speed < 20 then ''heavy''
         else if speedRatio < 6 / 10 \<or> speed < 40 then ''moderate''
         else if speedRatio < 8 / 10 \<or> speed < 55 then ''light''
         else ''none'')"

definition normalizeWebTRISRecord :: "int \<Rightarrow> webtris_site \<Rightarrow> webtris_report \<Rightarrow> webtris_record" where
  "normalizeWebTRISRecord clock site report =
     (let road = or_str (site_name site) ''Unknown'';
          direction = or_str (site_direction site) ''Unknown'';
          speed = or_num (rep_speed report) (or_num (rep_averageSpeed report) 0);
          flow = or_num (rep_vehicleFlow report) (or_num (rep_volume report) 0);
          typicalSpeed = or_num (site_typicalSpeed site) 70;
          congestionLevel = webtris_congestion speed typicalSpeed;
          distanceKm = or_num (site_length site) 1;
          travelTimeMinutes = (if speed > 0 then (distanceKm / speed) * 60 else 0);
          freeFlowTimeMinutes = distanceKm / typicalSpeed * 60;
          delayMinutes = max 0 (travelTimeMinutes - freeFlowTimeMinutes)
      in \<lparr>wt_siteId = site_id site,
          wt_road = normalize_leading_M road,
          wt_direction = direction,
          wt_lat = site_latitude site,
          wt_lon = site_longitude site,
          wt_area = site_area site,
          wt_description = site_description site,
          wt_vehicleFlow = flow,
          wt_averageSpeed = Math_round speed,
          wt_congestionLevel = congestionLevel,
          wt_travelTimeMinutes = Math_round (travelTimeMinutes * 10) / 10,
          wt_freeFlowTimeMinutes = Math_round (freeFlowTimeMinutes * 10) / 10,
          wt_delayMinutes = Math_round (delayMinutes * 10) / 10,
          wt_timestamp = (if truthy_str (rep_timestamp report)
                          then Text (the (rep_timestamp report)) else ISO clock)\<rparr>)"

subsection \<open>Google Maps adapter: normalisation (googleMapsAdapter.js)\<close>

record google_step =
  step_html_instructions :: "string option"

text \<open>
  A route leg. \<open>leg_distance_value\<close> is \<open>leg.distance?.value\<close>, and likewise for the two
  durations; the four coordinates are \<open>(leg.start_location || {}).lat\<close> and so on.
\<close>

record google_leg =
  leg_distance_value :: "rat option"
  leg_duration_value :: "rat option"
  leg_duration_in_traffic_value :: "rat option"
  leg_start_lat :: "rat option"
  leg_start_lng :: "rat option"
  leg_end_lat :: "rat option"
  leg_end_lng :: "rat option"
  leg_steps :: "google_step list"
  leg_start_address :: "string option"
  leg_end_address :: "string option"

record google_route =
  route_legs :: "google_leg list option"
  route_summary :: "string option"
  route_warnings :: "string list"

record google_record =
  g_road :: string
  g_origin :: string
  g_destination :: string
  g_startLat :: "rat option"
  g_startLon :: "rat option"
  g_endLat :: "rat option"
  g_endLon :: "rat option"
  g_via :: "string list"
  g_distanceKm :: rat
  g_durationMinutes :: rat
  g_durationInTrafficMinutes :: rat
  g_delayMinutes :: rat
  g_congestionLevel :: string
  g_routeSummary :: string
  g_warnings :: "string list"
  g_timestamp :: stamp

definition calculateCongestion :: "rat \<Rightarrow> rat \<Rightarrow> string" where
  "calculateCongestion durationInTraffic duration =
     (if duration = 0 then ''unknown''
      else let ratio = durationInTraffic / duration;
               delayMinutes = (durationInTraffic - duration) / 60
           in if delayMinutes > 15 \<or> ratio > 2 then ''heavy''
              else if delayMinutes > 5 \<or> ratio > 15 / 10 then ''moderate''
              else if delayMinutes > 2 \<or> ratio > 12 / 10 then ''light''
              else ''none'')"

text \<open>
  \<open>instruction.match(/(?:onto|on)\s+([^<]+)/i)\<close>, giving the captured group. After the
  keyword the white space is taken greedily; when nothing but \<open><\<close> or the end follows
  it, the engine backtracks and the last white-space character becomes the capture.
\<close>

definition match_after_keyword :: "string \<Rightarrow> string option" where
  "match_after_keyword rest =
     (let ws = takeWhile isSpace rest;
          r = dropWhile isSpace rest;
          cap = takeWhile (\<lambda>c. c \<noteq> CHR ''<'') r
      in if ws = [] then None
         else if cap \<noteq> [] then Some cap
         else if length ws \<ge> 2 then Some [last ws]
         else None)"

definition match_onto_at :: "string \<Rightarrow> string option" where
  "match_onto_at s =
     (let viaOnto = (if toLowerCase (take 4 s) = ''onto'' then match_after_keyword (drop 4 s) else None)
      in case viaOnto of
           Some c \<Rightarrow> Some c
         | None \<Rightarrow> if toLowerCase (take 2 s) = ''on'' then match_after_keyword (drop 2 s) else None)"

fun match_onto :: "string \<Rightarrow> string option" where
  "match_onto [] = None"
| "match_onto (c # s) =
     (case match_onto_at (c # s) of Some r \<Rightarrow> Some r | None \<Rightarrow> match_onto s)"

text \<open>The loop over \<open>leg.steps\<close> collecting the distinct road names.\<close>

fun collect_mainRoads :: "google_step list \<Rightarrow> string list \<Rightarrow> string list" where
  "collect_mainRoads [] mainRoads = mainRoads"
| "collect_mainRoads (step # steps) mainRoads =
     (let instruction = or_str (step_html_instructions step) []
      in case match_onto instruction of
           None \<Rightarrow> collect_mainRoads steps mainRoads
         | Some g \<Rightarrow>
             if trim g \<in> set mainRoads then collect_mainRoads steps mainRoads
             else collect_mainRoads steps (mainRoads @ [trim g]))"

definition normalizeGoogleMapsData ::
  "int \<Rightarrow> google_route \<Rightarrow> string \<Rightarrow> string \<Rightarrow> string option \<Rightarrow> exn + google_record" where
  "normalizeGoogleMapsData clock route origin destination road =
     (case route_legs route of
        None \<Rightarrow> Inl (TypeError ''Cannot read properties of undefined (reading 0)'')
      | Some [] \<Rightarrow> Inl (TypeError ''Cannot read properties of undefined (reading distance)'')
      | Some (leg # _) \<Rightarrow>
          (let distanceMeters = or_num (leg_distance_value leg) 0;
               distanceKm = distanceMeters / 1000;
               durationSeconds = or_num (leg_duration_value leg) 0;
               durationInTrafficSeconds = or_num (leg_duration_in_traffic_value leg) durationSeconds;
               durationMinutes = Math_round (durationSeconds / 60);
               durationInTrafficMinutes = Math_round (durationInTrafficSeconds / 60);
               delayMinutes = max 0 (durationInTrafficMinutes - durationMinutes);
               congestionLevel = calculateCongestion durationInTrafficSeconds durationSeconds;
               mainRoads = collect_mainRoads (leg_steps leg) []
           in Inr \<lparr>g_road = or_str road (or_str (case mainRoads of [] \<Rightarrow> None | m # _ \<Rightarrow> Some m)
                                           ''Unknown''),
                   g_origin = or_str (leg_start_address leg) origin,
                   g_destination = or_str (leg_end_address leg) destination,
                   g_startLat = leg_start_lat leg,
                   g_startLon = leg_start_lng leg,
                   g_endLat = leg_end_lat leg,
                   g_endLon = leg_end_lng leg,
                   g_via = take 3 mainRoads,
                   g_distanceKm = Math_round (distanceKm * 100) / 100,
                   g_durationMinutes = durationMinutes,
                   g_durationInTrafficMinutes = durationInTrafficMinutes,
                   g_delayMinutes = delayMinutes,
                   g_congestionLevel = congestionLevel,
                   g_routeSummary = or_str (route_summary route) [],
                   g_warnings = route_warnings route,
                   g_timestamp = ISO clock\<rparr>))"

subsection \<open>The merged record list and the response summary (server.js)\<close>

datatype traffic_record = TII tii_record | WebTRIS webtris_record | GoogleMaps google_record

fun source :: "traffic_record \<Rightarrow> string" where
  "source (TII r) = ''TII-Ireland''"
| "source (WebTRIS r) = ''WebTRIS-UK''"
| "source (GoogleMaps r) = ''GoogleMaps''"

fun congestionLevel :: "traffic_record \<Rightarrow> string" where
  "congestionLevel (TII r) = tii_congestionLevel r"
| "congestionLevel (WebTRIS r) = wt_congestionLevel r"
| "congestionLevel (GoogleMaps r) = g_congestionLevel r"

fun delayMinutes :: "traffic_record \<Rightarrow> rat" where
  "delayMinutes (TII r) = tii_delayMinutes r"
| "delayMinutes (WebTRIS r) = wt_delayMinutes r"
| "delayMinutes (GoogleMaps r) = g_delayMinutes r"

text \<open>The order of the four levels, as the table \<open>levels\<close> of \<open>generateInsight\<close> has it.\<close>

definition levels :: "string \<Rightarrow> nat option" where
  "levels l =
     (if l = ''none'' then Some 0
      else if l = ''light'' then Some 1
      else if l = ''moderate'' then Some 2
      else if l = ''heavy'' then Some 3
      else None)"

record congestionBreakdown =
  cb_heavy :: nat
  cb_moderate :: nat
  cb_light :: nat
  cb_none :: nat

record summary =
  totalRecords :: nat
  sum_sourcesUsed :: "string list"
  fallbackTriggered :: bool
  countries :: "string list"
  breakdown :: congestionBreakdown

text \<open>\<open>[...new Set(xs)]\<close>: the distinct elements in order of first occurrence.\<close>

definition set_order :: "'a list \<Rightarrow> 'a list" where
  "set_order xs = rev (remdups (rev xs))"

definition count_level :: "string \<Rightarrow> traffic_record list \<Rightarrow> nat" where
  "count_level l ds = length (filter (\<lambda>d. congestionLevel d = l) ds)"

definition build_summary ::
  "string \<Rightarrow> traffic_record list \<Rightarrow> string list \<Rightarrow> bool \<Rightarrow> summary" where
  "build_summary country ds sourcesUsed fallbackUsed =
     \<lparr>totalRecords = length ds,
      sum_sourcesUsed = sourcesUsed,
      fallbackTriggered = fallbackUsed,
      countries =
        (if country = ''ALL''
         then set_order (map (\<lambda>d. if source d = ''TII-Ireland'' then ''IE''
                                   else if source d = ''WebTRIS-UK'' then ''UK''
                                   else ''Unknown'') ds)
         else [country]),
      breakdown =
        \<lparr>cb_heavy = count_level ''heavy'' ds,
         cb_moderate = count_level ''moderate'' ds,
         cb_light = count_level ''light'' ds,
         cb_none = count_level ''none'' ds\<rparr>\<rparr>"

subsection \<open>M1 junction report (m1-junction-monitor.js)\<close>

record segment =
  seg_name :: string
  seg_from :: string
  seg_to :: string
  seg_town :: string
  normalTime :: rat

text \<open>
  The result of checking one segment: the segment's own fields and the status computed
  for it. \<open>currentTime\<close> is \<open>null\<close> (\<open>None\<close>) when the check of the segment failed.
\<close>

record segment_result = segment +
  seg_status :: string
  currentTime :: "rat option"
  seg_delayMinutes :: rat
  seg_congestionLevel :: string
  seg_emoji :: string
  seg_source :: "string option"
  seg_error :: "string option"

text \<open>
  A record of the traffic endpoint's response as the monitor reads it. The emoji of a
  segment line is written by its name (\<open>check\<close>, \<open>red\<close>, \<open>orange\<close>, \<open>yellow\<close>, \<open>white\<close>).
\<close>

record api_record =
  api_travelTimeMinutes :: "rat option"
  api_delayMinutes :: "rat option"
  api_congestionLevel :: "string option"
  api_source :: "string option"

definition processSegmentData :: "segment \<Rightarrow> api_record list \<Rightarrow> segment_result" where
  "processSegmentData seg dat =
     (case dat of
        [] \<Rightarrow>
          segment.extend seg
            (segment_result.fields ''clear'' (Some (normalTime seg)) 0 ''none'' ''check''
               (Some ''estimate'') None)
      | d0 # _ \<Rightarrow>
          (let record = (case filter (\<lambda>d. truthy_num (api_travelTimeMinutes d)) dat of
                           [] \<Rightarrow> d0 | r # _ \<Rightarrow> r);
               current = or_num (api_travelTimeMinutes record) (normalTime seg);
               delay = or_num (api_delayMinutes record) (max 0 (current - normalTime seg));
               congestion = or_str (api_congestionLevel record) ''none''
           in segment.extend seg
                (segment_result.fields
                   (if delay \<ge> 10 then ''heavy'' else if delay \<ge> 5 then ''moderate''
                    else if delay \<ge> 2 then ''light'' else ''clear'')
                   (Some current) delay congestion
                   (if delay \<ge> 10 then ''red'' else if delay \<ge> 5 then ''orange''
                    else if delay \<ge> 2 then ''yellow'' else ''check'')
                   (Some (or_str (api_source record) ''unknown'')) None)))"

definition M1_SEGMENTS_southbound :: "segment list" where
  "M1_SEGMENTS_southbound =
     [\<lparr>seg_name = ''J10-J9 Drogheda'', seg_from = ''Drogheda North'', seg_to = ''Drogheda South'',
       seg_town = ''Drogheda'', normalTime = 5\<rparr>,
      \<lparr>seg_name = ''J9-J8 Drogheda-Duleek'', seg_from = ''Drogheda'', seg_to = ''Duleek'',
       seg_town = ''Duleek'', normalTime = 8\<rparr>,
      \<lparr>seg_name = ''J8-J7 Duleek-Julianstown'', seg_from = ''Duleek'', seg_to = ''Julianstown'',
       seg_town = ''Julianstown'', normalTime = 5\<rparr>,
      \<lparr>seg_name = ''J7-J6 Julianstown-Balbriggan'', seg_from = ''Julianstown'',
       seg_to = ''Balbriggan North'', seg_town = ''Balbriggan'', normalTime = 8\<rparr>,
      \<lparr>seg_name = ''J6-J5 Balbriggan'', seg_from = ''Balbriggan North'', seg_to = ''Balbriggan'',
       seg_town = ''Balbriggan'', normalTime = 3\<rparr>,
      \<lparr>seg_name = ''J5-J4 Balbriggan-Donabate'', seg_from = ''Balbriggan'', seg_to = ''Donabate'',
       seg_town = ''Donabate'', normalTime = 7\<rparr>,
      \<lparr>seg_name = ''J4-J3 Donabate-Swords'', seg_from = ''Donabate'', seg_to = ''Swords'',
       seg_town = ''Swords'', normalTime = 6\<rparr>,
      \<lparr>seg_name = ''J3-J1 Swords-M50'', seg_from = ''Swords'', seg_to = ''M50 Interchange'',
       seg_town = ''Swords'', normalTime = 5\<rparr>]"

text \<open>
  The recommendation line of the report. Each constructor is one of the four message
  templates of \<open>generateReport\<close> and carries the values interpolated into it: the
  rounded-up delay of the major message, the worst segment's name and the total delay
  of the significant and the minor message.
\<close>

datatype recommendation =
    MajorDelays rat
  | SignificantDelays string rat
  | MinorDelays rat string
  | RouteClear

datatype tier = Major | Significant | Minor | Clear

fun tier_of :: "recommendation \<Rightarrow> tier" where
  "tier_of (MajorDelays n) = Major"
| "tier_of (SignificantDelays w d) = Significant"
| "tier_of (MinorDelays d w) = Minor"
| "tier_of RouteClear = Clear"

text \<open>
  The report text as the values it is built from (the date line is left out): the
  route name, one line per segment (emoji, name, current time if known, delay if
  positive), the totals, the worst segment and the recommendation.
\<close>

record report =
  rp_routeName :: string
  rp_segmentLines :: "(string \<times> string \<times> rat option \<times> rat option) list"
  rp_totalCurrentTime :: rat
  rp_totalNormalTime :: rat
  rp_totalDelay :: rat
  rp_worstName :: string
  rp_worstDelay :: rat
  rp_recommendation :: recommendation

text \<open>\<open>xs.reduce(f)\<close> with no initial value: a \<open>TypeError\<close> on the empty array.\<close>

definition reduce1 :: "('a \<Rightarrow> 'a \<Rightarrow> 'a) \<Rightarrow> 'a list \<Rightarrow> exn + 'a" where
  "reduce1 f xs =
     (case xs of
        [] \<Rightarrow> Inl (TypeError ''Reduce of empty array with no initial value'')
      | x # rest \<Rightarrow> Inr (foldl f x rest))"

definition select_recommendation :: "rat \<Rightarrow> string \<Rightarrow> recommendation" where
  "select_recommendation totalDelay worstName =
     (if totalDelay \<ge> 15 then MajorDelays (Math_ceil (totalDelay / 5) * 5)
      else if totalDelay \<ge> 10 then SignificantDelays worstName totalDelay
      else if totalDelay \<ge> 5 then MinorDelays totalDelay worstName
      else RouteClear)"

definition generateReport :: "string \<Rightarrow> segment_result list \<Rightarrow> exn + report" where
  "generateReport direction segmentResults =
     (let isMorning = (direction = ''southbound'');
          routeName = (if isMorning then ''Drogheda -> Swords'' else ''Swords -> Drogheda'');
          totalNormalTime = foldl (\<lambda>acc s. acc + normalTime s) 0 segmentResults;
          totalCurrentTime =
            foldl (\<lambda>acc s. acc + or_num (currentTime s) (normalTime s)) 0 segmentResults;
          totalDelay = totalCurrentTime - totalNormalTime
      in case reduce1 (\<lambda>worst current.
                if seg_delayMinutes current > seg_delayMinutes worst then current else worst)
              segmentResults of
           Inl e \<Rightarrow> Inl e
         | Inr worstSegment \<Rightarrow>
             Inr \<lparr>rp_routeName = routeName,
                  rp_segmentLines =
                    map (\<lambda>s. (seg_emoji s, seg_name s,
                              (if truthy_num (currentTime s) then currentTime s else None),
                              (if seg_delayMinutes s > 0 then Some (seg_delayMinutes s) else None)))
                      segmentResults,
                  rp_totalCurrentTime = totalCurrentTime,
                  rp_totalNormalTime = totalNormalTime,
                  rp_totalDelay = totalDelay,
                  rp_worstName = seg_name worstSegment,
                  rp_worstDelay = seg_delayMinutes worstSegment,
                  rp_recommendation = select_recommendation totalDelay (seg_name worstSegment)\<rparr>)"

subsection \<open>Sample provider payloads\<close>

text \<open>
  A TII feed element for the M1 whose situation record reports the given travel time
  and free-flow travel time (the feed's unit: \<open>normalizeTIIRecord\<close> divides by 60 to get
  minutes).
\<close>

definition tii_item_with_times :: "rat \<Rightarrow> rat \<Rightarrow> tii_item" where
  "tii_item_with_times t f =
     (let sr = \<lparr>sr_roadName = Some ''M1'', sr_directionBound = Some ''Northbound'',
                sr_travelTime = Some t, sr_freeFlowTravelTime = Some f,
                sr_lat = None, sr_lon = None, sr_startLocation = None, sr_endLocation = None\<rparr>
      in \<lparr>it_situation = Some \<lparr>st_header_id = Some ''s1'', st_situationRecord = [sr]\<rparr>,
          it_situationRecord = [sr], it_road = None, it_lat = None, it_lon = None,
          it_publicationTime = Some ''2026-02-10T17:45:00.000Z'', it_id = None\<rparr>)"

text \<open>A WebTRIS site of the given length with its current report of the given speed.\<close>

definition webtris_site_of_length :: "string \<Rightarrow> rat \<Rightarrow> webtris_site" where
  "webtris_site_of_length ident len =
     \<lparr>site_id = Some ident, site_name = Some ''M1'', site_direction = Some ''Northbound'',
      site_typicalSpeed = None, site_length = Some len, site_latitude = None,
      site_longitude = None, site_area = None, site_description = None\<rparr>"

definition webtris_report_of_speed :: "string \<Rightarrow> rat \<Rightarrow> webtris_report" where
  "webtris_report_of_speed ident v =
     \<lparr>rep_siteId = Some ident, rep_speed = Some v, rep_averageSpeed = None,
      rep_vehicleFlow = None, rep_volume = None, rep_timestamp = None\<rparr>"

text \<open>
  A Google Maps route of one leg with the given free-flow duration and duration in
  traffic, in seconds (either may be missing).
\<close>

definition google_route_with :: "rat option \<Rightarrow> rat option \<Rightarrow> google_route" where
  "google_route_with duration inTraffic =
     \<lparr>route_legs = Some [\<lparr>leg_distance_value = Some 600, leg_duration_value = duration,
                           leg_duration_in_traffic_value = inTraffic,
                           leg_start_lat = None, leg_start_lng = None,
                           leg_end_lat = None, leg_end_lng = None,
                           leg_steps = [], leg_start_address = None,
                           leg_end_address = None\<rparr>],
      route_summary = None, route_warnings = []\<rparr>"

text \<open>
  The southbound route with every segment at its normal time except the fourth
  (J7-J6), whose traffic record reports \<open>8 + d\<close> minutes: a total delay of \<open>d\<close>.
\<close>

definition southbound_results :: "rat \<Rightarrow> segment_result list" where
  "southbound_results d =
     map (\<lambda>seg. processSegmentData seg
            (if seg_name seg = ''J7-J6 Julianstown-Balbriggan''
             then [\<lparr>api_travelTimeMinutes = Some (8 + d), api_delayMinutes = None,
                     api_congestionLevel = None, api_source = Some ''TII-Ireland''\<rparr>]
             else []))
       M1_SEGMENTS_southbound"

text \<open>
  The southbound route with two segments off their normal time: the third (J9-J8)
  reports \<open>8 + a\<close> minutes and the fourth (J7-J6) \<open>8 + b\<close>.
\<close>

definition southbound_results_two :: "rat \<Rightarrow> rat \<Rightarrow> segment_result list" where
  "southbound_results_two a b =
     map (\<lambda>seg. processSegmentData seg
            (if seg_name seg = ''J9-J8 Drogheda-Duleek''
             then [\<lparr>api_travelTimeMinutes = Some (8 + a), api_delayMinutes = None,
                     api_congestionLevel = None, api_source = Some ''TII-Ireland''\<rparr>]
             else if seg_name seg = ''J7-J6 Julianstown-Balbriggan''
             then [\<lparr>api_travelTimeMinutes = Some (8 + b), api_delayMinutes = None,
                     api_congestionLevel = None, api_source = Some ''TII-Ireland''\<rparr>]
             else []))
       M1_SEGMENTS_southbound"

subsection \<open>The unrounded times behind a normalised record\<close>

text \<open>
  The travel time and free-flow time that \<open>normalizeTIIRecord\<close> computes before it
  rounds (in the feed's unit), and the two times in minutes that
  \<open>normalizeWebTRISRecord\<close> computes before it rounds.
\<close>

definition tii_times :: "tii_item \<Rightarrow> rat \<times> rat" where
  "tii_times item =
     (let sr = first_situationRecord
                 (st_situationRecord (case it_situation item of None \<Rightarrow> empty_situation | Some s \<Rightarrow> s));
          t = or_num (sr_travelTime sr) 0
      in (t, or_num (sr_freeFlowTravelTime sr) t))"


subsection \<open>The world: clock, network, caches and counters\<close>

text \<open>
  What a provider answers to one request. \<open>Fails m\<close> is a rejected request (a timeout, a
  connection error or a non-2xx status; \<open>m\<close> is the error's message). \<open>Malformed m\<close> is a
  body on which the adapter's own code raises a \<open>TypeError\<close> with message \<open>m\<close> (a
  value that is truthy and no array where an array is read, a \<open>null\<close> element). The
  third constructor is what the adapter reads from any other body. The arrays are read
  as \<open>response.data?.situation || []\<close>, \<open>response.data?.sites || []\<close> and
  \<open>response.data?.reports || []\<close>, so a body that has no such array (an object of
  another shape, a text, an empty body) is the empty list, and raises nothing. A Google
  Maps body is its \<open>status\<close>, as text, and its \<open>routes\<close>, a body without routes being
  \<open>GoogleBody status []\<close>.
\<close>

datatype tii_response =
    TiiFails string
  | TiiMalformed string
  | TiiSituations "tii_item list"

datatype sites_response =
    SitesFails string
  | SitesMalformed string
  | SitesList "webtris_site list"

datatype reports_response =
    ReportsFails string
  | ReportsMalformed string
  | ReportsList "webtris_report list"

datatype google_response =
    GoogleFails string
  | GoogleMalformed string
  | GoogleBody string "google_route list"

text \<open>
  The network answers the \<open>k\<close>-th request a run issues (counted from 0, over all
  providers) as these functions say, and takes \<open>call_duration k\<close> milliseconds for it.
\<close>

record network =
  tii_feed :: "nat \<Rightarrow> tii_response"
  webtris_sites :: "nat \<Rightarrow> string \<Rightarrow> sites_response"
  webtris_reports :: "nat \<Rightarrow> string option list \<Rightarrow> reports_response"
  google_directions :: "nat \<Rightarrow> string \<Rightarrow> string \<Rightarrow> google_response"
  call_duration :: "nat \<Rightarrow> nat"

datatype request =
    GET_tii_traffic
  | GET_webtris_sites string
  | GET_webtris_reports "string option list"
  | GET_google_directions string string

text \<open>An adapter entry point that was invoked, with its arguments (observation only).\<close>

datatype adapter_call =
    Call_fetchTIITraffic string
  | Call_fetchWebTRISTraffic string
  | Call_fetchGoogleMapsTraffic string string "string option"

record cache_entry =
  ce_data :: "traffic_record list"
  ce_timestamp :: int

record api_call =
  ac_timestamp :: stamp
  ac_origin :: string
  ac_destination :: string
  ac_success :: bool

text \<open>
  \<open>clock\<close> is what \<open>Date.now()\<close> reads. The three caches and the two Google counters are
  the adapters' module-level variables, \<open>GOOGLE_MAPS_API_KEY\<close> the environment variable.
  \<open>requests\<close> lists the network requests issued so far and \<open>adapter_calls\<close> the adapter
  entry points invoked so far, oldest first; the program reads neither.
\<close>

record world =
  clock :: int
  net :: network
  requests :: "request list"
  adapter_calls :: "adapter_call list"
  tii_cache :: "string \<Rightarrow> cache_entry option"
  webtris_cache :: "string \<Rightarrow> cache_entry option"
  google_cache :: "string \<Rightarrow> cache_entry option"
  GOOGLE_MAPS_API_KEY :: "string option"
  apiCallCount :: nat
  apiCallHistory :: "api_call list"

definition CACHE_TTL_MS :: int where
  "CACHE_TTL_MS = 5 * 60 * 1000"

text \<open>Issuing a request: it is logged, and the clock advances by the call's duration.\<close>

definition issue :: "request \<Rightarrow> world \<Rightarrow> nat \<times> world" where
  "issue rq w =
     (let k = length (requests w)
      in (k, w\<lparr>clock := clock w + int (call_duration (net w) k),
               requests := requests w @ [rq]\<rparr>))"

definition enter :: "adapter_call \<Rightarrow> world \<Rightarrow> world" where
  "enter c w = w\<lparr>adapter_calls := adapter_calls w @ [c]\<rparr>"

definition isCacheValid :: "world \<Rightarrow> cache_entry option \<Rightarrow> bool" where
  "isCacheValid w cachedItem =
     (case cachedItem of
        None \<Rightarrow> False
      | Some c \<Rightarrow> clock w - ce_timestamp c < CACHE_TTL_MS)"

text \<open>What an adapter's fetch resolves with.\<close>

record fetch_result =
  r_data :: "traffic_record list"
  r_fromCache :: "bool option"
  r_error :: "string option"
  r_source :: string
  r_timestamp :: "stamp option"

subsection \<open>TII adapter: fetch (tiiAdapter.js)\<close>

definition tii_getCacheKey :: "string \<Rightarrow> string" where
  "tii_getCacheKey road = ''tii:'' @ toUpperCase road"

text \<open>The body of the \<open>try\<close> block of \<open>fetchTIITraffic\<close>.\<close>

definition fetchTIITraffic_try :: "world \<Rightarrow> string \<Rightarrow> string \<Rightarrow> (exn + fetch_result) \<times> world" where
  "fetchTIITraffic_try w road cacheKey =
     (let (k, w1) = issue GET_tii_traffic w
      in case tii_feed (net w) k of
           TiiFails m \<Rightarrow> (Inl (Error m), w1)
         | TiiMalformed m \<Rightarrow> (Inl (TypeError m), w1)
         | TiiSituations situations \<Rightarrow>
             (let filteredData =
                    (if road \<noteq> []
                     then filter (\<lambda>s. let rec = first_situationRecord (it_situationRecord s);
                                          roadName = toUpperCase (or_str (sr_roadName rec) [])
                                      in includes_str roadName (toUpperCase road))
                            situations
                     else situations);
                  normalizedData = map (\<lambda>s. TII (normalizeTIIRecord (clock w1) s)) filteredData;
                  w2 = w1\<lparr>tii_cache := (tii_cache w1)
                            (cacheKey \<mapsto> \<lparr>ce_data = normalizedData, ce_timestamp = clock w1\<rparr>)\<rparr>
              in (Inr \<lparr>r_data = normalizedData, r_fromCache = Some False, r_error = None,
                       r_source = ''TII-Ireland'', r_timestamp = Some (ISO (clock w1))\<rparr>, w2)))"

definition fetchTIITraffic :: "world \<Rightarrow> string \<Rightarrow> (exn + fetch_result) \<times> world" where
  "fetchTIITraffic w0 road =
     (let w = enter (Call_fetchTIITraffic road) w0;
          cacheKey = tii_getCacheKey road;
          cached = tii_cache w cacheKey
      in if isCacheValid w cached
         then (Inr \<lparr>r_data = ce_data (the cached), r_fromCache = Some True, r_error = None,
                    r_source = ''TII-Ireland'',
                    r_timestamp = Some (Millis (ce_timestamp (the cached)))\<rparr>, w)
         else (case fetchTIITraffic_try w road cacheKey of
                 (Inr r, w1) \<Rightarrow> (Inr r, w1)
               | (Inl e, w1) \<Rightarrow>
                   (Inr \<lparr>r_data = [], r_fromCache = None, r_error = Some (message e),
                         r_source = ''TII-Ireland'', r_timestamp = Some (ISO (clock w1))\<rparr>, w1)))"

subsection \<open>WebTRIS adapter: fetch (webtrisAdapter.js)\<close>

definition webtris_getCacheKey :: "string \<Rightarrow> string" where
  "webtris_getCacheKey road = ''webtris:'' @ toUpperCase road"

text \<open>
  \<open>fetchSites\<close> and \<open>fetchReports\<close> catch a rejected request themselves and return the
  empty array; what they return otherwise is the body's array, or a malformed value
  that raises only when the caller reads it.
\<close>

definition fetchSites :: "world \<Rightarrow> string \<Rightarrow> sites_response \<times> world" where
  "fetchSites w road =
     (let (k, w1) = issue (GET_webtris_sites (toUpperCase road)) w
      in case webtris_sites (net w) k (toUpperCase road) of
           SitesFails m \<Rightarrow> (SitesList [], w1)
         | other \<Rightarrow> (other, w1))"

definition fetchReports :: "world \<Rightarrow> string option list \<Rightarrow> reports_response \<times> world" where
  "fetchReports w siteIds =
     (if siteIds = [] then (ReportsList [], w)
      else let (k, w1) = issue (GET_webtris_reports siteIds) w
           in case webtris_reports (net w) k siteIds of
                ReportsFails m \<Rightarrow> (ReportsList [], w1)
              | other \<Rightarrow> (other, w1))"

text \<open>\<open>reports.find(r => r.siteId === site.id) || {}\<close>\<close>

definition find_report :: "webtris_report list \<Rightarrow> webtris_site \<Rightarrow> webtris_report" where
  "find_report reports site =
     (case filter (\<lambda>r. rep_siteId r = site_id site) reports of
        [] \<Rightarrow> empty_report
      | r # _ \<Rightarrow> r)"

text \<open>The body of the \<open>try\<close> block of \<open>fetchWebTRISTraffic\<close>.\<close>

definition fetchWebTRISTraffic_try :: "world \<Rightarrow> string \<Rightarrow> string \<Rightarrow> (exn + fetch_result) \<times> world" where
  "fetchWebTRISTraffic_try w road cacheKey =
     (case fetchSites w road of
        (SitesFails m, w1) \<Rightarrow> (Inl (Error m), w1)
      | (SitesMalformed m, w1) \<Rightarrow> (Inl (TypeError m), w1)
      | (SitesList sites, w1) \<Rightarrow>
          if sites = []
          then (Inr \<lparr>r_data = [], r_fromCache = None, r_error = None,
                     r_source = ''WebTRIS-UK'', r_timestamp = Some (ISO (clock w1))\<rparr>, w1)
          else (case fetchReports w1 (map site_id sites) of
                  (ReportsFails m, w2) \<Rightarrow> (Inl (Error m), w2)
                | (ReportsMalformed m, w2) \<Rightarrow> (Inl (TypeError m), w2)
                | (ReportsList reports, w2) \<Rightarrow>
                    (let dat = map (\<lambda>site. WebTRIS (normalizeWebTRISRecord (clock w2) site
                                                       (find_report reports site))) sites;
                         w3 = w2\<lparr>webtris_cache := (webtris_cache w2)
                                   (cacheKey \<mapsto> \<lparr>ce_data = dat, ce_timestamp = clock w2\<rparr>)\<rparr>
                     in (Inr \<lparr>r_data = dat, r_fromCache = Some False, r_error = None,
                              r_source = ''WebTRIS-UK'',
                              r_timestamp = Some (ISO (clock w2))\<rparr>, w3))))"

definition fetchWebTRISTraffic :: "world \<Rightarrow> string \<Rightarrow> (exn + fetch_result) \<times> world" where
  "fetchWebTRISTraffic w0 road =
     (let w = enter (Call_fetchWebTRISTraffic road) w0;
          cacheKey = webtris_getCacheKey road;
          cached = webtris_cache w cacheKey
      in if isCacheValid w cached
         then (Inr \<lparr>r_data = ce_data (the cached), r_fromCache = Some True, r_error = None,
                    r_source = ''WebTRIS-UK'',
                    r_timestamp = Some (Millis (ce_timestamp (the cached)))\<rparr>, w)
         else (case fetchWebTRISTraffic_try w road cacheKey of
                 (Inr r, w1) \<Rightarrow> (Inr r, w1)
               | (Inl e, w1) \<Rightarrow>
                   (Inr \<lparr>r_data = [], r_fromCache = None, r_error = Some (message e),
                         r_source = ''WebTRIS-UK'', r_timestamp = Some (ISO (clock w1))\<rparr>, w1)))"

subsection \<open>Google Maps adapter: fetch (googleMapsAdapter.js)\<close>

definition google_getCacheKey :: "string \<Rightarrow> string \<Rightarrow> string" where
  "google_getCacheKey origin destination =
     ''googlemaps:'' @ toLowerCase origin @ '':'' @ toLowerCase destination"

definition trackAPICall :: "string \<Rightarrow> string \<Rightarrow> bool \<Rightarrow> world \<Rightarrow> world" where
  "trackAPICall origin destination success w =
     (let history = apiCallHistory w
                      @ [\<lparr>ac_timestamp = ISO (clock w), ac_origin = origin,
                           ac_destination = destination, ac_success = success\<rparr>]
      in w\<lparr>apiCallCount := apiCallCount w + 1,
           apiCallHistory := (if length history > 100
                              then drop (length history - 100) history else history)\<rparr>)"

text \<open>The body of the \<open>try\<close> block of \<open>fetchGoogleMapsTraffic\<close>.\<close>

definition fetchGoogleMapsTraffic_try ::
  "world \<Rightarrow> string \<Rightarrow> string \<Rightarrow> string option \<Rightarrow> string \<Rightarrow> (exn + fetch_result) \<times> world" where
  "fetchGoogleMapsTraffic_try w origin destination road cacheKey =
     (let (k, w1) = issue (GET_google_directions origin destination) w
      in case google_directions (net w) k origin destination of
           GoogleFails m \<Rightarrow> (Inl (Error m), w1)
         | GoogleMalformed m \<Rightarrow> (Inl (TypeError m), w1)
         | GoogleBody status routes \<Rightarrow>
             if status \<noteq> ''OK''
             then (let w2 = trackAPICall origin destination False w1
                   in (Inr \<lparr>r_data = [], r_fromCache = None,
                            r_error = Some (''Google Maps API Error: '' @ status),
                            r_source = ''GoogleMaps'',
                            r_timestamp = Some (ISO (clock w2))\<rparr>, w2))
             else (case routes of
                     [] \<Rightarrow>
                       (let w2 = trackAPICall origin destination False w1
                        in (Inr \<lparr>r_data = [], r_fromCache = None, r_error = None,
                                 r_source = ''GoogleMaps'',
                                 r_timestamp = Some (ISO (clock w2))\<rparr>, w2))
                   | route # _ \<Rightarrow>
                       (case normalizeGoogleMapsData (clock w1) route origin destination road of
                          Inl e \<Rightarrow> (Inl e, w1)
                        | Inr normalizedData \<Rightarrow>
                            (let w2 = w1\<lparr>google_cache := (google_cache w1)
                                          (cacheKey \<mapsto> \<lparr>ce_data = [GoogleMaps normalizedData],
                                                       ce_timestamp = clock w1\<rparr>)\<rparr>;
                                 w3 = trackAPICall origin destination True w2
                             in (Inr \<lparr>r_data = [GoogleMaps normalizedData],
                                      r_fromCache = Some False, r_error = None,
                                      r_source = ''GoogleMaps'',
                                      r_timestamp = Some (ISO (clock w3))\<rparr>, w3)))))"

definition fetchGoogleMapsTraffic ::
  "world \<Rightarrow> string \<Rightarrow> string \<Rightarrow> string option \<Rightarrow> (exn + fetch_result) \<times> world" where
  "fetchGoogleMapsTraffic w0 origin destination road =
     (let w = enter (Call_fetchGoogleMapsTraffic origin destination road) w0
      in if \<not> truthy_str (GOOGLE_MAPS_API_KEY w)
         then (Inr \<lparr>r_data = [], r_fromCache = None,
                    r_error = Some ''Google Maps API Key not configured'',
                    r_source = ''GoogleMaps'', r_timestamp = None\<rparr>, w)
         else let cacheKey = google_getCacheKey origin destination;
                  cached = google_cache w cacheKey
              in if isCacheValid w cached
                 then (Inr \<lparr>r_data = ce_data (the cached), r_fromCache = Some True,
                            r_error = None, r_source = ''GoogleMaps'',
                            r_timestamp = Some (Millis (ce_timestamp (the cached)))\<rparr>, w)
                 else (case fetchGoogleMapsTraffic_try w origin destination road cacheKey of
                         (Inr r, w1) \<Rightarrow> (Inr r, w1)
                       | (Inl e, w1) \<Rightarrow>
                           (let w2 = trackAPICall origin destination False w1
                            in (Inr \<lparr>r_data = [], r_fromCache = None,
                                     r_error = Some (message e), r_source = ''GoogleMaps'',
                                     r_timestamp = Some (ISO (clock w2))\<rparr>, w2))))"

text \<open>\<open>parts.join(', ')\<close>\<close>

fun join_comma :: "string list \<Rightarrow> string" where
  "join_comma [] = []"
| "join_comma [p] = p"
| "join_comma (p # q # ps) = p @ '', '' @ join_comma (q # ps)"

definition buildLocationQuery :: "string \<Rightarrow> string option \<Rightarrow> string option \<Rightarrow> string" where
  "buildLocationQuery road town country =
     join_comma ([road] @ (if truthy_str town then [the town] else [])
                        @ (if truthy_str country then [the country] else []))"

text \<open>
  \<open>fetchRoadTraffic\<close>: one call with the town (or the whole location) as origin, and, when
  that call has no data and a town is given, a second call with the alternative
  phrasing. An exception of the first call would leave the function at once.
\<close>

definition fetchRoadTraffic ::
  "world \<Rightarrow> string \<Rightarrow> string option \<Rightarrow> string option \<Rightarrow> (exn + fetch_result) \<times> world" where
  "fetchRoadTraffic w road town country =
     (let location = buildLocationQuery road town country;
          origin = (if truthy_str town then the town @ '' '' @ or_str country [] else location);
          destination = location
      in case fetchGoogleMapsTraffic w origin destination (Some road) of
           (Inl e, w1) \<Rightarrow> (Inl e, w1)
         | (Inr result, w1) \<Rightarrow>
             if r_data result = [] \<and> truthy_str town
             then (let altOrigin = ''Near '' @ road @ '', '' @ the town;
                       altDest = ''End of '' @ road @ '', '' @ the town
                   in fetchGoogleMapsTraffic w1 altOrigin altDest (Some road))
             else (Inr result, w1))"

subsection \<open>Road patterns\<close>

text \<open>\<open>/^(M|N|A)[0-9]+/i\<close>: one of the three letters, then a digit.\<close>

definition matches_MNA_digits :: "string \<Rightarrow> bool" where
  "matches_MNA_digits road =
     (case road of
        c # d # _ \<Rightarrow> upperChar c \<in> {CHR ''M'', CHR ''N'', CHR ''A''} \<and> isDigit d
      | _ \<Rightarrow> False)"

text \<open>\<open>/^X[0-9]+$/i\<close> for a letter \<open>X\<close>.\<close>

definition matches_letter_digits :: "char \<Rightarrow> string \<Rightarrow> bool" where
  "matches_letter_digits x road =
     (case road of
        [] \<Rightarrow> False
      | c # ds \<Rightarrow> upperChar c = x \<and> ds \<noteq> [] \<and> list_all isDigit ds)"

text \<open>\<open>/^X[0-9]+[A-Z]?$/i\<close> for a letter \<open>X\<close>.\<close>

definition matches_letter_digits_suffix :: "char \<Rightarrow> string \<Rightarrow> bool" where
  "matches_letter_digits_suffix x road =
     (case road of
        [] \<Rightarrow> False
      | c # rest \<Rightarrow>
          upperChar c = x \<and> takeWhile isDigit rest \<noteq> []
          \<and> (case dropWhile isDigit rest of
                [] \<Rightarrow> True
              | [l] \<Rightarrow> isLetter l
              | _ \<Rightarrow> False))"

definition isIrishRoad :: "string \<Rightarrow> bool" where
  "isIrishRoad road =
     (matches_letter_digits CHR ''M'' road
      \<or> matches_letter_digits CHR ''N'' road
      \<or> matches_letter_digits CHR ''R'' road
      \<or> matches_letter_digits CHR ''L'' road
      \<or> list_ex (\<lambda>word. test_word_i word road)
           [''Dublin'', ''Cork'', ''Galway'', ''Limerick'', ''Waterford'', ''Drogheda'',
            ''Swords'', ''Dundalk''])"

text \<open>
  The alternatives of a regular expression group \<open>(a|b|...)\<close>, read off its text.
\<close>

fun alternatives :: "string \<Rightarrow> string \<Rightarrow> string list" where
  "alternatives [] cur = [cur]"
| "alternatives (c # cs) cur =
     (if c = CHR ''|'' then cur # alternatives cs [] else alternatives cs (cur @ [c]))"

text \<open>The motorway numbers of the pattern \<open>isLikelyIrish\<close>.\<close>

definition irish_motorway_numbers :: "string list" where
  "irish_motorway_numbers =
     alternatives
       ''1|2|3|4|5|6|7|8|9|11|17|18|20|50|54|55|56|57|61|62|63|64|65|66|67|68|69|70|71|72|73|74|75|76|77|78|79|80|81|82|83|84|85|86|87|88|89''
       []"

definition isLikelyIrish :: "string \<Rightarrow> bool" where
  "isLikelyIrish road =
     (case road of
        [] \<Rightarrow> False
      | c # num \<Rightarrow> upperChar c = CHR ''M'' \<and> num \<in> set irish_motorway_numbers)"

definition isUKRoad :: "string \<Rightarrow> bool" where
  "isUKRoad road =
     ((matches_letter_digits_suffix CHR ''M'' road
       \<or> matches_letter_digits_suffix CHR ''A'' road
       \<or> matches_letter_digits CHR ''B'' road
       \<or> list_ex (\<lambda>word. test_word_i word road)
            [''Motorway'', ''Milton Keynes'', ''Birmingham'', ''Manchester'', ''London'',
             ''Leeds'', ''Glasgow'', ''Edinburgh''])
      \<and> \<not> isLikelyIrish road)"

definition isGoogleMapsPreferred :: "string \<Rightarrow> string option \<Rightarrow> string option \<Rightarrow> bool" where
  "isGoogleMapsPreferred road town country =
     (if truthy_str town \<and> \<not> matches_MNA_digits road then True
      else if truthy_str country
              \<and> toUpperCase (the country)
                  \<in> set [''US'', ''FR'', ''DE'', ''ES'', ''IT'', ''NL'', ''BE'', ''AT'', ''CH'', ''PT'']
           then True
      else if list_ex (\<lambda>word. test_word_i word road)
                [''street'', ''road'', ''avenue'', ''lane'', ''drive'', ''way'', ''boulevard'']
           then True
      else False)"

subsection \<open>The orchestrator \<open>fetchTrafficWithFallback\<close> (server.js)\<close>

text \<open>
  The text of an array length in a template literal (\<open>`${tiiResult.data.length}`\<close>): its
  decimal digits.
\<close>

definition digit :: "nat \<Rightarrow> char" where
  "digit d = ''0123456789'' ! d"

fun decimal :: "nat \<Rightarrow> string" where
  "decimal n = (if n \<le> 9 then [digit n] else decimal (n div 10) @ [digit (n mod 10)])"

declare decimal.simps [simp del]

record detail =
  d_step :: string
  d_fromCache :: "bool option"
  d_error :: "string option"

record results =
  data :: "traffic_record list"
  sourcesUsed :: "string list"
  fallbackUsed :: bool
  errors :: "string list"
  details :: "detail list"

definition normalizedCountry_of :: "string option \<Rightarrow> string" where
  "normalizedCountry_of country = (if truthy_str country then toUpperCase (the country) else ''ALL'')"

definition isLocalStreet :: "string \<Rightarrow> string option \<Rightarrow> bool" where
  "isLocalStreet road town = (truthy_str town \<and> \<not> matches_MNA_digits road)"

definition tii_applies :: "string \<Rightarrow> string option \<Rightarrow> bool" where
  "tii_applies road country =
     ((normalizedCountry_of country = ''ALL'' \<or> normalizedCountry_of country = ''IE'')
      \<and> (isIrishRoad road \<or> toUpperCase road = ''M1''))"

definition webtris_applies :: "string \<Rightarrow> string option \<Rightarrow> bool" where
  "webtris_applies road country =
     ((normalizedCountry_of country = ''ALL'' \<or> normalizedCountry_of country = ''UK'')
      \<and> (isUKRoad road \<or> toUpperCase road = ''M1''))"

text \<open>
  The three stages of the function body, each from the results and the world so far:
  the TII block, the WebTRIS block, and the Google Maps block with its decision
  \<open>shouldTryGoogle\<close>. \<open>label\<close> is the name the trace lines use for the adapter.
\<close>

definition record_free_result :: "string \<Rightarrow> string \<Rightarrow> fetch_result \<Rightarrow> results \<Rightarrow> results" where
  "record_free_result label sourceName res rs =
     (let rs1 = rs\<lparr>sourcesUsed := sourcesUsed rs @ [sourceName]\<rparr>
      in if r_data res \<noteq> []
         then rs1\<lparr>data := data rs1 @ r_data res,
                  details := details rs1
                    @ [\<lparr>d_step = label @ '' returned '' @ decimal (length (r_data res))
                                  @ '' records'',
                         d_fromCache = r_fromCache res, d_error = None\<rparr>]\<rparr>
         else rs1\<lparr>details := details rs1
                    @ [\<lparr>d_step = label @ '' returned no data'', d_fromCache = None,
                         d_error = r_error res\<rparr>]\<rparr>)"

definition tii_stage :: "string \<Rightarrow> string option \<Rightarrow> results \<times> world \<Rightarrow> (exn + results) \<times> world" where
  "tii_stage road country st =
     (let (rs, w) = st
      in if tii_applies road country
         then (let rs1 = rs\<lparr>details := details rs
                           @ [\<lparr>d_step = ''Trying TII (Ireland) for '' @ road,
                                d_fromCache = None, d_error = None\<rparr>]\<rparr>
               in case fetchTIITraffic w road of
                    (Inl e, w1) \<Rightarrow> (Inl e, w1)
                  | (Inr tiiResult, w1) \<Rightarrow>
                      (Inr (record_free_result ''TII'' ''TII-Ireland'' tiiResult rs1), w1))
         else (Inr rs, w))"

definition webtris_stage :: "string \<Rightarrow> string option \<Rightarrow> results \<times> world \<Rightarrow> (exn + results) \<times> world" where
  "webtris_stage road country st =
     (let (rs, w) = st
      in if webtris_applies road country
         then (let rs1 = rs\<lparr>details := details rs
                           @ [\<lparr>d_step = ''Trying WebTRIS (UK) for '' @ road,
                                d_fromCache = None, d_error = None\<rparr>]\<rparr>
               in case fetchWebTRISTraffic w road of
                    (Inl e, w1) \<Rightarrow> (Inl e, w1)
                  | (Inr webtrisResult, w1) \<Rightarrow>
                      (Inr (record_free_result ''WebTRIS'' ''WebTRIS-UK'' webtrisResult rs1), w1))
         else (Inr rs, w))"

definition shouldTryGoogle :: "string \<Rightarrow> string option \<Rightarrow> string option \<Rightarrow> results \<Rightarrow> bool" where
  "shouldTryGoogle road country town rs =
     (let hasFreeData = (data rs \<noteq> [])
      in \<not> hasFreeData \<or> isLocalStreet road town \<or> isGoogleMapsPreferred road town country)"

definition countryName_of :: "string option \<Rightarrow> string" where
  "countryName_of country =
     (let normalizedCountry = normalizedCountry_of country
      in if normalizedCountry = ''IE'' then ''Ireland''
         else if normalizedCountry = ''UK'' then ''United Kingdom''
         else if normalizedCountry = ''ALL'' then []
         else normalizedCountry)"

definition google_stage ::
  "string \<Rightarrow> string option \<Rightarrow> string option \<Rightarrow> results \<times> world \<Rightarrow> (exn + results) \<times> world" where
  "google_stage road country town st =
     (let (rs, w) = st
      in if shouldTryGoogle road country town rs
         then (let rs1 = rs\<lparr>details := details rs
                             @ [\<lparr>d_step = ''Falling back to Google Maps for '' @ road,
                                  d_fromCache = None, d_error = None\<rparr>],
                           fallbackUsed := True,
                           sourcesUsed := sourcesUsed rs @ [''GoogleMaps'']\<rparr>
               in case fetchRoadTraffic w road town (Some (countryName_of country)) of
                    (Inl e, w1) \<Rightarrow> (Inl e, w1)
                  | (Inr googleResult, w1) \<Rightarrow>
                      if r_data googleResult \<noteq> []
                      then (Inr (rs1\<lparr>data := data rs1 @ r_data googleResult,
                                     details := details rs1
                                       @ [\<lparr>d_step = ''Google Maps returned ''
                                               @ decimal (length (r_data googleResult))
                                               @ '' records'',
                                            d_fromCache = r_fromCache googleResult,
                                            d_error = None\<rparr>]\<rparr>), w1)
                      else (Inr (rs1\<lparr>details := details rs1
                                       @ [\<lparr>d_step = ''Google Maps returned no data'',
                                            d_fromCache = None,
                                            d_error = r_error googleResult\<rparr>],
                                     errors := (if truthy_str (r_error googleResult)
                                                then errors rs1 @ [the (r_error googleResult)]
                                                else errors rs1)\<rparr>), w1))
         else (Inr rs, w))"

definition initial_results :: results where
  "initial_results = \<lparr>data = [], sourcesUsed = [], fallbackUsed = False, errors = [], details = []\<rparr>"

definition free_stages :: "world \<Rightarrow> string \<Rightarrow> string option \<Rightarrow> (exn + results) \<times> world" where
  "free_stages w road country =
     (case tii_stage road country (initial_results, w) of
        (Inl e, w1) \<Rightarrow> (Inl e, w1)
      | (Inr rs1, w1) \<Rightarrow> webtris_stage road country (rs1, w1))"

definition fetchTrafficWithFallback ::
  "world \<Rightarrow> string \<Rightarrow> string option \<Rightarrow> string option \<Rightarrow> (exn + results) \<times> world" where
  "fetchTrafficWithFallback w road country town =
     (case free_stages w road country of
        (Inl e, w2) \<Rightarrow> (Inl e, w2)
      | (Inr rs2, w2) \<Rightarrow> google_stage road country town (rs2, w2))"

subsection \<open>Observing a run\<close>

text \<open>
  The adapter entry points invoked between two worlds of one run, and those of them
  that are calls of the commercial adapter \<open>fetchGoogleMapsTraffic\<close>.
\<close>

fun is_google_call :: "adapter_call \<Rightarrow> bool" where
  "is_google_call (Call_fetchGoogleMapsTraffic origin destination road) = True"
| "is_google_call other = False"

definition calls_since :: "world \<Rightarrow> world \<Rightarrow> adapter_call list" where
  "calls_since w w' = drop (length (adapter_calls w)) (adapter_calls w')"

definition google_calls_since :: "world \<Rightarrow> world \<Rightarrow> adapter_call list" where
  "google_calls_since w w' = filter is_google_call (calls_since w w')"

definition requests_since :: "world \<Rightarrow> world \<Rightarrow> request list" where
  "requests_since w w' = drop (length (requests w)) (requests w')"

text \<open>The origin and destination of the first commercial call, as \<open>fetchRoadTraffic\<close> builds them.\<close>

definition first_origin :: "string \<Rightarrow> string option \<Rightarrow> string option \<Rightarrow> string" where
  "first_origin road town country =
     (if truthy_str town then the town @ '' '' @ or_str country []
      else buildLocationQuery road town country)"

text \<open>The passing of time between two operations.\<close>

definition advance :: "int \<Rightarrow> world \<Rightarrow> world" where
  "advance dt w = w\<lparr>clock := clock w + dt\<rparr>"

subsection \<open>Sample networks and worlds\<close>

text \<open>A network on which every request is rejected after ten seconds.\<close>

definition dead_network :: network where
  "dead_network =
     \<lparr>tii_feed = (\<lambda>k. TiiFails ''timeout of 10000ms exceeded''),
      webtris_sites = (\<lambda>k road. SitesFails ''timeout of 10000ms exceeded''),
      webtris_reports = (\<lambda>k ids. ReportsFails ''timeout of 10000ms exceeded''),
      google_directions = (\<lambda>k origin destination. GoogleFails ''timeout of 10000ms exceeded''),
      call_duration = (\<lambda>k. 10000)\<rparr>"

text \<open>
  A network on which TII reports the M1 at 1680 against 1320 seconds, WebTRIS knows one
  M1 site of 7 km at 65 km/h, and Google Maps finds a route of 600 against 780 seconds;
  every request takes 120 ms.
\<close>

definition live_network :: network where
  "live_network =
     \<lparr>tii_feed = (\<lambda>k. TiiSituations [tii_item_with_times 1680 1320]),
      webtris_sites = (\<lambda>k road. SitesList [webtris_site_of_length ''19446'' 7]),
      webtris_reports = (\<lambda>k ids. ReportsList [webtris_report_of_speed ''19446'' 65]),
      google_directions =
        (\<lambda>k origin destination. GoogleBody ''OK'' [google_route_with (Some 600) (Some 780)]),
      call_duration = (\<lambda>k. 120)\<rparr>"

text \<open>A world with empty caches at clock reading 1000000.\<close>

definition fresh_world :: "network \<Rightarrow> string option \<Rightarrow> world" where
  "fresh_world n key =
     \<lparr>clock = 1000000, net = n, requests = [], adapter_calls = [],
      tii_cache = Map.empty, webtris_cache = Map.empty, google_cache = Map.empty,
      GOOGLE_MAPS_API_KEY = key, apiCallCount = 0, apiCallHistory = []\<rparr>"

text \<open>The live network with the TII feed timing out.\<close>

definition tii_down_network :: network where
  "tii_down_network = live_network\<lparr>tii_feed := (\<lambda>k. TiiFails ''timeout of 10000ms exceeded'')\<rparr>"

text \<open>A network that gives each provider one fixed answer; every request takes 120 ms.\<close>

definition network_with ::
  "tii_response \<Rightarrow> sites_response \<Rightarrow> reports_response \<Rightarrow> google_response \<Rightarrow> network" where
  "network_with t s r g =
     \<lparr>tii_feed = (\<lambda>k. t), webtris_sites = (\<lambda>k road. s), webtris_reports = (\<lambda>k ids. r),
      google_directions = (\<lambda>k origin destination. g), call_duration = (\<lambda>k. 120)\<rparr>"

subsection \<open>JavaScript values (extractSegment.js)\<close>

text \<open>
  The segment enrichment, in its multi-provider version, takes whatever its caller
  passes, raw text or a record object (the body of \<open>POST /extract-json\<close> reaches it
  unchecked), and reads the reply of the language model the same way. Its values are
  therefore untyped: \<open>undefined\<close>, \<open>null\<close>,
  booleans, numbers, strings, arrays and objects (an object is the list of its
  properties; the first binding of a name is the one read).
\<close>

datatype jsvalue =
    JUndefined
  | JNull
  | JBool bool
  | JNum rat
  | JStr string
  | JArr "jsvalue list"
  | JObj "(string \<times> jsvalue) list"

fun truthy :: "jsvalue \<Rightarrow> bool" where
  "truthy JUndefined = False"
| "truthy JNull = False"
| "truthy (JBool b) = b"
| "truthy (JNum n) = (n \<noteq> 0)"
| "truthy (JStr s) = (s \<noteq> [])"
| "truthy (JArr xs) = True"
| "truthy (JObj kvs) = True"

text \<open>\<open>a || b\<close> and \<open>a || null\<close>\<close>

definition or_js :: "jsvalue \<Rightarrow> jsvalue \<Rightarrow> jsvalue" where
  "or_js a b = (if truthy a then a else b)"

definition or_null :: "jsvalue \<Rightarrow> jsvalue" where
  "or_null a = or_js a JNull"

text \<open>
  \<open>x.name\<close> on a value other than \<open>undefined\<close> and \<open>null\<close> (on those the read throws, which
  each caller writes out), for the names this module reads: none of them is a property
  of a string, a number, a boolean or an array.
\<close>

definition property :: "jsvalue \<Rightarrow> string \<Rightarrow> jsvalue" where
  "property x name =
     (case x of
        JObj kvs \<Rightarrow> (case map_of kvs name of None \<Rightarrow> JUndefined | Some v \<Rightarrow> v)
      | _ \<Rightarrow> JUndefined)"

text \<open>\<open>x?.name\<close> and \<open>x?.[i]\<close>\<close>

definition opt_property :: "jsvalue \<Rightarrow> string \<Rightarrow> jsvalue" where
  "opt_property x name = (if x = JUndefined \<or> x = JNull then JUndefined else property x name)"

definition opt_index :: "jsvalue \<Rightarrow> nat \<Rightarrow> jsvalue" where
  "opt_index x i =
     (case x of
        JArr xs \<Rightarrow> if i < length xs then xs ! i else JUndefined
      | JStr s \<Rightarrow> if i < length s then JStr [s ! i] else JUndefined
      | JObj kvs \<Rightarrow> property x (decimal i)
      | _ \<Rightarrow> JUndefined)"

fun join_with :: "string \<Rightarrow> string list \<Rightarrow> string" where
  "join_with sep [] = []"
| "join_with sep [p] = p"
| "join_with sep (p # q # ps) = p @ sep @ join_with sep (q # ps)"

text \<open>
  The text of a value in a template literal or in \<open>Array.prototype.join\<close>. The text of a
  number is left to the host (\<open>num\<close>): the model has no floating point to print.
\<close>

fun String_of :: "(rat \<Rightarrow> string) \<Rightarrow> jsvalue \<Rightarrow> string" where
  "String_of num JUndefined = ''undefined''"
| "String_of num JNull = ''null''"
| "String_of num (JBool b) = (if b then ''true'' else ''false'')"
| "String_of num (JNum n) = num n"
| "String_of num (JStr s) = s"
| "String_of num (JArr xs) =
     join_with '',''
       (map (\<lambda>x. if x = JUndefined \<or> x = JNull then [] else String_of num x) xs)"
| "String_of num (JObj kvs) = ''[object Object]''"

text \<open>The decimal digits of an integer, and its text with the sign.\<close>

function int_digits :: "int \<Rightarrow> string" where
  "int_digits i =
     (if i \<le> 9 then [digit (nat i)] else int_digits (i div 10) @ [digit (nat (i mod 10))])"
  by pat_completeness auto

termination int_digits
  by (relation "measure nat") auto

declare int_digits.simps [simp del]

definition int_text :: "int \<Rightarrow> string" where
  "int_text i = (if i < 0 then ''-'' @ int_digits (- i) else int_digits i)"

text \<open>
  \<open>x.toFixed(3)\<close> on a number below \<open>10^21\<close>: the nearest multiple of \<open>0.001\<close>, the larger one
  on a tie, after the sign of \<open>x\<close>.
\<close>

definition toFixed3 :: "rat \<Rightarrow> string" where
  "toFixed3 x =
     (let n = \<lfloor>\<bar>x\<bar> * 1000 + 1 / 2\<rfloor>;
          thousandths = int_digits (n mod 1000);
          digits = int_digits (n div 1000) @ ''.''
                     @ replicate (3 - length thousandths) (CHR ''0'') @ thousandths
      in if x < 0 then ''-'' @ digits else digits)"

text \<open>
  The method call \<open>v.toFixed(3)\<close> on the variable named \<open>name\<close>: only a number has the
  method.
\<close>

definition call_toFixed :: "string \<Rightarrow> jsvalue \<Rightarrow> exn + string" where
  "call_toFixed name v =
     (case v of
        JNum n \<Rightarrow> Inr (toFixed3 n)
      | JUndefined \<Rightarrow> Inl (TypeError ''Cannot read properties of undefined (reading toFixed)'')
      | JNull \<Rightarrow> Inl (TypeError ''Cannot read properties of null (reading toFixed)'')
      | _ \<Rightarrow> Inl (TypeError (name @ ''.toFixed is not a function'')))"

subsection \<open>Regular expressions\<close>

text \<open>
  The regular expressions of the module, as syntax trees, and a backtracking matcher
  that lists the ways an expression can match at a position in the order the language
  tries them (greedy repetition the longest first, lazy repetition the shortest first).
\<close>

datatype regex =
    Class "char \<Rightarrow> bool"
  | Boundary
  | Empty
  | Then regex regex
  | Or regex regex
  | Many regex
  | Few regex
  | Group nat regex

record mstate =
  behind :: "char option"
  ahead :: string
  groups :: "nat \<Rightarrow> string option"

definition isWordChar :: "char \<Rightarrow> bool" where
  "isWordChar c = (isLetter c \<or> isDigit c \<or> c = CHR ''_'')"

text \<open>\<open>\b\<close>: exactly one of the characters around the position is a word character.\<close>

definition atBoundary :: "mstate \<Rightarrow> bool" where
  "atBoundary st =
     ((case behind st of None \<Rightarrow> False | Some c \<Rightarrow> isWordChar c)
      \<noteq> (case ahead st of [] \<Rightarrow> False | c # _ \<Rightarrow> isWordChar c))"

definition consumed :: "mstate \<Rightarrow> mstate \<Rightarrow> string" where
  "consumed st st' = take (length (ahead st) - length (ahead st')) (ahead st)"

text \<open>
  \<open>r*\<close> and \<open>r*?\<close>: a round that consumes nothing is dropped, so there are at most as
  many rounds as characters ahead.
\<close>

fun many :: "nat \<Rightarrow> (mstate \<Rightarrow> mstate list) \<Rightarrow> mstate \<Rightarrow> mstate list" where
  "many 0 f st = [st]"
| "many (Suc n) f st =
     concat (map (many n f) (filter (\<lambda>st'. length (ahead st') < length (ahead st)) (f st)))
     @ [st]"

fun few :: "nat \<Rightarrow> (mstate \<Rightarrow> mstate list) \<Rightarrow> mstate \<Rightarrow> mstate list" where
  "few 0 f st = [st]"
| "few (Suc n) f st =
     st # concat (map (few n f) (filter (\<lambda>st'. length (ahead st') < length (ahead st)) (f st)))"

primrec attempts :: "regex \<Rightarrow> mstate \<Rightarrow> mstate list" where
  "attempts (Class p) st =
     (case ahead st of
        [] \<Rightarrow> []
      | c # cs \<Rightarrow> if p c then [st\<lparr>behind := Some c, ahead := cs\<rparr>] else [])"
| "attempts Boundary st = (if atBoundary st then [st] else [])"
| "attempts Empty st = [st]"
| "attempts (Then a b) st = concat (map (attempts b) (attempts a st))"
| "attempts (Or a b) st = attempts a st @ attempts b st"
| "attempts (Many a) st = many (length (ahead st)) (attempts a) st"
| "attempts (Few a) st = few (length (ahead st)) (attempts a) st"
| "attempts (Group i a) st =
     map (\<lambda>st'. st'\<lparr>groups := (groups st')(i \<mapsto> consumed st st')\<rparr>) (attempts a st)"

text \<open>
  \<open>text.match(r)\<close> without the \<open>g\<close> flag: the first way to match at the leftmost position
  that has one; the result is the matched text (\<open>match[0]\<close>) and the groups.
\<close>

fun search :: "regex \<Rightarrow> char option \<Rightarrow> string \<Rightarrow> (string \<times> (nat \<Rightarrow> string option)) option" where
  "search r prev [] =
     (case attempts r \<lparr>behind = prev, ahead = [], groups = Map.empty\<rparr> of
        [] \<Rightarrow> None
      | st # _ \<Rightarrow> Some ([], groups st))"
| "search r prev (c # cs) =
     (case attempts r \<lparr>behind = prev, ahead = c # cs, groups = Map.empty\<rparr> of
        [] \<Rightarrow> search r (Some c) cs
      | st # _ \<Rightarrow>
          Some (consumed \<lparr>behind = prev, ahead = c # cs, groups = Map.empty\<rparr> st, groups st))"

definition String_match :: "regex \<Rightarrow> string \<Rightarrow> (string \<times> (nat \<Rightarrow> string option)) option" where
  "String_match r s = search r None s"

text \<open>\<open>match[i]\<close> for \<open>i > 0\<close>\<close>

definition group :: "(string \<times> (nat \<Rightarrow> string option)) \<Rightarrow> nat \<Rightarrow> jsvalue" where
  "group m i = (case snd m i of None \<Rightarrow> JUndefined | Some s \<Rightarrow> JStr s)"

text \<open>The building blocks: characters and words with and without the \<open>i\<close> flag.\<close>

definition chr :: "char \<Rightarrow> regex" where
  "chr x = Class (\<lambda>c. c = x)"

definition chr_i :: "char \<Rightarrow> regex" where
  "chr_i x = Class (\<lambda>c. upperChar c = upperChar x)"

fun seq :: "regex list \<Rightarrow> regex" where
  "seq [] = Empty"
| "seq [r] = r"
| "seq (r # rs) = Then r (seq rs)"

fun any_of :: "regex list \<Rightarrow> regex" where
  "any_of [] = Class (\<lambda>c. False)"
| "any_of [r] = r"
| "any_of (r # rs) = Or r (any_of rs)"

definition word :: "string \<Rightarrow> regex" where
  "word s = seq (map chr s)"

definition word_i :: "string \<Rightarrow> regex" where
  "word_i s = seq (map chr_i s)"

definition words_i :: "string \<Rightarrow> regex" where
  "words_i s = any_of (map word_i (alternatives s []))"

definition many1 :: "regex \<Rightarrow> regex" where
  "many1 r = Then r (Many r)"

definition maybe :: "regex \<Rightarrow> regex" where
  "maybe r = Or r Empty"

subsection \<open>The local fallback of the enrichment (extractSegment.js)\<close>

text \<open>The seven fixed fields of an extraction with its markers.\<close>

record extracted =
  x_road :: jsvalue
  x_direction :: jsvalue
  x_segment :: jsvalue
  x_landmark :: jsvalue
  x_congestion :: jsvalue
  x_speed :: jsvalue
  x_incidentType :: jsvalue
  x_rawExtracted :: bool
  x_partial :: "bool option"

text \<open>
  What \<open>extractSegment\<close> returns: the spread of an extraction with \<open>humanReadable\<close> and the
  annotations of the path that produced it.
\<close>

record enriched =
  x_fields :: extracted
  x_humanReadable :: string
  x_cached :: "bool option"
  x_llmProvider :: "string option"
  x_extractionError :: "string option"
  x_fallback :: "bool option"

definition generateHumanReadable :: "(rat \<Rightarrow> string) \<Rightarrow> extracted \<Rightarrow> string" where
  "generateHumanReadable num ex =
     (let parts =
            (if truthy (x_road ex) \<and> truthy (x_direction ex)
             then [String_of num (x_road ex) @ '' '' @ String_of num (x_direction ex)]
             else if truthy (x_road ex) then [String_of num (x_road ex)]
             else [])
          @ (if truthy (x_segment ex) then [''- '' @ String_of num (x_segment ex)] else [])
          @ (if truthy (x_landmark ex) then [''('' @ String_of num (x_landmark ex) @ '')''] else [])
          @ (if truthy (x_congestion ex)
             then [''['' @ String_of num (x_congestion ex) @ '' congestion]''] else [])
          @ (if truthy (x_speed ex) then [''at '' @ String_of num (x_speed ex)] else [])
          @ (if truthy (x_incidentType ex) then [''- '' @ String_of num (x_incidentType ex)] else [])
      in if join_with '' '' parts = [] then ''Location information unavailable''
         else join_with '' '' parts)"

text \<open>The patterns of the text branch of \<open>createFallbackResult\<close>, all with the \<open>i\<close> flag.\<close>

definition road_pattern :: regex where
  "road_pattern =
     seq [Boundary,
          Group 1 (any_of (map (\<lambda>letter. Then (chr_i letter) (many1 (Class isDigit))) ''MNAER'')),
          Boundary]"

definition direction_pattern :: regex where
  "direction_pattern =
     seq [Boundary,
          Group 1 (words_i ''Northbound|Southbound|Eastbound|Westbound|North|South|East|West''),
          Boundary]"

definition congestion_pattern :: regex where
  "congestion_pattern =
     seq [Boundary, Group 1 (words_i ''none|light|moderate|heavy|severe''),
          many1 (Class isSpace), Group 2 (words_i ''traffic|congestion''), Boundary]"

definition incident_pattern :: regex where
  "incident_pattern =
     seq [Boundary,
          Group 1 (words_i ''collision|crash|accident|breakdown|roadworks|construction|incident''),
          Boundary]"

definition speed_pattern :: regex where
  "speed_pattern =
     seq [Or (Then (word_i ''speed'') (many1 (Class (\<lambda>c. c = CHR '':'' \<or> isSpace c))))
             (Then (word_i ''at'') (many1 (Class isSpace))),
          Group 1 (many1 (Class isDigit)), Many (Class isSpace),
          maybe (Group 2 (words_i ''km/h|mph|kph''))]"

definition speed_unit_pattern :: regex where
  "speed_unit_pattern =
     seq [Group 1 (many1 (Class isDigit)), Many (Class isSpace),
          Group 2 (words_i ''km/h|mph|kph'')]"

text \<open>\<open>trafficData.location?.lat || trafficData.lat\<close>, and the same for \<open>lon\<close>.\<close>

definition coordinate :: "jsvalue \<Rightarrow> string \<Rightarrow> jsvalue" where
  "coordinate trafficData name =
     or_js (opt_property (property trafficData ''location'') name) (property trafficData name)"

text \<open>
  \<open>createFallbackResult\<close>. In the text branch the one call that can throw is
  \<open>roadMatch[1].toUpperCase()\<close>. In the object branch \<open>trafficData.location\<close> throws on
  \<open>null\<close> and \<open>undefined\<close>, and \<open>lat.toFixed(3)\<close>, \<open>lon.toFixed(3)\<close> are called as soon as
  both \<open>lat\<close> and \<open>lon\<close> are truthy.
\<close>

definition createFallbackResult :: "(rat \<Rightarrow> string) \<Rightarrow> jsvalue \<Rightarrow> exn + enriched" where
  "createFallbackResult num trafficData =
     (case trafficData of
        JStr s \<Rightarrow>
          (let roadMatch = String_match road_pattern s;
               directionMatch = String_match direction_pattern s;
               congestionMatch = String_match congestion_pattern s;
               incidentMatch = String_match incident_pattern s;
               speedMatch = (case String_match speed_pattern s of
                               Some m \<Rightarrow> Some m
                             | None \<Rightarrow> String_match speed_unit_pattern s)
           in case (case roadMatch of
                      None \<Rightarrow> Inr JNull
                    | Some m \<Rightarrow>
                        (case group m 1 of
                           JStr g \<Rightarrow> Inr (JStr (toUpperCase g))
                         | _ \<Rightarrow> Inl (TypeError
                                  ''Cannot read properties of undefined (reading toUpperCase)'')))
              of Inl e \<Rightarrow> Inl e
               | Inr road \<Rightarrow>
                   (let ex = \<lparr>x_road = road,
                              x_direction = (case directionMatch of
                                               None \<Rightarrow> JNull | Some m \<Rightarrow> group m 1),
                              x_segment = JNull,
                              x_landmark = JNull,
                              x_congestion = (case congestionMatch of
                                                None \<Rightarrow> JNull | Some m \<Rightarrow> group m 1),
                              x_speed = (case speedMatch of
                                           None \<Rightarrow> JNull
                                         | Some m \<Rightarrow>
                                             JStr (String_of num (group m 1) @ '' ''
                                                   @ String_of num (or_js (group m 2) (JStr ''km/h'')))),
                              x_incidentType = (case incidentMatch of
                                                  None \<Rightarrow> JNull | Some m \<Rightarrow> group m 1),
                              x_rawExtracted = False,
                              x_partial = None\<rparr>
                    in Inr \<lparr>x_fields = ex, x_humanReadable = generateHumanReadable num ex,
                            x_cached = None, x_llmProvider = None, x_extractionError = None,
                            x_fallback = None\<rparr>))
      | JUndefined \<Rightarrow> Inl (TypeError ''Cannot read properties of undefined (reading location)'')
      | JNull \<Rightarrow> Inl (TypeError ''Cannot read properties of null (reading location)'')
      | _ \<Rightarrow>
          (let lat = coordinate trafficData ''lat'';
               lon = coordinate trafficData ''lon''
           in case (if truthy lat \<and> truthy lon
                    then (case call_toFixed ''lat'' lat of
                            Inl e \<Rightarrow> Inl e
                          | Inr latText \<Rightarrow>
                              (case call_toFixed ''lon'' lon of
                                 Inl e \<Rightarrow> Inl e
                               | Inr lonText \<Rightarrow>
                                   Inr (JStr (''Coordinates: '' @ latText @ '', '' @ lonText))))
                    else Inr JNull)
              of Inl e \<Rightarrow> Inl e
               | Inr segment \<Rightarrow>
                   (let ex = \<lparr>x_road = or_null (property trafficData ''road''),
                              x_direction = or_null (property trafficData ''direction''),
                              x_segment = segment,
                              x_landmark = JNull,
                              x_congestion = or_js (property trafficData ''congestionLevel'')
                                               (or_null (property trafficData ''congestion'')),
                              x_speed = (if truthy (property trafficData ''averageSpeed'')
                                         then JStr (String_of num (property trafficData ''averageSpeed'')
                                                    @ '' km/h'')
                                         else JNull),
                              x_incidentType = or_null (property trafficData ''incidentType''),
                              x_rawExtracted = False,
                              x_partial = None\<rparr>
                    in Inr \<lparr>x_fields = ex, x_humanReadable = generateHumanReadable num ex,
                            x_cached = None, x_llmProvider = None, x_extractionError = None,
                            x_fallback = None\<rparr>)))"

subsection \<open>The language model path of the enrichment (extractSegment.js)\<close>

text \<open>
  What the backend can answer to a request: a 2xx response with its body, a response
  with another status and its body, no response within the 30 seconds
  (\<open>ECONNABORTED\<close>), or another transport error with its message.
\<close>

datatype llm_reply =
    Replied jsvalue
  | Rejected nat jsvalue
  | Aborted
  | Unreachable string

text \<open>
  The state the enrichment runs in: the clock, the environment variables, the
  module's cache, the backend (its \<open>k\<close>-th reply and how long it takes) with the URLs
  requested so far, and two services of the host the model does not spell out: the
  text of a number and \<open>JSON.parse\<close>. The periodic \<open>cleanCache\<close> is not modelled: it
  removes only entries that \<open>extractSegment\<close> no longer accepts.
\<close>

record llm_world =
  lw_clock :: int
  LLM_PROVIDER :: "string option"
  LLM_API_KEY :: "string option"
  LLM_MODEL :: "string option"
  DEBUG :: "string option"
  segment_cache :: "string \<rightharpoonup> enriched \<times> int"
  llm_backend :: "nat \<Rightarrow> llm_reply"
  llm_duration :: "nat \<Rightarrow> nat"
  llm_requests :: "string list"
  Number_toString :: "rat \<Rightarrow> string"
  JSON_parse :: "string \<Rightarrow> exn + jsvalue"

definition CACHE_TTL :: int where
  "CACHE_TTL = 5 * 60 * 1000"

datatype provider = Gemini | OpenAI | Kimi

text \<open>
  \<open>PROVIDER_CONFIGS[provider]\<close>: one of the three configurations; for the two lower-case
  names every object inherits (\<open>constructor\<close>, \<open>__proto__\<close>) a truthy value that is no
  configuration; otherwise \<open>undefined\<close>.
\<close>

datatype config_entry = Config provider | Inherited | NoEntry

definition PROVIDER_CONFIGS :: "string \<Rightarrow> config_entry" where
  "PROVIDER_CONFIGS name =
     (if name = ''gemini'' then Config Gemini
      else if name = ''openai'' then Config OpenAI
      else if name = ''kimi'' then Config Kimi
      else if name = ''constructor'' \<or> name = ''__proto__'' then Inherited
      else NoEntry)"

fun baseUrl :: "provider \<Rightarrow> string" where
  "baseUrl Gemini = ''https://generativelanguage.googleapis.com/v1beta/models''"
| "baseUrl OpenAI = ''https://api.openai.com/v1''"
| "baseUrl Kimi = ''https://api.moonshot.cn/v1''"

fun defaultModel :: "provider \<Rightarrow> string" where
  "defaultModel Gemini = ''gemini-3-flash-preview''"
| "defaultModel OpenAI = ''gpt-4o-mini''"
| "defaultModel Kimi = ''moonshot-v1-8k''"

fun authType :: "provider \<Rightarrow> string" where
  "authType Gemini = ''query''"
| "authType OpenAI = ''header''"
| "authType Kimi = ''header''"

text \<open>The \<open>url\<close> of \<open>buildRequest(prompt, model)\<close>.\<close>

fun request_url :: "provider \<Rightarrow> string \<Rightarrow> string" where
  "request_url Gemini model = ''/'' @ model @ '':generateContent''"
| "request_url OpenAI model = ''/chat/completions''"
| "request_url Kimi model = ''/chat/completions''"

text \<open>\<open>parseResponse(response)\<close> on the body \<open>response.data\<close>.\<close>

fun parseResponse :: "provider \<Rightarrow> jsvalue \<Rightarrow> exn + jsvalue" where
  "parseResponse Gemini body =
     (let text = opt_property (opt_index (opt_property (opt_property (opt_index
                   (opt_property body ''candidates'') 0) ''content'') ''parts'') 0) ''text''
      in if \<not> truthy text then Inl (Error ''Invalid Gemini response format'') else Inr text)"
| "parseResponse OpenAI body =
     (let text = opt_property (opt_property (opt_index (opt_property body ''choices'') 0) ''message'')
                   ''content''
      in if \<not> truthy text then Inl (Error ''Invalid OpenAI response format'') else Inr text)"
| "parseResponse Kimi body =
     (let text = opt_property (opt_property (opt_index (opt_property body ''choices'') 0) ''message'')
                   ''content''
      in if \<not> truthy text then Inl (Error ''Invalid Kimi response format'') else Inr text)"

record llmConfig =
  lc_enabled :: bool
  lc_provider :: string
  lc_error :: "string option"
  lc_apiKey :: "string option"
  lc_model :: "string option"
  lc_config :: config_entry

definition getLLMConfig :: "llm_world \<Rightarrow> llmConfig" where
  "getLLMConfig w =
     (let provider = or_str (map_option toLowerCase (LLM_PROVIDER w)) ''gemini'';
          apiKey = LLM_API_KEY w
      in if \<not> truthy_str apiKey
         then \<lparr>lc_enabled = False, lc_provider = provider,
               lc_error = Some ''LLM_API_KEY not set'', lc_apiKey = None, lc_model = None,
               lc_config = NoEntry\<rparr>
         else case PROVIDER_CONFIGS provider of
                NoEntry \<Rightarrow>
                  \<lparr>lc_enabled = False, lc_provider = provider,
                   lc_error = Some (''Unknown provider: '' @ provider), lc_apiKey = None,
                   lc_model = None, lc_config = NoEntry\<rparr>
              | config \<Rightarrow>
                  \<lparr>lc_enabled = True, lc_provider = provider, lc_error = None,
                   lc_apiKey = apiKey,
                   lc_model = or_str_opt (LLM_MODEL w)
                                (case config of Config p \<Rightarrow> Some (defaultModel p) | _ \<Rightarrow> None),
                   lc_config = config\<rparr>)"

text \<open>\<open>JSON.stringify\<close> without indentation, over the host's text of a number.\<close>

definition hexDigit :: "nat \<Rightarrow> char" where
  "hexDigit d = ''0123456789abcdef'' ! d"

definition quote_char :: "char \<Rightarrow> string" where
  "quote_char c =
     (let n = (of_char c :: nat)
      in if n = 34 then [CHR 0x5C, CHR 0x22]
         else if n = 92 then [CHR 0x5C, CHR 0x5C]
         else if n = 8 then [CHR 0x5C, CHR ''b'']
         else if n = 9 then [CHR 0x5C, CHR ''t'']
         else if n = 10 then [CHR 0x5C, CHR ''n'']
         else if n = 12 then [CHR 0x5C, CHR ''f'']
         else if n = 13 then [CHR 0x5C, CHR ''r'']
         else if n < 32 then [CHR 0x5C, CHR ''u'', CHR ''0'', CHR ''0'',
                              hexDigit (n div 16), hexDigit (n mod 16)]
         else [c])"

definition quote :: "string \<Rightarrow> string" where
  "quote s = [CHR 0x22] @ concat (map quote_char s) @ [CHR 0x22]"

fun JSON_stringify :: "(rat \<Rightarrow> string) \<Rightarrow> jsvalue \<Rightarrow> string option" where
  "JSON_stringify num JUndefined = None"
| "JSON_stringify num JNull = Some ''null''"
| "JSON_stringify num (JBool b) = Some (if b then ''true'' else ''false'')"
| "JSON_stringify num (JNum n) = Some (num n)"
| "JSON_stringify num (JStr s) = Some (quote s)"
| "JSON_stringify num (JArr xs) =
     Some (''['' @ join_with '',''
                    (map (\<lambda>x. case JSON_stringify num x of None \<Rightarrow> ''null'' | Some t \<Rightarrow> t) xs)
           @ '']'')"
| "JSON_stringify num (JObj kvs) =
     Some (''{'' @ join_with '',''
                    (concat (map (\<lambda>kv. case JSON_stringify num (snd kv) of
                                          None \<Rightarrow> []
                                        | Some t \<Rightarrow> [quote (fst kv) @ '':'' @ t]) kvs))
           @ ''}'')"

text \<open>
  \<open>getCacheKey\<close>: the 32-bit hash \<open>hash = ((hash << 5) - hash) + char; hash = hash & hash\<close>
  over the text of the input. \<open>JSON.stringify(undefined)\<close> is \<open>undefined\<close>, whose \<open>length\<close>
  cannot be read.
\<close>

definition toInt32 :: "int \<Rightarrow> int" where
  "toInt32 x = (x + 2 ^ 31) mod 2 ^ 32 - 2 ^ 31"

definition getCacheKey :: "llm_world \<Rightarrow> jsvalue \<Rightarrow> exn + string" where
  "getCacheKey w d =
     (case (case d of JStr s \<Rightarrow> Some s | _ \<Rightarrow> JSON_stringify (Number_toString w) d) of
        None \<Rightarrow> Inl (TypeError ''Cannot read properties of undefined (reading length)'')
      | Some str \<Rightarrow>
          Inr (''segment_''
               @ int_text (foldl (\<lambda>hash c. toInt32 (toInt32 (hash * 32) - hash + int (of_char c)))
                                 0 str)))"

text \<open>
  \<open>callLLM\<close>. The prompt is the body of the request and has no part in what follows:
  the reply is the backend's. Everything thrown inside the \<open>try\<close> is thrown again as
  an \<open>Error\<close> with the message of its cause.
\<close>

definition callLLM :: "llm_world \<Rightarrow> (exn + jsvalue) \<times> llm_world" where
  "callLLM w =
     (let llmConfig = getLLMConfig w;
          debug = (DEBUG w = Some ''true'' \<or> DEBUG w = Some ''1'')
      in if \<not> lc_enabled llmConfig
         then (Inl (Error (''LLM not configured: '' @ the (lc_error llmConfig))), w)
         else case lc_config llmConfig of
                Inherited \<Rightarrow> (Inl (TypeError ''config.buildRequest is not a function''), w)
              | NoEntry \<Rightarrow> (Inl (TypeError ''config.buildRequest is not a function''), w)
              | Config config \<Rightarrow>
                  (let provider = lc_provider llmConfig;
                       url = baseUrl config @ request_url config (the (lc_model llmConfig));
                       axiosUrl =
                         (if authType config = ''query''
                          then url @ (if CHR ''?'' \<in> set (request_url config (the (lc_model llmConfig)))
                                      then ''&'' else ''?'')
                                   @ ''key='' @ the (lc_apiKey llmConfig)
                          else url);
                       k = length (llm_requests w);
                       w1 = w\<lparr>llm_requests := llm_requests w @ [axiosUrl],
                              lw_clock := lw_clock w + int (llm_duration w k)\<rparr>
                   in case llm_backend w k of
                        Replied body \<Rightarrow>
                          (case parseResponse config body of
                             Inl e \<Rightarrow> (Inl (Error (''LLM API call failed: '' @ message e)), w1)
                           | Inr text \<Rightarrow>
                               if debug \<and> (case text of JStr _ \<Rightarrow> False | _ \<Rightarrow> True)
                               then (Inl (Error (''LLM API call failed: ''
                                                  @ ''text.substring is not a function'')), w1)
                               else (Inr text, w1))
                      | Rejected status errorData \<Rightarrow>
                          if status = 401 \<or> status = 403
                          then (Inl (Error (''LLM API authentication failed: Invalid API key for ''
                                             @ provider)), w1)
                          else if status = 429
                          then (Inl (Error (''LLM API rate limit exceeded for '' @ provider)), w1)
                          else (Inl (Error (''LLM API error ('' @ int_text (int status) @ ''): ''
                                     @ (case JSON_stringify (Number_toString w) errorData of
                                          None \<Rightarrow> ''undefined'' | Some t \<Rightarrow> t))), w1)
                      | Aborted \<Rightarrow> (Inl (Error ''LLM API timeout after 30s''), w1)
                      | Unreachable m \<Rightarrow> (Inl (Error (''LLM API call failed: '' @ m)), w1)))"

text \<open>The patterns of \<open>parseLLMResponse\<close> (no flag) and of \<open>extractField\<close> (\<open>i\<close> flag).\<close>

definition fence :: regex where
  "fence = word (replicate 3 (CHR 0x60))"

definition codeBlock_pattern :: regex where
  "codeBlock_pattern =
     seq [fence, maybe (word ''json''), Many (Class isSpace),
          Group 1 (Few (Class (\<lambda>c. True))), fence]"

definition braces_pattern :: regex where
  "braces_pattern = seq [chr (CHR ''{''), Many (Class (\<lambda>c. True)), chr (CHR ''}'')]"

definition field_pattern :: "string \<Rightarrow> regex" where
  "field_pattern fieldName =
     seq [chr (CHR 0x22), word_i fieldName, chr (CHR 0x22), Many (Class isSpace),
          chr (CHR '':''), Many (Class isSpace),
          any_of [seq [chr (CHR 0x22), Group 1 (Many (Class (\<lambda>c. c \<noteq> CHR 0x22))),
                       chr (CHR 0x22)],
                  Group 2 (words_i ''null|true|false''),
                  Group 3 (seq [maybe (chr (CHR ''-'')), many1 (Class isDigit),
                                maybe (Then (chr (CHR ''.'')) (many1 (Class isDigit)))])]]"

text \<open>\<open>parseFloat\<close> on a text of the shape \<open>-?\d+(\.\d+)?\<close>, which group 3 always has.\<close>

definition digits_value :: "string \<Rightarrow> nat" where
  "digits_value ds = foldl (\<lambda>v c. 10 * v + (of_char c - 48)) 0 ds"

definition parseFloat :: "string \<Rightarrow> rat" where
  "parseFloat s =
     (let negative = (s \<noteq> [] \<and> hd s = CHR ''-'');
          body = (if negative then tl s else s);
          whole = takeWhile isDigit body;
          fraction = takeWhile isDigit (drop (Suc (length whole)) body);
          v = of_nat (digits_value whole)
              + of_nat (digits_value fraction) / 10 ^ length fraction
      in if negative then - v else v)"

definition extractField :: "string \<Rightarrow> string \<Rightarrow> jsvalue" where
  "extractField jsonStr fieldName =
     (case String_match (field_pattern fieldName) jsonStr of
        None \<Rightarrow> JNull
      | Some m \<Rightarrow>
          if group m 1 \<noteq> JUndefined then group m 1
          else if group m 2 = JStr ''null'' then JNull
          else if group m 2 = JStr ''true'' then JBool True
          else if group m 2 = JStr ''false'' then JBool False
          else case group m 3 of JStr t \<Rightarrow> JNum (parseFloat t) | _ \<Rightarrow> JNull)"

text \<open>\<open>Object.values(extracted).some(v => v !== null && v !== true && v !== false)\<close>\<close>

definition some_field_extracted :: "extracted \<Rightarrow> bool" where
  "some_field_extracted ex =
     list_ex (\<lambda>v. v \<noteq> JNull \<and> v \<noteq> JBool True \<and> v \<noteq> JBool False)
       [x_road ex, x_direction ex, x_segment ex, x_landmark ex, x_congestion ex, x_speed ex,
        x_incidentType ex]"

text \<open>
  \<open>parseLLMResponse\<close>: \<open>None\<close> is its \<open>null\<close>. On a reply that is no string \<open>response.match\<close>
  throws inside the \<open>try\<close>, and \<open>response.substring\<close> throws again inside the \<open>catch\<close>.
\<close>

definition parseLLMResponse :: "llm_world \<Rightarrow> jsvalue \<Rightarrow> exn + extracted option" where
  "parseLLMResponse w response =
     (case response of
        JStr text \<Rightarrow>
          (let inBlock = (case String_match codeBlock_pattern text of
                            None \<Rightarrow> Inr text
                          | Some m \<Rightarrow>
                              (case group m 1 of
                                 JStr g \<Rightarrow> Inr (trim g)
                               | _ \<Rightarrow> Inl (TypeError
                                        ''Cannot read properties of undefined (reading trim)'')))
           in case inBlock of
                Inl e \<Rightarrow> Inr None
              | Inr jsonStr0 \<Rightarrow>
                  (let jsonStr = (case String_match braces_pattern jsonStr0 of
                                    None \<Rightarrow> jsonStr0 | Some m \<Rightarrow> fst m);
                       complete =
                         (case JSON_parse w jsonStr of
                            Inl parseError \<Rightarrow> Inl parseError
                          | Inr JNull \<Rightarrow>
                              Inl (TypeError ''Cannot read properties of null (reading road)'')
                          | Inr JUndefined \<Rightarrow>
                              Inl (TypeError ''Cannot read properties of undefined (reading road)'')
                          | Inr parsed \<Rightarrow>
                              Inr \<lparr>x_road = or_null (property parsed ''road''),
                                   x_direction = or_null (property parsed ''direction''),
                                   x_segment = or_null (property parsed ''segment''),
                                   x_landmark = or_null (property parsed ''landmark''),
                                   x_congestion = or_null (property parsed ''congestion''),
                                   x_speed = or_null (property parsed ''speed''),
                                   x_incidentType = or_null (property parsed ''incidentType''),
                                   x_rawExtracted = True,
                                   x_partial = None\<rparr>)
                   in case complete of
                        Inr ex \<Rightarrow> Inr (Some ex)
                      | Inl parseError \<Rightarrow>
                          (let ex = \<lparr>x_road = extractField jsonStr ''road'',
                                     x_direction = extractField jsonStr ''direction'',
                                     x_segment = extractField jsonStr ''segment'',
                                     x_landmark = extractField jsonStr ''landmark'',
                                     x_congestion = extractField jsonStr ''congestion'',
                                     x_speed = extractField jsonStr ''speed'',
                                     x_incidentType = extractField jsonStr ''incidentType'',
                                     x_rawExtracted = True,
                                     x_partial = Some True\<rparr>
                           in if some_field_extracted ex then Inr (Some ex) else Inr None)))
      | JUndefined \<Rightarrow>
          Inl (TypeError ''Cannot read properties of undefined (reading substring)'')
      | JNull \<Rightarrow> Inl (TypeError ''Cannot read properties of null (reading substring)'')
      | _ \<Rightarrow> Inl (TypeError ''response.substring is not a function''))"

text \<open>The \<open>try\<close> block of \<open>extractSegment\<close>.\<close>

definition extractSegment_try ::
  "llm_world \<Rightarrow> bool \<Rightarrow> string \<Rightarrow> (exn + enriched) \<times> llm_world" where
  "extractSegment_try w useCache cacheKey =
     (case callLLM w of
        (Inl e, w1) \<Rightarrow> (Inl e, w1)
      | (Inr llmResponse, w1) \<Rightarrow>
          (case parseLLMResponse w1 llmResponse of
             Inl e \<Rightarrow> (Inl e, w1)
           | Inr None \<Rightarrow> (Inl (Error ''Failed to extract segment data from LLM response''), w1)
           | Inr (Some ex) \<Rightarrow>
               (let result = \<lparr>x_fields = ex,
                              x_humanReadable = generateHumanReadable (Number_toString w1) ex,
                              x_cached = Some False,
                              x_llmProvider = Some (lc_provider (getLLMConfig w1)),
                              x_extractionError = None, x_fallback = None\<rparr>
                in (Inr result,
                    if useCache
                    then w1\<lparr>segment_cache := (segment_cache w1)(cacheKey \<mapsto> (result, lw_clock w1))\<rparr>
                    else w1))))"

text \<open>
  The \<open>catch\<close> block of \<open>extractSegment\<close>, applied to the outcome of the \<open>try\<close> block.
\<close>

definition extractSegment_catch ::
  "bool \<Rightarrow> jsvalue \<Rightarrow> (exn + enriched) \<times> llm_world \<Rightarrow> (exn + enriched) \<times> llm_world" where
  "extractSegment_catch fallback trafficData attempt =
     (case attempt of
        (Inr result, w1) \<Rightarrow> (Inr result, w1)
      | (Inl error, w1) \<Rightarrow>
          if fallback
          then (case createFallbackResult (Number_toString w1) trafficData of
                  Inl e \<Rightarrow> (Inl e, w1)
                | Inr fallbackResult \<Rightarrow>
                    (Inr (fallbackResult\<lparr>x_extractionError := Some (message error),
                                         x_fallback := Some True\<rparr>), w1))
          else (Inl error, w1))"

text \<open>
  \<open>extractSegment(trafficData, {useCache, fallback})\<close>: a valid cache entry, else the
  language model, else (in the \<open>catch\<close>, with \<open>fallback\<close>) \<open>createFallbackResult\<close>, whose own
  exception nothing catches.
\<close>

definition extractSegment ::
  "llm_world \<Rightarrow> jsvalue \<Rightarrow> bool \<Rightarrow> bool \<Rightarrow> (exn + enriched) \<times> llm_world" where
  "extractSegment w trafficData useCache fallback =
     (case getCacheKey w trafficData of
        Inl e \<Rightarrow> (Inl e, w)
      | Inr cacheKey \<Rightarrow>
          (case (if useCache then segment_cache w cacheKey else None) of
             Some (cachedData, timestamp) \<Rightarrow>
               if lw_clock w - timestamp < CACHE_TTL
               then (Inr (cachedData\<lparr>x_cached := Some True\<rparr>), w)
               else extractSegment_catch fallback trafficData (extractSegment_try w useCache cacheKey)
           | None \<Rightarrow>
               extractSegment_catch fallback trafficData (extractSegment_try w useCache cacheKey)))"

subsection \<open>Sample hosts of the enrichment\<close>

text \<open>
  A text of a number that is exact for numbers of at most three decimal places.
\<close>

definition number_text :: "rat \<Rightarrow> string" where
  "number_text n =
     (if n = of_int \<lfloor>n\<rfloor> then int_text \<lfloor>n\<rfloor>
      else rev (dropWhile (\<lambda>c. c = CHR ''0'') (rev (toFixed3 n))))"

text \<open>
  A host at clock reading 1000000 with an empty cache, the given API key for the
  default provider and a backend that gives the same reply to every request after
  two seconds. Its \<open>JSON.parse\<close> accepts no text.
\<close>

definition llm_host :: "string option \<Rightarrow> llm_reply \<Rightarrow> llm_world" where
  "llm_host key reply =
     \<lparr>lw_clock = 1000000, LLM_PROVIDER = None, LLM_API_KEY = key, LLM_MODEL = None,
      DEBUG = None, segment_cache = Map.empty, llm_backend = (\<lambda>k. reply),
      llm_duration = (\<lambda>k. 2000), llm_requests = [],
      Number_toString = number_text,
      JSON_parse = (\<lambda>s. Inl (Error ''Unexpected token in JSON''))\<rparr>"

text \<open>A record object whose coordinates arrive as text, and the same with numbers.\<close>

definition record_with_text_coordinates :: jsvalue where
  "record_with_text_coordinates =
     JObj [(''road'', JStr ''M1''), (''lat'', JStr ''53.72''), (''lon'', JStr ''-6.35'')]"

definition record_with_coordinates :: jsvalue where
  "record_with_coordinates =
     JObj [(''road'', JStr ''M1''), (''lat'', JNum (5372 / 100)), (''lon'', JNum (- 635 / 100))]"

section \<open>Properties\<close>

subsection \<open>Rounding, thresholds and the report ladder\<close>

lemma Math_round_mono: "x \<le> y \<Longrightarrow> Math_round x \<le> Math_round y"
  unfolding Math_round_def by (simp add: floor_mono)






lemma tii_fields:
  "tii_delayMinutes (normalizeTIIRecord clk item) = Math_round (max 0 (fst (tii_times item) - snd (tii_times item)) / 60)"
  "tii_travelTimeMinutes (normalizeTIIRecord clk item) = Math_round (fst (tii_times item) / 60)"
  "tii_freeFlowTimeMinutes (normalizeTIIRecord clk item) = Math_round (snd (tii_times item) / 60)"
  "tii_congestionLevel (normalizeTIIRecord clk item) = tii_congestion (max 0 (fst (tii_times item) - snd (tii_times item)))"
  by (simp_all add: normalizeTIIRecord_def tii_times_def Let_def)















lemma tii_congestion_levels:
  "levels (tii_congestion d) =
     Some (if d > 10 then 3 else if d > 5 then 2 else if d > 2 then 1 else 0)"
  by (simp add: tii_congestion_def levels_def)

lemma webtris_congestion_levels:
  "levels (webtris_congestion v ty) =
     Some (if v / ty < 3 / 10 \<or> v < 20 then 3
           else if v / ty < 6 / 10 \<or> v < 40 then 2
           else if v / ty < 8 / 10 \<or> v < 55 then 1 else 0)"
  by (simp add: webtris_congestion_def levels_def Let_def)

lemma calculateCongestion_levels:
  "dur \<noteq> 0 \<Longrightarrow> levels (calculateCongestion dit dur) =
     Some (if (dit - dur) / 60 > 15 \<or> dit / dur > 2 then 3
           else if (dit - dur) / 60 > 5 \<or> dit / dur > 15 / 10 then 2
           else if (dit - dur) / 60 > 2 \<or> dit / dur > 12 / 10 then 1 else 0)"
  by (simp add: calculateCongestion_def levels_def Let_def)

lemma ladder_up_mono:
  fixes a b :: rat
  assumes "a \<le> b"
  shows "(if a > 10 then 3 else if a > 5 then 2 else if a > 2 then 1 else (0::nat))
       \<le> (if b > 10 then 3 else if b > 5 then 2 else if b > 2 then 1 else 0)"
  using assms by auto

lemma ladder_down_mono:
  fixes r1 r2 v1 v2 :: rat
  assumes "r1 \<le> r2" "v1 \<le> v2"
  shows "(if r2 < 3 / 10 \<or> v2 < 20 then 3 else if r2 < 6 / 10 \<or> v2 < 40 then 2
          else if r2 < 8 / 10 \<or> v2 < 55 then 1 else (0::nat))
       \<le> (if r1 < 3 / 10 \<or> v1 < 20 then 3 else if r1 < 6 / 10 \<or> v1 < 40 then 2
          else if r1 < 8 / 10 \<or> v1 < 55 then 1 else 0)"
  using assms by auto

lemma ladder_two_mono:
  fixes r1 r2 p1 p2 :: rat
  assumes "r1 \<le> r2" "p1 \<le> p2"
  shows "(if p1 > 15 \<or> r1 > 2 then 3 else if p1 > 5 \<or> r1 > 15 / 10 then 2
          else if p1 > 2 \<or> r1 > 12 / 10 then 1 else (0::nat))
       \<le> (if p2 > 15 \<or> r2 > 2 then 3 else if p2 > 5 \<or> r2 > 15 / 10 then 2
          else if p2 > 2 \<or> r2 > 12 / 10 then 1 else 0)"
  using assms by auto

lemma tii_monotone:
  assumes "tii_delayMinutes (normalizeTIIRecord ca a) < tii_delayMinutes (normalizeTIIRecord cb b)"
  shows "\<exists>i j. levels (tii_congestionLevel (normalizeTIIRecord ca a)) = Some i
             \<and> levels (tii_congestionLevel (normalizeTIIRecord cb b)) = Some j \<and> i \<le> j"
proof -
  define da where "da = max 0 (fst (tii_times a) - snd (tii_times a))"
  define db where "db = max 0 (fst (tii_times b) - snd (tii_times b))"
  have lt: "Math_round (da / 60) < Math_round (db / 60)"
    using assms by (simp add: tii_fields da_def db_def)
  have "\<not> db \<le> da"
  proof
    assume "db \<le> da"
    then have "db / 60 \<le> da / 60" by (simp add: divide_right_mono)
    then have "Math_round (db / 60) \<le> Math_round (da / 60)" by (rule Math_round_mono)
    with lt show False by simp
  qed
  then have le: "da \<le> db" by simp
  have la: "levels (tii_congestionLevel (normalizeTIIRecord ca a))
            = Some (if da > 10 then 3 else if da > 5 then 2 else if da > 2 then 1 else 0)"
    unfolding tii_fields tii_congestion_levels da_def ..
  have lb: "levels (tii_congestionLevel (normalizeTIIRecord cb b))
            = Some (if db > 10 then 3 else if db > 5 then 2 else if db > 2 then 1 else 0)"
    unfolding tii_fields tii_congestion_levels db_def ..
  from la lb ladder_up_mono [OF le] show ?thesis by blast
qed

lemma webtris_monotone_speed:
  assumes "0 < ty" "v1 \<le> v2"
  shows "\<exists>i j. levels (webtris_congestion v2 ty) = Some i
             \<and> levels (webtris_congestion v1 ty) = Some j \<and> i \<le> j"
proof -
  have r: "v1 / ty \<le> v2 / ty" using assms by (simp add: divide_right_mono)
  from ladder_down_mono [OF r assms(2)] show ?thesis
    unfolding webtris_congestion_levels by blast
qed

lemma google_monotone_duration:
  assumes "0 < dur" "d1 \<le> d2"
  shows "\<exists>i j. levels (calculateCongestion d1 dur) = Some i
             \<and> levels (calculateCongestion d2 dur) = Some j \<and> i \<le> j"
proof -
  have r: "d1 / dur \<le> d2 / dur" using assms by (simp add: divide_right_mono)
  have m: "(d1 - dur) / 60 \<le> (d2 - dur) / 60" using assms by simp
  have nz: "dur \<noteq> 0" using assms by simp
  from ladder_two_mono [OF r m] show ?thesis
    unfolding calculateCongestion_levels [OF nz] by blast
qed

text \<open>
  Claim C6, as amended. For the TII adapter a record with a larger \<open>delayMinutes\<close> never
  has a lower congestion level. The WebTRIS level is monotone in the speed (for one
  typical speed) and the Google Maps level in the duration in traffic (for one
  free-flow duration); neither is monotone in \<open>delayMinutes\<close>.
\<close>

theorem C6_congestion_monotone_per_measure:
  "(tii_delayMinutes (normalizeTIIRecord ca a) < tii_delayMinutes (normalizeTIIRecord cb b) \<longrightarrow>
      (\<exists>i j. levels (tii_congestionLevel (normalizeTIIRecord ca a)) = Some i
           \<and> levels (tii_congestionLevel (normalizeTIIRecord cb b)) = Some j \<and> i \<le> j))
   \<and> (0 < ty \<and> v1 \<le> v2 \<longrightarrow>
      (\<exists>i j. levels (webtris_congestion v2 ty) = Some i
           \<and> levels (webtris_congestion v1 ty) = Some j \<and> i \<le> j))
   \<and> (0 < dur \<and> d1 \<le> d2 \<longrightarrow>
      (\<exists>i j. levels (calculateCongestion d1 dur) = Some i
           \<and> levels (calculateCongestion d2 dur) = Some j \<and> i \<le> j))"
  using tii_monotone webtris_monotone_speed google_monotone_duration by blast

text \<open>The statement of C6 at two TII elements, two speeds and two durations.\<close>

theorem C6_witness:
  "tii_delayMinutes (normalizeTIIRecord 0 (tii_item_with_times 1004 1000))
     < tii_delayMinutes (normalizeTIIRecord 0 (tii_item_with_times 1680 1320))
   \<and> levels (tii_congestionLevel (normalizeTIIRecord 0 (tii_item_with_times 1004 1000))) = Some 1
   \<and> levels (tii_congestionLevel (normalizeTIIRecord 0 (tii_item_with_times 1680 1320))) = Some 3
   \<and> (\<exists>i j. levels (webtris_congestion 65 70) = Some i
           \<and> levels (webtris_congestion 30 70) = Some j \<and> i \<le> j)
   \<and> (\<exists>i j. levels (calculateCongestion 3600 3600) = Some i
           \<and> levels (calculateCongestion 3780 3600) = Some j \<and> i \<le> j)"
proof -
  have lt: "tii_delayMinutes (normalizeTIIRecord 0 (tii_item_with_times 1004 1000))
     < tii_delayMinutes (normalizeTIIRecord 0 (tii_item_with_times 1680 1320))"
    by code_simp
  have l1: "levels (tii_congestionLevel (normalizeTIIRecord 0 (tii_item_with_times 1004 1000))) = Some 1"
    by code_simp
  have l2: "levels (tii_congestionLevel (normalizeTIIRecord 0 (tii_item_with_times 1680 1320))) = Some 3"
    by code_simp
  have h2: "(0::rat) < 70 \<and> (30::rat) \<le> 65" by simp
  have h3: "(0::rat) < 3600 \<and> (3600::rat) \<le> 3780" by simp
  note t = C6_congestion_monotone_per_measure
    [of 0 "tii_item_with_times 1004 1000" 0 "tii_item_with_times 1680 1320" 70 30 65 3600 3600 3780]
  from t h2 have w: "\<exists>i j. levels (webtris_congestion 65 70) = Some i
           \<and> levels (webtris_congestion 30 70) = Some j \<and> i \<le> j" by blast
  from t h3 have g: "\<exists>i j. levels (calculateCongestion 3600 3600) = Some i
           \<and> levels (calculateCongestion 3780 3600) = Some j \<and> i \<le> j" by blast
  from lt l1 l2 w g show ?thesis by blast
qed

text \<open>
  Claim C6 as stated fails for WebTRIS and for Google Maps. A 100 km WebTRIS site at
  60 km/h has delay 14.3 and level \<open>none\<close>, a 1 km site at 10 km/h has delay 5.1 and
  level \<open>heavy\<close>. A Google Maps leg of 60 s taking 130 s has delay 1 and level
  \<open>heavy\<close>, a leg of 3600 s taking 3780 s has delay 3 and level \<open>light\<close>.
\<close>

theorem C6_counterexample:
  "wt_delayMinutes (normalizeWebTRISRecord 0 (webtris_site_of_length ''B'' 1) (webtris_report_of_speed ''B'' 10))
     < wt_delayMinutes (normalizeWebTRISRecord 0 (webtris_site_of_length ''A'' 100) (webtris_report_of_speed ''A'' 60))
   \<and> levels (wt_congestionLevel (normalizeWebTRISRecord 0 (webtris_site_of_length ''B'' 1) (webtris_report_of_speed ''B'' 10))) = Some 3
   \<and> levels (wt_congestionLevel (normalizeWebTRISRecord 0 (webtris_site_of_length ''A'' 100) (webtris_report_of_speed ''A'' 60))) = Some 0
   \<and> map_sum id (\<lambda>g. (g_delayMinutes g, levels (g_congestionLevel g)))
        (normalizeGoogleMapsData 0 (google_route_with (Some 60) (Some 130)) ''a'' ''b'' None)
       = Inr (1, Some 3)
   \<and> map_sum id (\<lambda>g. (g_delayMinutes g, levels (g_congestionLevel g)))
        (normalizeGoogleMapsData 0 (google_route_with (Some 3600) (Some 3780)) ''a'' ''b'' None)
       = Inr (3, Some 1)"
  by code_simp


text \<open>
  Claim C2 at its own example. The TII ladder compares the delay in the feed's unit,
  before the division by 60: a record with \<open>travelTimeMinutes = 28\<close>,
  \<open>freeFlowTimeMinutes = 22\<close> and \<open>delayMinutes = 6\<close> gets the level \<open>heavy\<close>, not
  \<open>moderate\<close>.
\<close>

theorem C2_tii_example_is_heavy:
  "(let r = normalizeTIIRecord 0 (tii_item_with_times 1680 1320)
    in (tii_travelTimeMinutes r, tii_freeFlowTimeMinutes r, tii_delayMinutes r, tii_congestionLevel r))
   = (28, 22, 6, ''heavy'')"
  by code_simp

text \<open>No TII element at all yields 28 and 22 minutes with a level other than \<open>heavy\<close>.\<close>

lemma tii_28_22_never_moderate:
  assumes "tii_travelTimeMinutes (normalizeTIIRecord clk item) = 28"
      and "tii_freeFlowTimeMinutes (normalizeTIIRecord clk item) = 22"
  shows "tii_congestionLevel (normalizeTIIRecord clk item) = ''heavy''"
proof -
  define t where "t = fst (tii_times item)"
  define f where "f = snd (tii_times item)"
  have "of_int \<lfloor>t / 60 + 1 / 2\<rfloor> = (28::rat)" "of_int \<lfloor>f / 60 + 1 / 2\<rfloor> = (22::rat)"
    using assms by (simp_all add: tii_fields Math_round_def t_def f_def)
  then have "\<lfloor>t / 60 + 1 / 2\<rfloor> = 28" "\<lfloor>f / 60 + 1 / 2\<rfloor> = 22"
    by linarith+
  then have "t - f > 10" by linarith
  then show ?thesis
    by (simp add: tii_fields tii_congestion_def t_def f_def)
qed


lemma count_level_partition:
  "count_level ''heavy'' ds + count_level ''moderate'' ds + count_level ''light'' ds
     + count_level ''none'' ds
     + length (filter (\<lambda>d. levels (congestionLevel d) = None) ds) = length ds"
  by (induction ds) (auto simp: count_level_def levels_def)

lemma unlisted_level_positive:
  assumes "d \<in> set ds" "levels (congestionLevel d) = None"
  shows "0 < length (filter (\<lambda>d. levels (congestionLevel d) = None) ds)"
proof -
  have "filter (\<lambda>d. levels (congestionLevel d) = None) ds \<noteq> []"
    using assms by (auto simp: filter_empty_conv)
  then show ?thesis by (simp del: filter_empty_conv)
qed

lemma breakdown_short:
  assumes "d \<in> set ds" "levels (congestionLevel d) = None"
  shows "cb_heavy (breakdown (build_summary country ds used fb))
         + cb_moderate (breakdown (build_summary country ds used fb))
         + cb_light (breakdown (build_summary country ds used fb))
         + cb_none (breakdown (build_summary country ds used fb))
         < totalRecords (build_summary country ds used fb)"
proof -
  have "count_level ''heavy'' ds + count_level ''moderate'' ds + count_level ''light'' ds
          + count_level ''none'' ds < length ds"
    using count_level_partition [of ds] unlisted_level_positive [OF assms] by linarith
  then show ?thesis by (simp add: build_summary_def)
qed

lemma google_unknown:
  assumes "route_legs route = Some (leg # legs)" "\<not> truthy_num (leg_duration_value leg)"
  shows "\<exists>g. normalizeGoogleMapsData clk route origin destination road = Inr g
             \<and> g_congestionLevel g = ''unknown''"
  using assms
  by (simp add: normalizeGoogleMapsData_def Let_def or_num_def calculateCongestion_def)

text \<open>
  Claim C10. A Google Maps route whose first leg has a zero or missing free-flow
  duration is normalised to a record of congestion level \<open>unknown\<close>, which is none of
  the four levels; a response holding such a record counts it in \<open>totalRecords\<close> and in
  none of the four buckets, so the buckets sum to less than \<open>totalRecords\<close>.
\<close>

theorem C10_unknown_level_outside_breakdown:
  assumes "route_legs route = Some (leg # legs)"
      and "\<not> truthy_num (leg_duration_value leg)"
  shows "\<exists>g. normalizeGoogleMapsData clk route origin destination road = Inr g
             \<and> g_congestionLevel g = ''unknown''
             \<and> levels (g_congestionLevel g) = None
             \<and> (\<forall>ds country used fb. GoogleMaps g \<in> set ds \<longrightarrow>
                  cb_heavy (breakdown (build_summary country ds used fb))
                  + cb_moderate (breakdown (build_summary country ds used fb))
                  + cb_light (breakdown (build_summary country ds used fb))
                  + cb_none (breakdown (build_summary country ds used fb))
                  < totalRecords (build_summary country ds used fb))"
proof -
  from google_unknown [OF assms] obtain g where
    g: "normalizeGoogleMapsData clk route origin destination road = Inr g"
       "g_congestionLevel g = ''unknown''" by blast
  have l: "levels (g_congestionLevel g) = None" using g(2) by (simp add: levels_def)
  then have "levels (congestionLevel (GoogleMaps g)) = None" by simp
  then have "\<forall>ds country used fb. GoogleMaps g \<in> set ds \<longrightarrow>
                  cb_heavy (breakdown (build_summary country ds used fb))
                  + cb_moderate (breakdown (build_summary country ds used fb))
                  + cb_light (breakdown (build_summary country ds used fb))
                  + cb_none (breakdown (build_summary country ds used fb))
                  < totalRecords (build_summary country ds used fb)"
    using breakdown_short by blast
  with g l show ?thesis by blast
qed

text \<open>The statement of C10 at a leg with no free-flow duration.\<close>

theorem C10_witness:
  "\<exists>g. normalizeGoogleMapsData 0 (google_route_with None (Some 130)) ''Drogheda Ireland''
          ''Georges Street, Drogheda, Ireland'' (Some ''Georges Street'') = Inr g
       \<and> g_congestionLevel g = ''unknown''
       \<and> totalRecords (build_summary ''IE'' [GoogleMaps g] [''TII-Ireland'', ''GoogleMaps''] True) = 1
       \<and> cb_heavy (breakdown (build_summary ''IE'' [GoogleMaps g] [''TII-Ireland'', ''GoogleMaps''] True))
         + cb_moderate (breakdown (build_summary ''IE'' [GoogleMaps g] [''TII-Ireland'', ''GoogleMaps''] True))
         + cb_light (breakdown (build_summary ''IE'' [GoogleMaps g] [''TII-Ireland'', ''GoogleMaps''] True))
         + cb_none (breakdown (build_summary ''IE'' [GoogleMaps g] [''TII-Ireland'', ''GoogleMaps''] True))
         = 0"
proof -
  let ?leg = "\<lparr>leg_distance_value = Some 600, leg_duration_value = None,
                leg_duration_in_traffic_value = Some 130,
                leg_start_lat = None, leg_start_lng = None,
                leg_end_lat = None, leg_end_lng = None,
                leg_steps = [], leg_start_address = None,
                leg_end_address = None\<rparr>"
  have h1: "route_legs (google_route_with None (Some 130)) = Some (?leg # [])"
    by (simp add: google_route_with_def)
  have h2: "\<not> truthy_num (leg_duration_value ?leg)"
    by (simp add: truthy_num_def)
  from C10_unknown_level_outside_breakdown [OF h1 h2, of 0 "''Drogheda Ireland''"
      "''Georges Street, Drogheda, Ireland''" "Some ''Georges Street''"]
  obtain g where g: "normalizeGoogleMapsData 0 (google_route_with None (Some 130)) ''Drogheda Ireland''
          ''Georges Street, Drogheda, Ireland'' (Some ''Georges Street'') = Inr g"
      "g_congestionLevel g = ''unknown''"
      "\<And>ds country used fb. GoogleMaps g \<in> set ds \<Longrightarrow>
                  cb_heavy (breakdown (build_summary country ds used fb))
                  + cb_moderate (breakdown (build_summary country ds used fb))
                  + cb_light (breakdown (build_summary country ds used fb))
                  + cb_none (breakdown (build_summary country ds used fb))
                  < totalRecords (build_summary country ds used fb)"
    by blast
  have one: "totalRecords (build_summary ''IE'' [GoogleMaps g] [''TII-Ireland'', ''GoogleMaps''] True) = 1"
    by (simp add: build_summary_def)
  from g(3) [of "[GoogleMaps g]" "''IE''" "[''TII-Ireland'', ''GoogleMaps'']" True] one
  have "cb_heavy (breakdown (build_summary ''IE'' [GoogleMaps g] [''TII-Ireland'', ''GoogleMaps''] True))
         + cb_moderate (breakdown (build_summary ''IE'' [GoogleMaps g] [''TII-Ireland'', ''GoogleMaps''] True))
         + cb_light (breakdown (build_summary ''IE'' [GoogleMaps g] [''TII-Ireland'', ''GoogleMaps''] True))
         + cb_none (breakdown (build_summary ''IE'' [GoogleMaps g] [''TII-Ireland'', ''GoogleMaps''] True))
         = 0"
    by simp
  with g(1,2) one show ?thesis by blast
qed


lemma foldl_plus_sum:
  fixes a :: rat
  shows "foldl (\<lambda>acc s. acc + f s) a xs = a + sum_list (map f xs)"
  by (induction xs arbitrary: a) (simp_all add: add.assoc)

lemma select_recommendation_cases:
  "(15 \<le> d \<longrightarrow> select_recommendation d w = MajorDelays (Math_ceil (d / 5) * 5))
   \<and> (10 \<le> d \<and> d < 15 \<longrightarrow> select_recommendation d w = SignificantDelays w d)
   \<and> (5 \<le> d \<and> d < 10 \<longrightarrow> select_recommendation d w = MinorDelays d w)
   \<and> (d < 5 \<longrightarrow> select_recommendation d w = RouteClear)"
  by (simp add: select_recommendation_def)

lemma select_recommendation_tiers:
  "(d = 3 \<longrightarrow> tier_of (select_recommendation d w) = Clear)
   \<and> (d = 7 \<longrightarrow> tier_of (select_recommendation d w) = Minor)
   \<and> (d = 12 \<longrightarrow> tier_of (select_recommendation d w) = Significant)
   \<and> (d = 20 \<longrightarrow> tier_of (select_recommendation d w) = Major)"
  by (simp add: select_recommendation_def)

lemma generateReport_nonempty:
  assumes "results \<noteq> []"
  shows "\<exists>rp. generateReport direction results = Inr rp
           \<and> rp_totalDelay rp = sum_list (map (\<lambda>s. or_num (currentTime s) (normalTime s)) results)
                                 - sum_list (map normalTime results)
           \<and> rp_recommendation rp = select_recommendation (rp_totalDelay rp) (rp_worstName rp)"
  using assms
  by (cases results) (simp_all add: generateReport_def reduce1_def Let_def foldl_plus_sum)

text \<open>
  The reduction that finds the worst segment returns the first element of greatest
  delay.
\<close>

lemma worst_is_first_greatest:
  fixes d :: "'a \<Rightarrow> rat"
  shows "\<exists>i < length (x # rest).
           foldl (\<lambda>worst current. if d current > d worst then current else worst) x rest
             = (x # rest) ! i
         \<and> (\<forall>j < length (x # rest). d ((x # rest) ! j) \<le> d ((x # rest) ! i))
         \<and> (\<forall>j < i. d ((x # rest) ! j) < d ((x # rest) ! i))"
proof (induction rest rule: rev_induct)
  case Nil
  show ?case by simp
next
  case (snoc y rest)
  let ?f = "\<lambda>worst current. if d current > d worst then current else worst"
  from snoc obtain i where i: "i < length (x # rest)"
    and w: "foldl ?f x rest = (x # rest) ! i"
    and ge: "\<forall>j < length (x # rest). d ((x # rest) ! j) \<le> d ((x # rest) ! i)"
    and lt: "\<forall>j < i. d ((x # rest) ! j) < d ((x # rest) ! i)"
    by blast
  have app: "x # rest @ [y] = (x # rest) @ [y]" by simp
  show ?case
  proof (cases "d y > d ((x # rest) ! i)")
    case True
    let ?n = "length (x # rest)"
    have a: "foldl ?f x (rest @ [y]) = (x # rest @ [y]) ! ?n"
      using w True unfolding app by (simp add: nth_append del: append_Cons)
    have b: "\<forall>j < length (x # rest @ [y]). d ((x # rest @ [y]) ! j) \<le> d ((x # rest @ [y]) ! ?n)"
    proof (intro allI impI)
      fix j assume "j < length (x # rest @ [y])"
      then consider "j < ?n" | "j = ?n" by fastforce
      then show "d ((x # rest @ [y]) ! j) \<le> d ((x # rest @ [y]) ! ?n)"
      proof cases
        case 1
        with ge have "d ((x # rest) ! j) \<le> d ((x # rest) ! i)" by blast
        with True 1 show ?thesis unfolding app by (simp add: nth_append del: append_Cons)
      next
        case 2
        then show ?thesis by simp
      qed
    qed
    have c: "\<forall>j < ?n. d ((x # rest @ [y]) ! j) < d ((x # rest @ [y]) ! ?n)"
    proof (intro allI impI)
      fix j assume j: "j < ?n"
      with ge have "d ((x # rest) ! j) \<le> d ((x # rest) ! i)" by blast
      with True j show "d ((x # rest @ [y]) ! j) < d ((x # rest @ [y]) ! ?n)"
        unfolding app by (simp add: nth_append del: append_Cons)
    qed
    have "?n < length (x # rest @ [y])" by simp
    with a b c show ?thesis by blast
  next
    case False
    have a: "foldl ?f x (rest @ [y]) = (x # rest @ [y]) ! i"
      using w False i unfolding app by (simp add: nth_append del: append_Cons)
    have b: "\<forall>j < length (x # rest @ [y]). d ((x # rest @ [y]) ! j) \<le> d ((x # rest @ [y]) ! i)"
    proof (intro allI impI)
      fix j assume "j < length (x # rest @ [y])"
      then consider "j < length (x # rest)" | "j = length (x # rest)" by fastforce
      then show "d ((x # rest @ [y]) ! j) \<le> d ((x # rest @ [y]) ! i)"
      proof cases
        case 1
        with ge have "d ((x # rest) ! j) \<le> d ((x # rest) ! i)" by blast
        with 1 i show ?thesis unfolding app by (simp add: nth_append del: append_Cons)
      next
        case 2
        with False i show ?thesis unfolding app by (simp add: nth_append del: append_Cons)
      qed
    qed
    have c: "\<forall>j < i. d ((x # rest @ [y]) ! j) < d ((x # rest @ [y]) ! i)"
    proof (intro allI impI)
      fix j assume j: "j < i"
      with lt have "d ((x # rest) ! j) < d ((x # rest) ! i)" by blast
      with j i show "d ((x # rest @ [y]) ! j) < d ((x # rest @ [y]) ! i)"
        unfolding app by (simp add: nth_append del: append_Cons)
    qed
    from i have "i < length (x # rest @ [y])" by simp
    with a b c show ?thesis by blast
  qed
qed

lemma generateReport_worst:
  assumes "results \<noteq> []" "generateReport direction results = Inr rp"
  shows "\<exists>i < length results.
           rp_worstName rp = seg_name (results ! i)
         \<and> rp_worstDelay rp = seg_delayMinutes (results ! i)
         \<and> (\<forall>j < length results. seg_delayMinutes (results ! j) \<le> seg_delayMinutes (results ! i))
         \<and> (\<forall>j < i. seg_delayMinutes (results ! j) < seg_delayMinutes (results ! i))"
proof -
  from assms(1) obtain x rest where xs: "results = x # rest" by (cases results) auto
  from worst_is_first_greatest [of x rest seg_delayMinutes] obtain i where
    i: "i < length (x # rest)"
    and w: "foldl (\<lambda>worst current.
                if seg_delayMinutes current > seg_delayMinutes worst then current else worst) x rest
             = (x # rest) ! i"
    and ge: "\<forall>j < length (x # rest). seg_delayMinutes ((x # rest) ! j) \<le> seg_delayMinutes ((x # rest) ! i)"
    and lt: "\<forall>j < i. seg_delayMinutes ((x # rest) ! j) < seg_delayMinutes ((x # rest) ! i)"
    by blast
  from assms(2) have "rp_worstName rp = seg_name ((x # rest) ! i)"
    "rp_worstDelay rp = seg_delayMinutes ((x # rest) ! i)"
    unfolding xs generateReport_def reduce1_def Let_def w [symmetric] by auto
  with i ge lt show ?thesis unfolding xs by blast
qed

text \<open>
  Claim C4, as amended. For a non-empty list of segment results the report is built,
  its total delay is the total current time minus the total normal time, its worst
  segment is the first segment of greatest \<open>delayMinutes\<close>, and the recommendation
  follows the ladder: at least 15 the major message, else at least 10 the significant
  message naming the worst segment, else at least 5 the minor message, which names it
  too, else the clear message. Total delays of 3, 7, 12 and 20 minutes select the clear,
  minor, significant and major tier.
\<close>

theorem C4_recommendation_ladder:
  assumes "results \<noteq> []"
  shows "\<exists>rp. generateReport direction results = Inr rp
           \<and> rp_totalDelay rp = sum_list (map (\<lambda>s. or_num (currentTime s) (normalTime s)) results)
                                 - sum_list (map normalTime results)
           \<and> (\<exists>i < length results.
                  rp_worstName rp = seg_name (results ! i)
                \<and> rp_worstDelay rp = seg_delayMinutes (results ! i)
                \<and> (\<forall>j < length results.
                      seg_delayMinutes (results ! j) \<le> seg_delayMinutes (results ! i))
                \<and> (\<forall>j < i. seg_delayMinutes (results ! j) < seg_delayMinutes (results ! i)))
           \<and> (15 \<le> rp_totalDelay rp \<longrightarrow>
                rp_recommendation rp = MajorDelays (Math_ceil (rp_totalDelay rp / 5) * 5))
           \<and> (10 \<le> rp_totalDelay rp \<and> rp_totalDelay rp < 15 \<longrightarrow>
                rp_recommendation rp = SignificantDelays (rp_worstName rp) (rp_totalDelay rp))
           \<and> (5 \<le> rp_totalDelay rp \<and> rp_totalDelay rp < 10 \<longrightarrow>
                rp_recommendation rp = MinorDelays (rp_totalDelay rp) (rp_worstName rp))
           \<and> (rp_totalDelay rp < 5 \<longrightarrow> rp_recommendation rp = RouteClear)
           \<and> (rp_totalDelay rp = 3 \<longrightarrow> tier_of (rp_recommendation rp) = Clear)
           \<and> (rp_totalDelay rp = 7 \<longrightarrow> tier_of (rp_recommendation rp) = Minor)
           \<and> (rp_totalDelay rp = 12 \<longrightarrow> tier_of (rp_recommendation rp) = Significant)
           \<and> (rp_totalDelay rp = 20 \<longrightarrow> tier_of (rp_recommendation rp) = Major)"
proof -
  from generateReport_nonempty [OF assms] obtain rp where
    rp: "generateReport direction results = Inr rp"
        "rp_totalDelay rp = sum_list (map (\<lambda>s. or_num (currentTime s) (normalTime s)) results)
                                 - sum_list (map normalTime results)"
        "rp_recommendation rp = select_recommendation (rp_totalDelay rp) (rp_worstName rp)"
    by blast
  note worst = generateReport_worst [OF assms rp(1)]
  show ?thesis
    apply (rule exI [of _ rp])
    apply (intro conjI)
              apply (rule rp(1))
             apply (rule rp(2))
            apply (rule worst)
    using select_recommendation_cases [of "rp_totalDelay rp" "rp_worstName rp"]
      select_recommendation_tiers [of "rp_totalDelay rp" "rp_worstName rp"]
    unfolding rp(3) [symmetric] by blast+
qed

text \<open>
  Claim C4 as stated fails at a total delay of 3 minutes: the report selects the clear
  tier, not the minor one.
\<close>

theorem C4_counterexample:
  "map_sum id (\<lambda>rp. (rp_totalDelay rp, tier_of (rp_recommendation rp)))
     (generateReport ''southbound'' (southbound_results 3)) = Inr (3, Clear)"
  by code_simp

lemma southbound_results_nonempty: "southbound_results d \<noteq> []"
  by (simp add: southbound_results_def M1_SEGMENTS_southbound_def)

lemma southbound_results_two_nonempty: "southbound_results_two a b \<noteq> []"
  by (simp add: southbound_results_two_def M1_SEGMENTS_southbound_def)

text \<open>
  The statement of C4 at the southbound route with total delays 3, 7, 12 and 20, and
  with two delayed segments: delays of 5 and 2 (the first is the worst), of 4 and 8 (the
  second), and of 3 and 3 (the first of the two).
\<close>

theorem C4_witness:
  "((\<exists>rp. generateReport ''southbound'' (southbound_results 3) = Inr rp
        \<and> rp_totalDelay rp = 3 \<and> rp_recommendation rp = RouteClear
        \<and> tier_of (rp_recommendation rp) = Clear)
   \<and> (\<exists>rp. generateReport ''southbound'' (southbound_results 7) = Inr rp
        \<and> rp_totalDelay rp = 7
        \<and> rp_recommendation rp = MinorDelays 7 ''J7-J6 Julianstown-Balbriggan''
        \<and> tier_of (rp_recommendation rp) = Minor)
   \<and> (\<exists>rp. generateReport ''southbound'' (southbound_results 12) = Inr rp
        \<and> rp_totalDelay rp = 12
        \<and> rp_recommendation rp = SignificantDelays ''J7-J6 Julianstown-Balbriggan'' 12
        \<and> tier_of (rp_recommendation rp) = Significant)
   \<and> (\<exists>rp. generateReport ''southbound'' (southbound_results 20) = Inr rp
        \<and> rp_totalDelay rp = 20 \<and> rp_recommendation rp = MajorDelays 20
        \<and> tier_of (rp_recommendation rp) = Major))
   \<and> ((\<exists>rp. generateReport ''southbound'' (southbound_results_two 5 2) = Inr rp
        \<and> rp_totalDelay rp = 7 \<and> rp_worstName rp = ''J9-J8 Drogheda-Duleek''
        \<and> rp_worstDelay rp = 5
        \<and> (\<forall>s \<in> set (southbound_results_two 5 2). seg_delayMinutes s \<le> rp_worstDelay rp)
        \<and> rp_recommendation rp = MinorDelays 7 ''J9-J8 Drogheda-Duleek'')
   \<and> (\<exists>rp. generateReport ''southbound'' (southbound_results_two 4 8) = Inr rp
        \<and> rp_totalDelay rp = 12 \<and> rp_worstName rp = ''J7-J6 Julianstown-Balbriggan''
        \<and> rp_worstDelay rp = 8
        \<and> (\<forall>s \<in> set (southbound_results_two 4 8). seg_delayMinutes s \<le> rp_worstDelay rp)
        \<and> rp_recommendation rp = SignificantDelays ''J7-J6 Julianstown-Balbriggan'' 12)
   \<and> (\<exists>rp. generateReport ''southbound'' (southbound_results_two 3 3) = Inr rp
        \<and> rp_totalDelay rp = 6 \<and> rp_worstName rp = ''J9-J8 Drogheda-Duleek''
        \<and> rp_worstDelay rp = 3
        \<and> (\<forall>s \<in> set (southbound_results_two 3 3). seg_delayMinutes s \<le> rp_worstDelay rp)
        \<and> rp_recommendation rp = MinorDelays 6 ''J9-J8 Drogheda-Duleek''))"
proof (rule conjI)
  show "(\<exists>rp. generateReport ''southbound'' (southbound_results 3) = Inr rp
        \<and> rp_totalDelay rp = 3 \<and> rp_recommendation rp = RouteClear
        \<and> tier_of (rp_recommendation rp) = Clear)
   \<and> (\<exists>rp. generateReport ''southbound'' (southbound_results 7) = Inr rp
        \<and> rp_totalDelay rp = 7
        \<and> rp_recommendation rp = MinorDelays 7 ''J7-J6 Julianstown-Balbriggan''
        \<and> tier_of (rp_recommendation rp) = Minor)
   \<and> (\<exists>rp. generateReport ''southbound'' (southbound_results 12) = Inr rp
        \<and> rp_totalDelay rp = 12
        \<and> rp_recommendation rp = SignificantDelays ''J7-J6 Julianstown-Balbriggan'' 12
        \<and> tier_of (rp_recommendation rp) = Significant)
   \<and> (\<exists>rp. generateReport ''southbound'' (southbound_results 20) = Inr rp
        \<and> rp_totalDelay rp = 20 \<and> rp_recommendation rp = MajorDelays 20
        \<and> tier_of (rp_recommendation rp) = Major)"
    proof (intro conjI)
      have e: "map_sum id (\<lambda>rp. (rp_totalDelay rp, rp_worstName rp))
                  (generateReport ''southbound'' (southbound_results 3))
                = Inr (3, ''J7-J6 Julianstown-Balbriggan'')" by code_simp
      from C4_recommendation_ladder [OF southbound_results_nonempty, of "''southbound''" 3]
      obtain rp where r: "generateReport ''southbound'' (southbound_results 3) = Inr rp"
        and c: "rp_totalDelay rp < 5 \<longrightarrow> rp_recommendation rp = RouteClear"
        and t: "rp_totalDelay rp = 3 \<longrightarrow> tier_of (rp_recommendation rp) = Clear"
        by blast
      from e r have d: "rp_totalDelay rp = 3" by simp
      with c t have "rp_recommendation rp = RouteClear" "tier_of (rp_recommendation rp) = Clear"
        by simp_all
      with r d show "\<exists>rp. generateReport ''southbound'' (southbound_results 3) = Inr rp
            \<and> rp_totalDelay rp = 3 \<and> rp_recommendation rp = RouteClear
            \<and> tier_of (rp_recommendation rp) = Clear" by blast
    next
      have e: "map_sum id (\<lambda>rp. (rp_totalDelay rp, rp_worstName rp))
                  (generateReport ''southbound'' (southbound_results 7))
                = Inr (7, ''J7-J6 Julianstown-Balbriggan'')" by code_simp
      from C4_recommendation_ladder [OF southbound_results_nonempty, of "''southbound''" 7]
      obtain rp where r: "generateReport ''southbound'' (southbound_results 7) = Inr rp"
        and c: "5 \<le> rp_totalDelay rp \<and> rp_totalDelay rp < 10 \<longrightarrow>
                  rp_recommendation rp = MinorDelays (rp_totalDelay rp) (rp_worstName rp)"
        and t: "rp_totalDelay rp = 7 \<longrightarrow> tier_of (rp_recommendation rp) = Minor"
        by blast
      from e r have d: "rp_totalDelay rp = 7" "rp_worstName rp = ''J7-J6 Julianstown-Balbriggan''"
        by simp_all
      with c t have "rp_recommendation rp = MinorDelays 7 ''J7-J6 Julianstown-Balbriggan''"
        "tier_of (rp_recommendation rp) = Minor"
        by simp_all
      with r d show "\<exists>rp. generateReport ''southbound'' (southbound_results 7) = Inr rp
            \<and> rp_totalDelay rp = 7
            \<and> rp_recommendation rp = MinorDelays 7 ''J7-J6 Julianstown-Balbriggan''
            \<and> tier_of (rp_recommendation rp) = Minor" by blast
    next
      have e: "map_sum id (\<lambda>rp. (rp_totalDelay rp, rp_worstName rp))
                  (generateReport ''southbound'' (southbound_results 12))
                = Inr (12, ''J7-J6 Julianstown-Balbriggan'')" by code_simp
      from C4_recommendation_ladder [OF southbound_results_nonempty, of "''southbound''" 12]
      obtain rp where r: "generateReport ''southbound'' (southbound_results 12) = Inr rp"
        and c: "10 \<le> rp_totalDelay rp \<and> rp_totalDelay rp < 15 \<longrightarrow>
                  rp_recommendation rp = SignificantDelays (rp_worstName rp) (rp_totalDelay rp)"
        and t: "rp_totalDelay rp = 12 \<longrightarrow> tier_of (rp_recommendation rp) = Significant"
        by blast
      from e r have d: "rp_totalDelay rp = 12" "rp_worstName rp = ''J7-J6 Julianstown-Balbriggan''"
        by simp_all
      with c t have "rp_recommendation rp = SignificantDelays ''J7-J6 Julianstown-Balbriggan'' 12"
        "tier_of (rp_recommendation rp) = Significant"
        by simp_all
      with r d show "\<exists>rp. generateReport ''southbound'' (southbound_results 12) = Inr rp
            \<and> rp_totalDelay rp = 12
            \<and> rp_recommendation rp = SignificantDelays ''J7-J6 Julianstown-Balbriggan'' 12
            \<and> tier_of (rp_recommendation rp) = Significant" by blast
    next
      have e: "map_sum id (\<lambda>rp. (rp_totalDelay rp, rp_worstName rp))
                  (generateReport ''southbound'' (southbound_results 20))
                = Inr (20, ''J7-J6 Julianstown-Balbriggan'')" by code_simp
      have c20: "Math_ceil (20 / 5) * 5 = 20" by (simp add: Math_ceil_def)
      from C4_recommendation_ladder [OF southbound_results_nonempty, of "''southbound''" 20]
      obtain rp where r: "generateReport ''southbound'' (southbound_results 20) = Inr rp"
        and c: "15 \<le> rp_totalDelay rp \<longrightarrow>
                  rp_recommendation rp = MajorDelays (Math_ceil (rp_totalDelay rp / 5) * 5)"
        and t: "rp_totalDelay rp = 20 \<longrightarrow> tier_of (rp_recommendation rp) = Major"
        by blast
      from e r have d: "rp_totalDelay rp = 20" by simp
      with c t c20 have "rp_recommendation rp = MajorDelays 20"
        "tier_of (rp_recommendation rp) = Major"
        by simp_all
      with r d show "\<exists>rp. generateReport ''southbound'' (southbound_results 20) = Inr rp
            \<and> rp_totalDelay rp = 20 \<and> rp_recommendation rp = MajorDelays 20
            \<and> tier_of (rp_recommendation rp) = Major" by blast
    qed
  show "(\<exists>rp. generateReport ''southbound'' (southbound_results_two 5 2) = Inr rp
        \<and> rp_totalDelay rp = 7 \<and> rp_worstName rp = ''J9-J8 Drogheda-Duleek''
        \<and> rp_worstDelay rp = 5
        \<and> (\<forall>s \<in> set (southbound_results_two 5 2). seg_delayMinutes s \<le> rp_worstDelay rp)
        \<and> rp_recommendation rp = MinorDelays 7 ''J9-J8 Drogheda-Duleek'')
   \<and> (\<exists>rp. generateReport ''southbound'' (southbound_results_two 4 8) = Inr rp
        \<and> rp_totalDelay rp = 12 \<and> rp_worstName rp = ''J7-J6 Julianstown-Balbriggan''
        \<and> rp_worstDelay rp = 8
        \<and> (\<forall>s \<in> set (southbound_results_two 4 8). seg_delayMinutes s \<le> rp_worstDelay rp)
        \<and> rp_recommendation rp = SignificantDelays ''J7-J6 Julianstown-Balbriggan'' 12)
   \<and> (\<exists>rp. generateReport ''southbound'' (southbound_results_two 3 3) = Inr rp
        \<and> rp_totalDelay rp = 6 \<and> rp_worstName rp = ''J9-J8 Drogheda-Duleek''
        \<and> rp_worstDelay rp = 3
        \<and> (\<forall>s \<in> set (southbound_results_two 3 3). seg_delayMinutes s \<le> rp_worstDelay rp)
        \<and> rp_recommendation rp = MinorDelays 6 ''J9-J8 Drogheda-Duleek'')"
    proof (intro conjI)
      have e: "map_sum id (\<lambda>rp. (rp_totalDelay rp, rp_worstName rp, rp_worstDelay rp))
                  (generateReport ''southbound'' (southbound_results_two 5 2))
                = Inr (7, ''J9-J8 Drogheda-Duleek'', 5)" by code_simp
      from C4_recommendation_ladder [OF southbound_results_two_nonempty, of "''southbound''" 5 2]
      obtain rp i where r: "generateReport ''southbound'' (southbound_results_two 5 2) = Inr rp"
        and i: "i < length (southbound_results_two 5 2)"
        and wd: "rp_worstDelay rp = seg_delayMinutes ((southbound_results_two 5 2) ! i)"
        and le: "\<forall>j < length (southbound_results_two 5 2).
                   seg_delayMinutes ((southbound_results_two 5 2) ! j)
                     \<le> seg_delayMinutes ((southbound_results_two 5 2) ! i)"
        and c: "5 \<le> rp_totalDelay rp \<and> rp_totalDelay rp < 10 \<longrightarrow>
                  rp_recommendation rp = MinorDelays (rp_totalDelay rp) (rp_worstName rp)"
        by (elim exE conjE) (rule that)
      from wd le have w: "\<forall>s \<in> set (southbound_results_two 5 2). seg_delayMinutes s \<le> rp_worstDelay rp"
        by (auto simp: in_set_conv_nth)
      from e r have d: "rp_totalDelay rp = 7" "rp_worstName rp = ''J9-J8 Drogheda-Duleek''"
        "rp_worstDelay rp = 5" by simp_all
      with c have "rp_recommendation rp = MinorDelays 7 ''J9-J8 Drogheda-Duleek''" by simp
      with r d w show "\<exists>rp. generateReport ''southbound'' (southbound_results_two 5 2) = Inr rp
            \<and> rp_totalDelay rp = 7 \<and> rp_worstName rp = ''J9-J8 Drogheda-Duleek''
            \<and> rp_worstDelay rp = 5
            \<and> (\<forall>s \<in> set (southbound_results_two 5 2). seg_delayMinutes s \<le> rp_worstDelay rp)
            \<and> rp_recommendation rp = MinorDelays 7 ''J9-J8 Drogheda-Duleek''" by blast
    next
      have e: "map_sum id (\<lambda>rp. (rp_totalDelay rp, rp_worstName rp, rp_worstDelay rp))
                  (generateReport ''southbound'' (southbound_results_two 4 8))
                = Inr (12, ''J7-J6 Julianstown-Balbriggan'', 8)" by code_simp
      from C4_recommendation_ladder [OF southbound_results_two_nonempty, of "''southbound''" 4 8]
      obtain rp i where r: "generateReport ''southbound'' (southbound_results_two 4 8) = Inr rp"
        and i: "i < length (southbound_results_two 4 8)"
        and wd: "rp_worstDelay rp = seg_delayMinutes ((southbound_results_two 4 8) ! i)"
        and le: "\<forall>j < length (southbound_results_two 4 8).
                   seg_delayMinutes ((southbound_results_two 4 8) ! j)
                     \<le> seg_delayMinutes ((southbound_results_two 4 8) ! i)"
        and c: "10 \<le> rp_totalDelay rp \<and> rp_totalDelay rp < 15 \<longrightarrow>
                  rp_recommendation rp = SignificantDelays (rp_worstName rp) (rp_totalDelay rp)"
        by (elim exE conjE) (rule that)
      from wd le have w: "\<forall>s \<in> set (southbound_results_two 4 8). seg_delayMinutes s \<le> rp_worstDelay rp"
        by (auto simp: in_set_conv_nth)
      from e r have d: "rp_totalDelay rp = 12" "rp_worstName rp = ''J7-J6 Julianstown-Balbriggan''"
        "rp_worstDelay rp = 8" by simp_all
      with c have "rp_recommendation rp = SignificantDelays ''J7-J6 Julianstown-Balbriggan'' 12" by simp
      with r d w show "\<exists>rp. generateReport ''southbound'' (southbound_results_two 4 8) = Inr rp
            \<and> rp_totalDelay rp = 12 \<and> rp_worstName rp = ''J7-J6 Julianstown-Balbriggan''
            \<and> rp_worstDelay rp = 8
            \<and> (\<forall>s \<in> set (southbound_results_two 4 8). seg_delayMinutes s \<le> rp_worstDelay rp)
            \<and> rp_recommendation rp = SignificantDelays ''J7-J6 Julianstown-Balbriggan'' 12" by blast
    next
      have e: "map_sum id (\<lambda>rp. (rp_totalDelay rp, rp_worstName rp, rp_worstDelay rp))
                  (generateReport ''southbound'' (southbound_results_two 3 3))
                = Inr (6, ''J9-J8 Drogheda-Duleek'', 3)" by code_simp
      from C4_recommendation_ladder [OF southbound_results_two_nonempty, of "''southbound''" 3 3]
      obtain rp i where r: "generateReport ''southbound'' (southbound_results_two 3 3) = Inr rp"
        and i: "i < length (southbound_results_two 3 3)"
        and wd: "rp_worstDelay rp = seg_delayMinutes ((southbound_results_two 3 3) ! i)"
        and le: "\<forall>j < length (southbound_results_two 3 3).
                   seg_delayMinutes ((southbound_results_two 3 3) ! j)
                     \<le> seg_delayMinutes ((southbound_results_two 3 3) ! i)"
        and c: "5 \<le> rp_totalDelay rp \<and> rp_totalDelay rp < 10 \<longrightarrow>
                  rp_recommendation rp = MinorDelays (rp_totalDelay rp) (rp_worstName rp)"
        by (elim exE conjE) (rule that)
      from wd le have w: "\<forall>s \<in> set (southbound_results_two 3 3). seg_delayMinutes s \<le> rp_worstDelay rp"
        by (auto simp: in_set_conv_nth)
      from e r have d: "rp_totalDelay rp = 6" "rp_worstName rp = ''J9-J8 Drogheda-Duleek''"
        "rp_worstDelay rp = 3" by simp_all
      with c have "rp_recommendation rp = MinorDelays 6 ''J9-J8 Drogheda-Duleek''" by simp
      with r d w show "\<exists>rp. generateReport ''southbound'' (southbound_results_two 3 3) = Inr rp
            \<and> rp_totalDelay rp = 6 \<and> rp_worstName rp = ''J9-J8 Drogheda-Duleek''
            \<and> rp_worstDelay rp = 3
            \<and> (\<forall>s \<in> set (southbound_results_two 3 3). seg_delayMinutes s \<le> rp_worstDelay rp)
            \<and> rp_recommendation rp = MinorDelays 6 ''J9-J8 Drogheda-Duleek''" by blast
    qed
qed


subsection \<open>The free adapters always resolve\<close>

lemma fetchTIITraffic_returns:
  "\<exists>r w'. fetchTIITraffic w road = (Inr r, w')
          \<and> adapter_calls w' = adapter_calls w @ [Call_fetchTIITraffic road]"
  by (simp add: fetchTIITraffic_def fetchTIITraffic_try_def issue_def enter_def Let_def
           split: tii_response.split)

lemma fetchSites_calls:
  "fetchSites w road = (x, w1) \<Longrightarrow> adapter_calls w1 = adapter_calls w \<and> x \<noteq> SitesFails m"
  by (auto simp: fetchSites_def issue_def Let_def split: sites_response.splits)

lemma fetchReports_calls:
  "fetchReports w ids = (x, w1) \<Longrightarrow> adapter_calls w1 = adapter_calls w \<and> x \<noteq> ReportsFails m"
  by (auto simp: fetchReports_def issue_def Let_def split: reports_response.splits if_splits)

lemma fetchWebTRISTraffic_try_calls:
  assumes "fetchWebTRISTraffic_try w road key = (x, w')"
  shows "adapter_calls w' = adapter_calls w"
proof -
  obtain s w1 where s: "fetchSites w road = (s, w1)" by (cases "fetchSites w road")
  from fetchSites_calls [OF s] have c1: "adapter_calls w1 = adapter_calls w" by simp
  show ?thesis
  proof (cases s)
    case (SitesFails m)
    with assms s c1 show ?thesis by (simp add: fetchWebTRISTraffic_try_def)
  next
    case (SitesMalformed m)
    with assms s c1 show ?thesis by (auto simp: fetchWebTRISTraffic_try_def)
  next
    case (SitesList sites)
    show ?thesis
    proof (cases "sites = []")
      case True
      with assms s c1 SitesList show ?thesis by (auto simp: fetchWebTRISTraffic_try_def)
    next
      case False
      obtain rp w2 where rp: "fetchReports w1 (map site_id sites) = (rp, w2)"
        by (cases "fetchReports w1 (map site_id sites)")
      from fetchReports_calls [OF rp] c1 have c2: "adapter_calls w2 = adapter_calls w" by simp
      from assms s SitesList False rp c2 show ?thesis
        by (cases rp) (auto simp: fetchWebTRISTraffic_try_def Let_def)
    qed
  qed
qed

lemma fetchWebTRISTraffic_returns:
  "\<exists>r w'. fetchWebTRISTraffic w road = (Inr r, w')
          \<and> adapter_calls w' = adapter_calls w @ [Call_fetchWebTRISTraffic road]"
proof -
  let ?w = "enter (Call_fetchWebTRISTraffic road) w"
  have c: "adapter_calls ?w = adapter_calls w @ [Call_fetchWebTRISTraffic road]"
    by (simp add: enter_def)
  obtain x w1 where t: "fetchWebTRISTraffic_try ?w road (webtris_getCacheKey road) = (x, w1)"
    by (cases "fetchWebTRISTraffic_try ?w road (webtris_getCacheKey road)")
  with fetchWebTRISTraffic_try_calls [OF t] c
  have c1: "adapter_calls w1 = adapter_calls w @ [Call_fetchWebTRISTraffic road]" by simp
  show ?thesis
    using t c c1
    by (cases x) (simp_all add: fetchWebTRISTraffic_def Let_def)
qed

subsection \<open>The Google Maps adapter always resolves\<close>

lemma trackAPICall_calls [simp]:
  "adapter_calls (trackAPICall origin destination ok w) = adapter_calls w"
  by (simp add: trackAPICall_def Let_def)

lemma fetchGoogleMapsTraffic_try_calls:
  assumes "fetchGoogleMapsTraffic_try w origin destination road key = (x, w')"
  shows "adapter_calls w' = adapter_calls w"
proof (cases "google_directions (net w) (length (requests w)) origin destination")
  case (GoogleFails m)
  with assms show ?thesis
    by (auto simp: fetchGoogleMapsTraffic_try_def issue_def Let_def)
next
  case (GoogleMalformed m)
  with assms show ?thesis
    by (auto simp: fetchGoogleMapsTraffic_try_def issue_def Let_def)
next
  case (GoogleBody status routes)
  with assms show ?thesis
    by (auto simp: fetchGoogleMapsTraffic_try_def issue_def Let_def
             split: if_splits list.splits sum.splits)
qed

lemma fetchGoogleMapsTraffic_returns:
  "\<exists>r w'. fetchGoogleMapsTraffic w origin destination road = (Inr r, w')
          \<and> adapter_calls w' = adapter_calls w @ [Call_fetchGoogleMapsTraffic origin destination road]"
proof -
  let ?w = "enter (Call_fetchGoogleMapsTraffic origin destination road) w"
  have c: "adapter_calls ?w = adapter_calls w @ [Call_fetchGoogleMapsTraffic origin destination road]"
    by (simp add: enter_def)
  obtain x w1 where t: "fetchGoogleMapsTraffic_try ?w origin destination road
                          (google_getCacheKey origin destination) = (x, w1)"
    by (cases "fetchGoogleMapsTraffic_try ?w origin destination road
                 (google_getCacheKey origin destination)")
  from fetchGoogleMapsTraffic_try_calls [OF t] c
  have c1: "adapter_calls w1 = adapter_calls w @ [Call_fetchGoogleMapsTraffic origin destination road]"
    by simp
  show ?thesis
    using t c c1
    by (cases x) (simp_all add: fetchGoogleMapsTraffic_def Let_def)
qed

lemma fetchRoadTraffic_returns:
  "\<exists>r1 w1 r w'.
      fetchGoogleMapsTraffic w (first_origin road town country)
        (buildLocationQuery road town country) (Some road) = (Inr r1, w1)
    \<and> fetchRoadTraffic w road town country = (Inr r, w')
    \<and> adapter_calls w' = adapter_calls w
        @ (if r_data r1 = [] \<and> truthy_str town
           then [Call_fetchGoogleMapsTraffic (first_origin road town country)
                   (buildLocationQuery road town country) (Some road),
                 Call_fetchGoogleMapsTraffic (''Near '' @ road @ '', '' @ the town)
                   (''End of '' @ road @ '', '' @ the town) (Some road)]
           else [Call_fetchGoogleMapsTraffic (first_origin road town country)
                   (buildLocationQuery road town country) (Some road)])"
proof -
  from fetchGoogleMapsTraffic_returns
  obtain r1 w1 where a: "fetchGoogleMapsTraffic w (first_origin road town country)
        (buildLocationQuery road town country) (Some road) = (Inr r1, w1)"
    and ca: "adapter_calls w1 = adapter_calls w
               @ [Call_fetchGoogleMapsTraffic (first_origin road town country)
                   (buildLocationQuery road town country) (Some road)]"
    by blast
  from fetchGoogleMapsTraffic_returns
  obtain r2 w2 where b: "fetchGoogleMapsTraffic w1 (''Near '' @ road @ '', '' @ the town)
                   (''End of '' @ road @ '', '' @ the town) (Some road) = (Inr r2, w2)"
    and cb: "adapter_calls w2 = adapter_calls w1
               @ [Call_fetchGoogleMapsTraffic (''Near '' @ road @ '', '' @ the town)
                   (''End of '' @ road @ '', '' @ the town) (Some road)]"
    by blast
  have o: "(if truthy_str town then the town @ '' '' @ or_str country [] else buildLocationQuery road town country)
           = first_origin road town country"
    by (simp add: first_origin_def)
  show ?thesis
  proof (cases "r_data r1 = [] \<and> truthy_str town")
    case True
    then have "fetchRoadTraffic w road town country = (Inr r2, w2)"
      unfolding fetchRoadTraffic_def Let_def o using a b by simp
    with a ca cb True show ?thesis by simp
  next
    case False
    then have "fetchRoadTraffic w road town country = (Inr r1, w1)"
      unfolding fetchRoadTraffic_def Let_def o using a by auto
    with a ca False show ?thesis by auto
  qed
qed

subsection \<open>The free stages of the orchestrator\<close>

lemma record_free_result_fields:
  "fallbackUsed (record_free_result label src res rs) = fallbackUsed rs"
  "errors (record_free_result label src res rs) = errors rs"
  "sourcesUsed (record_free_result label src res rs) = sourcesUsed rs @ [src]"
  "data (record_free_result label src res rs) = data rs @ r_data res"
  "set (details rs) \<subseteq> set (details (record_free_result label src res rs))"
  "r_data res = [] \<Longrightarrow>
     \<lparr>d_step = label @ '' returned no data'', d_fromCache = None, d_error = r_error res\<rparr>
       \<in> set (details (record_free_result label src res rs))"
  by (auto simp: record_free_result_def Let_def)

lemma tii_stage_skipped:
  "\<not> tii_applies road country \<Longrightarrow> tii_stage road country (rs, w) = (Inr rs, w)"
  by (simp add: tii_stage_def)

lemma tii_stage_tried:
  assumes "tii_applies road country"
  shows "\<exists>r w1 rs1. fetchTIITraffic w road = (Inr r, w1)
           \<and> tii_stage road country (rs, w) = (Inr rs1, w1)
           \<and> adapter_calls w1 = adapter_calls w @ [Call_fetchTIITraffic road]
           \<and> fallbackUsed rs1 = fallbackUsed rs \<and> errors rs1 = errors rs
           \<and> sourcesUsed rs1 = sourcesUsed rs @ [''TII-Ireland'']
           \<and> data rs1 = data rs @ r_data r
           \<and> set (details rs) \<subseteq> set (details rs1)
           \<and> (r_data r = [] \<longrightarrow>
                \<lparr>d_step = ''TII returned no data'', d_fromCache = None, d_error = r_error r\<rparr>
                  \<in> set (details rs1))"
proof -
  from fetchTIITraffic_returns obtain r w1 where
    f: "fetchTIITraffic w road = (Inr r, w1)"
    and c: "adapter_calls w1 = adapter_calls w @ [Call_fetchTIITraffic road]" by blast
  let ?rs0 = "rs\<lparr>details := details rs
                           @ [\<lparr>d_step = ''Trying TII (Ireland) for '' @ road,
                                d_fromCache = None, d_error = None\<rparr>]\<rparr>"
  let ?rs1 = "record_free_result ''TII'' ''TII-Ireland'' r ?rs0"
  have s: "tii_stage road country (rs, w) = (Inr ?rs1, w1)"
    using assms f by (simp add: tii_stage_def)
  have d: "set (details rs) \<subseteq> set (details ?rs1)"
    using record_free_result_fields(5) [of ?rs0 "''TII''" "''TII-Ireland''" r] by auto
  have n: "r_data r = [] \<longrightarrow>
                \<lparr>d_step = ''TII returned no data'', d_fromCache = None, d_error = r_error r\<rparr>
                  \<in> set (details ?rs1)"
    using record_free_result_fields(6) [of r "''TII''" "''TII-Ireland''" ?rs0] by simp
  show ?thesis
    apply (rule exI [of _ r], rule exI [of _ w1], rule exI [of _ "?rs1"])
    using f s c d n by (simp add: record_free_result_fields(1-4))
qed

lemma webtris_stage_skipped:
  "\<not> webtris_applies road country \<Longrightarrow> webtris_stage road country (rs, w) = (Inr rs, w)"
  by (simp add: webtris_stage_def)

lemma webtris_stage_tried:
  assumes "webtris_applies road country"
  shows "\<exists>r w1 rs1. fetchWebTRISTraffic w road = (Inr r, w1)
           \<and> webtris_stage road country (rs, w) = (Inr rs1, w1)
           \<and> adapter_calls w1 = adapter_calls w @ [Call_fetchWebTRISTraffic road]
           \<and> fallbackUsed rs1 = fallbackUsed rs \<and> errors rs1 = errors rs
           \<and> sourcesUsed rs1 = sourcesUsed rs @ [''WebTRIS-UK'']
           \<and> data rs1 = data rs @ r_data r
           \<and> set (details rs) \<subseteq> set (details rs1)
           \<and> (r_data r = [] \<longrightarrow>
                \<lparr>d_step = ''WebTRIS returned no data'', d_fromCache = None, d_error = r_error r\<rparr>
                  \<in> set (details rs1))"
proof -
  from fetchWebTRISTraffic_returns obtain r w1 where
    f: "fetchWebTRISTraffic w road = (Inr r, w1)"
    and c: "adapter_calls w1 = adapter_calls w @ [Call_fetchWebTRISTraffic road]" by blast
  let ?rs0 = "rs\<lparr>details := details rs
                           @ [\<lparr>d_step = ''Trying WebTRIS (UK) for '' @ road,
                                d_fromCache = None, d_error = None\<rparr>]\<rparr>"
  let ?rs1 = "record_free_result ''WebTRIS'' ''WebTRIS-UK'' r ?rs0"
  have s: "webtris_stage road country (rs, w) = (Inr ?rs1, w1)"
    using assms f by (simp add: webtris_stage_def)
  have d: "set (details rs) \<subseteq> set (details ?rs1)"
    using record_free_result_fields(5) [of ?rs0 "''WebTRIS''" "''WebTRIS-UK''" r] by auto
  have n: "r_data r = [] \<longrightarrow>
                \<lparr>d_step = ''WebTRIS returned no data'', d_fromCache = None, d_error = r_error r\<rparr>
                  \<in> set (details ?rs1)"
    using record_free_result_fields(6) [of r "''WebTRIS''" "''WebTRIS-UK''" ?rs0] by simp
  show ?thesis
    apply (rule exI [of _ r], rule exI [of _ w1], rule exI [of _ "?rs1"])
    using f s c d n by (simp add: record_free_result_fields(1-4))
qed

text \<open>What the two free stages leave behind, whichever of them ran.\<close>

lemma free_stages_returns:
  "\<exists>rs2 w2. free_stages w road country = (Inr rs2, w2)
       \<and> google_calls_since w w2 = []
       \<and> length (adapter_calls w) \<le> length (adapter_calls w2)
       \<and> take (length (adapter_calls w)) (adapter_calls w2) = adapter_calls w
       \<and> \<not> fallbackUsed rs2 \<and> errors rs2 = []
       \<and> ''GoogleMaps'' \<notin> set (sourcesUsed rs2)"
proof -
  have t: "\<exists>rs1 w1. tii_stage road country (initial_results, w) = (Inr rs1, w1)
       \<and> (\<exists>cs. adapter_calls w1 = adapter_calls w @ cs \<and> filter is_google_call cs = [])
       \<and> \<not> fallbackUsed rs1 \<and> errors rs1 = []
       \<and> ''GoogleMaps'' \<notin> set (sourcesUsed rs1)"
  proof (cases "tii_applies road country")
    case True
    from tii_stage_tried [OF True, of w initial_results] obtain r w1 rs1 where
      "tii_stage road country (initial_results, w) = (Inr rs1, w1)"
      "adapter_calls w1 = adapter_calls w @ [Call_fetchTIITraffic road]"
      "fallbackUsed rs1 = fallbackUsed initial_results" "errors rs1 = errors initial_results"
      "sourcesUsed rs1 = sourcesUsed initial_results @ [''TII-Ireland'']"
      by blast
    then show ?thesis by (simp add: initial_results_def)
  next
    case False
    from tii_stage_skipped [OF False] show ?thesis by (simp add: initial_results_def)
  qed
  then obtain rs1 w1 cs1 where
    s1: "tii_stage road country (initial_results, w) = (Inr rs1, w1)"
    and c1: "adapter_calls w1 = adapter_calls w @ cs1" "filter is_google_call cs1 = []"
    and p1: "\<not> fallbackUsed rs1" "errors rs1 = []" "''GoogleMaps'' \<notin> set (sourcesUsed rs1)"
    by blast
  have u: "\<exists>rs2 w2. webtris_stage road country (rs1, w1) = (Inr rs2, w2)
       \<and> (\<exists>cs. adapter_calls w2 = adapter_calls w1 @ cs \<and> filter is_google_call cs = [])
       \<and> \<not> fallbackUsed rs2 \<and> errors rs2 = []
       \<and> ''GoogleMaps'' \<notin> set (sourcesUsed rs2)"
  proof (cases "webtris_applies road country")
    case True
    from webtris_stage_tried [OF True, of w1 rs1] obtain r w2 rs2 where
      "webtris_stage road country (rs1, w1) = (Inr rs2, w2)"
      "adapter_calls w2 = adapter_calls w1 @ [Call_fetchWebTRISTraffic road]"
      "fallbackUsed rs2 = fallbackUsed rs1" "errors rs2 = errors rs1"
      "sourcesUsed rs2 = sourcesUsed rs1 @ [''WebTRIS-UK'']"
      by blast
    with p1 show ?thesis by simp
  next
    case False
    from webtris_stage_skipped [OF False] p1 show ?thesis by simp
  qed
  then obtain rs2 w2 cs2 where
    s2: "webtris_stage road country (rs1, w1) = (Inr rs2, w2)"
    and c2: "adapter_calls w2 = adapter_calls w1 @ cs2" "filter is_google_call cs2 = []"
    and p2: "\<not> fallbackUsed rs2" "errors rs2 = []" "''GoogleMaps'' \<notin> set (sourcesUsed rs2)"
    by blast
  have f: "free_stages w road country = (Inr rs2, w2)"
    using s1 s2 by (simp add: free_stages_def)
  have g: "google_calls_since w w2 = []"
    using c1 c2 by (simp add: google_calls_since_def calls_since_def)
  from f g c1 c2 p2 show ?thesis by simp
qed

subsection \<open>The Google Maps stage of the orchestrator\<close>

lemma google_stage_skipped:
  "\<not> shouldTryGoogle road country town rs \<Longrightarrow>
     google_stage road country town (rs, w) = (Inr rs, w)"
  by (simp add: google_stage_def)

lemma google_stage_tried:
  assumes "shouldTryGoogle road country town rs"
  shows "\<exists>r1 w1 r w' rs'.
      fetchGoogleMapsTraffic w (first_origin road town (Some (countryName_of country)))
        (buildLocationQuery road town (Some (countryName_of country))) (Some road) = (Inr r1, w1)
    \<and> fetchRoadTraffic w road town (Some (countryName_of country)) = (Inr r, w')
    \<and> google_stage road country town (rs, w) = (Inr rs', w')
    \<and> adapter_calls w' = adapter_calls w
        @ (if r_data r1 = [] \<and> truthy_str town
           then [Call_fetchGoogleMapsTraffic (first_origin road town (Some (countryName_of country)))
                   (buildLocationQuery road town (Some (countryName_of country))) (Some road),
                 Call_fetchGoogleMapsTraffic (''Near '' @ road @ '', '' @ the town)
                   (''End of '' @ road @ '', '' @ the town) (Some road)]
           else [Call_fetchGoogleMapsTraffic (first_origin road town (Some (countryName_of country)))
                   (buildLocationQuery road town (Some (countryName_of country))) (Some road)])
    \<and> fallbackUsed rs'
    \<and> sourcesUsed rs' = sourcesUsed rs @ [''GoogleMaps'']
    \<and> data rs' = data rs @ r_data r
    \<and> errors rs' = errors rs @ (if r_data r = [] \<and> truthy_str (r_error r)
                                 then [the (r_error r)] else [])
    \<and> set (details rs) \<subseteq> set (details rs')
    \<and> (r_data r = [] \<longrightarrow>
          \<lparr>d_step = ''Google Maps returned no data'', d_fromCache = None, d_error = r_error r\<rparr>
            \<in> set (details rs'))"
proof -
  from fetchRoadTraffic_returns [of w road town "Some (countryName_of country)"]
  obtain r1 w1 r w' where
    a: "fetchGoogleMapsTraffic w (first_origin road town (Some (countryName_of country)))
        (buildLocationQuery road town (Some (countryName_of country))) (Some road) = (Inr r1, w1)"
    and b: "fetchRoadTraffic w road town (Some (countryName_of country)) = (Inr r, w')"
    and c: "adapter_calls w' = adapter_calls w
        @ (if r_data r1 = [] \<and> truthy_str town
           then [Call_fetchGoogleMapsTraffic (first_origin road town (Some (countryName_of country)))
                   (buildLocationQuery road town (Some (countryName_of country))) (Some road),
                 Call_fetchGoogleMapsTraffic (''Near '' @ road @ '', '' @ the town)
                   (''End of '' @ road @ '', '' @ the town) (Some road)]
           else [Call_fetchGoogleMapsTraffic (first_origin road town (Some (countryName_of country)))
                   (buildLocationQuery road town (Some (countryName_of country))) (Some road)])"
    by blast
  obtain rs' where s: "google_stage road country town (rs, w) = (Inr rs', w')"
    and p: "fallbackUsed rs'" "sourcesUsed rs' = sourcesUsed rs @ [''GoogleMaps'']"
      "data rs' = data rs @ r_data r"
      "errors rs' = errors rs @ (if r_data r = [] \<and> truthy_str (r_error r)
                                 then [the (r_error r)] else [])"
      "set (details rs) \<subseteq> set (details rs')"
      "r_data r = [] \<longrightarrow>
          \<lparr>d_step = ''Google Maps returned no data'', d_fromCache = None, d_error = r_error r\<rparr>
            \<in> set (details rs')"
  proof (cases "r_data r = []")
    case True
    show ?thesis
      by (rule that [of "rs\<lparr>details := details rs
                             @ [\<lparr>d_step = ''Falling back to Google Maps for '' @ road,
                                  d_fromCache = None, d_error = None\<rparr>],
                           fallbackUsed := True,
                           sourcesUsed := sourcesUsed rs @ [''GoogleMaps'']\<rparr>
                 \<lparr>details := details rs
                             @ [\<lparr>d_step = ''Falling back to Google Maps for '' @ road,
                                  d_fromCache = None, d_error = None\<rparr>]
                             @ [\<lparr>d_step = ''Google Maps returned no data'',
                                  d_fromCache = None, d_error = r_error r\<rparr>],
                   errors := (if truthy_str (r_error r)
                              then errors rs @ [the (r_error r)] else errors rs)\<rparr>"])
         (use assms b True in \<open>auto simp: google_stage_def Let_def\<close>)
  next
    case False
    show ?thesis
      by (rule that [of "rs\<lparr>details := details rs
                             @ [\<lparr>d_step = ''Falling back to Google Maps for '' @ road,
                                  d_fromCache = None, d_error = None\<rparr>],
                           fallbackUsed := True,
                           sourcesUsed := sourcesUsed rs @ [''GoogleMaps'']\<rparr>
                 \<lparr>data := data rs @ r_data r,
                   details := details rs
                             @ [\<lparr>d_step = ''Falling back to Google Maps for '' @ road,
                                  d_fromCache = None, d_error = None\<rparr>]
                             @ [\<lparr>d_step = ''Google Maps returned ''
                                     @ decimal (length (r_data r)) @ '' records'',
                                  d_fromCache = r_fromCache r, d_error = None\<rparr>]\<rparr>"])
         (use assms b False in \<open>auto simp: google_stage_def Let_def\<close>)
  qed
  show ?thesis
    apply (rule exI [of _ r1], rule exI [of _ w1], rule exI [of _ r], rule exI [of _ w'],
           rule exI [of _ rs'])
    using a b c s p by simp
qed

subsection \<open>When the orchestrator calls Google Maps\<close>

lemma calls_since_append:
  assumes "take (length (adapter_calls w)) (adapter_calls w2) = adapter_calls w"
      and "length (adapter_calls w) \<le> length (adapter_calls w2)"
      and "adapter_calls w' = adapter_calls w2 @ cs"
  shows "calls_since w w' = calls_since w w2 @ cs"
  using assms by (simp add: calls_since_def)

text \<open>
  Claim C1. For every world and every query (road, country, town),
  \<open>fetchTrafficWithFallback\<close> returns, and it calls \<open>fetchGoogleMapsTraffic\<close> if and only
  if the free stages left no data, or the query is a local street (town given and the road
  not an M/N/A-plus-digits name), or \<open>isGoogleMapsPreferred\<close> holds. When it calls it,
  \<open>fallbackUsed\<close> is true, \<open>GoogleMaps\<close> is in \<open>sourcesUsed\<close>, and the calls are exactly
  these: the first with the origin and destination built from road, town and country, and,
  when that call returns no data and a town is given, one more with the
  \<open>Near road, town\<close> / \<open>End of road, town\<close> phrasing, and no third. When it does not call
  it, \<open>fallbackUsed\<close> is false and \<open>GoogleMaps\<close> is not in \<open>sourcesUsed\<close>.
\<close>

theorem C1_commercial_fallback_trigger_and_retry:
  "\<exists>rs2 w2 rs w'.
      free_stages w road country = (Inr rs2, w2)
    \<and> fetchTrafficWithFallback w road country town = (Inr rs, w')
    \<and> (google_calls_since w w' \<noteq> [] \<longleftrightarrow>
          data rs2 = [] \<or> isLocalStreet road town \<or> isGoogleMapsPreferred road town country)
    \<and> (google_calls_since w w' \<noteq> [] \<longrightarrow>
          fallbackUsed rs \<and> ''GoogleMaps'' \<in> set (sourcesUsed rs)
          \<and> (\<exists>r1 w3.
                fetchGoogleMapsTraffic w2 (first_origin road town (Some (countryName_of country)))
                  (buildLocationQuery road town (Some (countryName_of country))) (Some road)
                  = (Inr r1, w3)
              \<and> google_calls_since w w' =
                  (if r_data r1 = [] \<and> truthy_str town
                   then [Call_fetchGoogleMapsTraffic
                           (first_origin road town (Some (countryName_of country)))
                           (buildLocationQuery road town (Some (countryName_of country)))
                           (Some road),
                         Call_fetchGoogleMapsTraffic (''Near '' @ road @ '', '' @ the town)
                           (''End of '' @ road @ '', '' @ the town) (Some road)]
                   else [Call_fetchGoogleMapsTraffic
                           (first_origin road town (Some (countryName_of country)))
                           (buildLocationQuery road town (Some (countryName_of country)))
                           (Some road)])))
    \<and> (google_calls_since w w' = [] \<longrightarrow>
          \<not> fallbackUsed rs \<and> ''GoogleMaps'' \<notin> set (sourcesUsed rs))"
proof -
  from free_stages_returns [of w road country] obtain rs2 w2 where
    f: "free_stages w road country = (Inr rs2, w2)"
    and g0: "google_calls_since w w2 = []"
    and pre: "length (adapter_calls w) \<le> length (adapter_calls w2)"
             "take (length (adapter_calls w)) (adapter_calls w2) = adapter_calls w"
    and p2: "\<not> fallbackUsed rs2" "''GoogleMaps'' \<notin> set (sourcesUsed rs2)"
    by blast
  have trig: "shouldTryGoogle road country town rs2 \<longleftrightarrow>
          data rs2 = [] \<or> isLocalStreet road town \<or> isGoogleMapsPreferred road town country"
    by (auto simp: shouldTryGoogle_def Let_def)
  show ?thesis
  proof (cases "shouldTryGoogle road country town rs2")
    case False
    have e: "fetchTrafficWithFallback w road country town = (Inr rs2, w2)"
      using f google_stage_skipped [OF False] by (simp add: fetchTrafficWithFallback_def)
    show ?thesis
      apply (rule exI [of _ rs2], rule exI [of _ w2], rule exI [of _ rs2], rule exI [of _ w2])
      using f e g0 p2 False trig by simp
  next
    case True
    from google_stage_tried [OF True, of w2] obtain r1 w3 r w' rs where
      a: "fetchGoogleMapsTraffic w2 (first_origin road town (Some (countryName_of country)))
            (buildLocationQuery road town (Some (countryName_of country))) (Some road) = (Inr r1, w3)"
      and s: "google_stage road country town (rs2, w2) = (Inr rs, w')"
      and c: "adapter_calls w' = adapter_calls w2
        @ (if r_data r1 = [] \<and> truthy_str town
           then [Call_fetchGoogleMapsTraffic (first_origin road town (Some (countryName_of country)))
                   (buildLocationQuery road town (Some (countryName_of country))) (Some road),
                 Call_fetchGoogleMapsTraffic (''Near '' @ road @ '', '' @ the town)
                   (''End of '' @ road @ '', '' @ the town) (Some road)]
           else [Call_fetchGoogleMapsTraffic (first_origin road town (Some (countryName_of country)))
                   (buildLocationQuery road town (Some (countryName_of country))) (Some road)])"
      and p: "fallbackUsed rs" "sourcesUsed rs = sourcesUsed rs2 @ [''GoogleMaps'']"
      by blast
    have e: "fetchTrafficWithFallback w road country town = (Inr rs, w')"
      using f s by (simp add: fetchTrafficWithFallback_def)
    have g: "google_calls_since w w' =
                  (if r_data r1 = [] \<and> truthy_str town
                   then [Call_fetchGoogleMapsTraffic
                           (first_origin road town (Some (countryName_of country)))
                           (buildLocationQuery road town (Some (countryName_of country)))
                           (Some road),
                         Call_fetchGoogleMapsTraffic (''Near '' @ road @ '', '' @ the town)
                           (''End of '' @ road @ '', '' @ the town) (Some road)]
                   else [Call_fetchGoogleMapsTraffic
                           (first_origin road town (Some (countryName_of country)))
                           (buildLocationQuery road town (Some (countryName_of country)))
                           (Some road)])"
      using calls_since_append [OF pre(2) pre(1) c] g0
      by (simp add: google_calls_since_def)
    then have ne: "google_calls_since w w' \<noteq> []" by simp
    show ?thesis
      apply (rule exI [of _ rs2], rule exI [of _ w2], rule exI [of _ rs], rule exI [of _ w'])
      apply (intro conjI)
          apply (rule f)
         apply (rule e)
        apply (use ne True trig in blast)
       apply (intro impI conjI)
         apply (rule p(1))
        apply (simp add: p(2))
       apply (rule exI [of _ r1], rule exI [of _ w3])
       apply (use a g in blast)
      apply (use ne in blast)
      done
  qed
qed

subsection \<open>What the orchestrator records\<close>

lemma truthy_str_Some: "truthy_str x \<Longrightarrow> x = Some (the x)"
  by (cases x) (simp_all add: truthy_str_def)


text \<open>
  Claim C3. For every world (every combination of adapter outcomes) and every query,
  \<open>fetchTrafficWithFallback\<close> returns a result object and never throws. A free adapter
  that applies is called (TII on the given world, WebTRIS on the world TII left), is named
  in \<open>sourcesUsed\<close>, its records are in \<open>data\<close>, and when it returned no data the trace
  \<open>details\<close> holds the line \<open>... returned no data\<close> with the adapter's error, if it gave
  one. When the Google Maps stage runs, \<open>fallbackUsed\<close> is true, \<open>GoogleMaps\<close> is in
  \<open>sourcesUsed\<close>, its records are appended to those of the free stages, an empty answer
  has its trace line, and \<open>errors\<close> is exactly this: the Google Maps error when that
  adapter returned no data and gave an error, and empty otherwise. When the stage does not
  run, the result is that of the free stages and \<open>errors\<close> is empty. So the error of a
  failed TII or WebTRIS adapter is kept in the trace only and is never an entry of
  \<open>errors\<close>, where the claim has every adapter failure recorded there.
\<close>

theorem C3_orchestrator_returns_and_traces:
  "\<exists>rs1 w1 rs2 w2 rs w'.
      tii_stage road country (initial_results, w) = (Inr rs1, w1)
    \<and> free_stages w road country = (Inr rs2, w2)
    \<and> fetchTrafficWithFallback w road country town = (Inr rs, w')
    \<and> (tii_applies road country \<longrightarrow>
          ''TII-Ireland'' \<in> set (sourcesUsed rs)
          \<and> (\<exists>r. fetchTIITraffic w road = (Inr r, w1)
                \<and> set (r_data r) \<subseteq> set (data rs)
                \<and> (r_data r = [] \<longrightarrow>
                     \<lparr>d_step = ''TII returned no data'', d_fromCache = None,
                      d_error = r_error r\<rparr> \<in> set (details rs))))
    \<and> (webtris_applies road country \<longrightarrow>
          ''WebTRIS-UK'' \<in> set (sourcesUsed rs)
          \<and> (\<exists>r. fetchWebTRISTraffic w1 road = (Inr r, w2)
                \<and> set (r_data r) \<subseteq> set (data rs)
                \<and> (r_data r = [] \<longrightarrow>
                     \<lparr>d_step = ''WebTRIS returned no data'', d_fromCache = None,
                      d_error = r_error r\<rparr> \<in> set (details rs))))
    \<and> (shouldTryGoogle road country town rs2 \<longrightarrow>
          fallbackUsed rs \<and> ''GoogleMaps'' \<in> set (sourcesUsed rs)
          \<and> (\<exists>r. fetchRoadTraffic w2 road town (Some (countryName_of country)) = (Inr r, w')
                \<and> data rs = data rs2 @ r_data r
                \<and> (r_data r = [] \<longrightarrow>
                     \<lparr>d_step = ''Google Maps returned no data'', d_fromCache = None,
                      d_error = r_error r\<rparr> \<in> set (details rs))
                \<and> errors rs = (if r_data r = [] \<and> truthy_str (r_error r)
                                then [the (r_error r)] else [])))
    \<and> (\<not> shouldTryGoogle road country town rs2 \<longrightarrow>
          rs = rs2 \<and> w' = w2 \<and> \<not> fallbackUsed rs \<and> errors rs = [])"
proof -
  \<comment> \<open>the TII block\<close>
  have t: "\<exists>rs1 w1. tii_stage road country (initial_results, w) = (Inr rs1, w1)
       \<and> errors rs1 = [] \<and> \<not> fallbackUsed rs1
       \<and> (tii_applies road country \<longrightarrow>
            ''TII-Ireland'' \<in> set (sourcesUsed rs1)
            \<and> (\<exists>r. fetchTIITraffic w road = (Inr r, w1)
                \<and> set (r_data r) \<subseteq> set (data rs1)
                \<and> (r_data r = [] \<longrightarrow>
                     \<lparr>d_step = ''TII returned no data'', d_fromCache = None,
                      d_error = r_error r\<rparr> \<in> set (details rs1))))"
  proof (cases "tii_applies road country")
    case True
    from tii_stage_tried [OF True, of w initial_results] obtain r w1 rs1 where
      x: "fetchTIITraffic w road = (Inr r, w1)"
      "tii_stage road country (initial_results, w) = (Inr rs1, w1)"
      "errors rs1 = errors initial_results"
      "fallbackUsed rs1 = fallbackUsed initial_results"
      "sourcesUsed rs1 = sourcesUsed initial_results @ [''TII-Ireland'']"
      "data rs1 = data initial_results @ r_data r"
      "r_data r = [] \<longrightarrow>
                \<lparr>d_step = ''TII returned no data'', d_fromCache = None, d_error = r_error r\<rparr>
                  \<in> set (details rs1)"
      by (elim exE conjE) (rule that)
    show ?thesis
      apply (rule exI [of _ rs1], rule exI [of _ w1])
      using x by (simp add: initial_results_def)
  next
    case False
    from tii_stage_skipped [OF False, of initial_results w] False show ?thesis
      by (simp add: initial_results_def)
  qed
  then obtain rs1 w1 where
    s1: "tii_stage road country (initial_results, w) = (Inr rs1, w1)"
    and e1: "errors rs1 = []" "\<not> fallbackUsed rs1"
    and q1: "tii_applies road country \<longrightarrow>
            ''TII-Ireland'' \<in> set (sourcesUsed rs1)
            \<and> (\<exists>r. fetchTIITraffic w road = (Inr r, w1)
                \<and> set (r_data r) \<subseteq> set (data rs1)
                \<and> (r_data r = [] \<longrightarrow>
                     \<lparr>d_step = ''TII returned no data'', d_fromCache = None,
                      d_error = r_error r\<rparr> \<in> set (details rs1)))"
    by (elim exE conjE) (rule that)
  \<comment> \<open>the WebTRIS block\<close>
  have u: "\<exists>rs2 w2. webtris_stage road country (rs1, w1) = (Inr rs2, w2)
       \<and> errors rs2 = [] \<and> \<not> fallbackUsed rs2
       \<and> set (sourcesUsed rs1) \<subseteq> set (sourcesUsed rs2)
       \<and> set (details rs1) \<subseteq> set (details rs2)
       \<and> set (data rs1) \<subseteq> set (data rs2)
       \<and> (webtris_applies road country \<longrightarrow>
            ''WebTRIS-UK'' \<in> set (sourcesUsed rs2)
            \<and> (\<exists>r. fetchWebTRISTraffic w1 road = (Inr r, w2)
                \<and> set (r_data r) \<subseteq> set (data rs2)
                \<and> (r_data r = [] \<longrightarrow>
                     \<lparr>d_step = ''WebTRIS returned no data'', d_fromCache = None,
                      d_error = r_error r\<rparr> \<in> set (details rs2))))"
  proof (cases "webtris_applies road country")
    case True
    from webtris_stage_tried [OF True, of w1 rs1] obtain r w2 rs2 where
      x: "fetchWebTRISTraffic w1 road = (Inr r, w2)"
      "webtris_stage road country (rs1, w1) = (Inr rs2, w2)"
      "errors rs2 = errors rs1"
      "fallbackUsed rs2 = fallbackUsed rs1"
      "sourcesUsed rs2 = sourcesUsed rs1 @ [''WebTRIS-UK'']"
      "data rs2 = data rs1 @ r_data r"
      "set (details rs1) \<subseteq> set (details rs2)"
      "r_data r = [] \<longrightarrow>
                \<lparr>d_step = ''WebTRIS returned no data'', d_fromCache = None, d_error = r_error r\<rparr>
                  \<in> set (details rs2)"
      by (elim exE conjE) (rule that)
    show ?thesis
      apply (rule exI [of _ rs2], rule exI [of _ w2])
      using x e1 by auto
  next
    case False
    from webtris_stage_skipped [OF False, of rs1 w1] e1 False show ?thesis by simp
  qed
  then obtain rs2 w2 where
    s2: "webtris_stage road country (rs1, w1) = (Inr rs2, w2)"
    and e2: "errors rs2 = []" "\<not> fallbackUsed rs2"
    and m2: "set (sourcesUsed rs1) \<subseteq> set (sourcesUsed rs2)" "set (details rs1) \<subseteq> set (details rs2)"
            "set (data rs1) \<subseteq> set (data rs2)"
    and q2: "webtris_applies road country \<longrightarrow>
            ''WebTRIS-UK'' \<in> set (sourcesUsed rs2)
            \<and> (\<exists>r. fetchWebTRISTraffic w1 road = (Inr r, w2)
                \<and> set (r_data r) \<subseteq> set (data rs2)
                \<and> (r_data r = [] \<longrightarrow>
                     \<lparr>d_step = ''WebTRIS returned no data'', d_fromCache = None,
                      d_error = r_error r\<rparr> \<in> set (details rs2)))"
    by (elim exE conjE) (rule that)
  have f: "free_stages w road country = (Inr rs2, w2)"
    using s1 s2 by (simp add: free_stages_def)
  \<comment> \<open>the Google Maps block\<close>
  have v: "\<exists>rs w'. google_stage road country town (rs2, w2) = (Inr rs, w')
       \<and> set (sourcesUsed rs2) \<subseteq> set (sourcesUsed rs)
       \<and> set (details rs2) \<subseteq> set (details rs)
       \<and> set (data rs2) \<subseteq> set (data rs)
       \<and> (shouldTryGoogle road country town rs2 \<longrightarrow>
          fallbackUsed rs \<and> ''GoogleMaps'' \<in> set (sourcesUsed rs)
          \<and> (\<exists>r. fetchRoadTraffic w2 road town (Some (countryName_of country)) = (Inr r, w')
                \<and> data rs = data rs2 @ r_data r
                \<and> (r_data r = [] \<longrightarrow>
                     \<lparr>d_step = ''Google Maps returned no data'', d_fromCache = None,
                      d_error = r_error r\<rparr> \<in> set (details rs))
                \<and> errors rs = (if r_data r = [] \<and> truthy_str (r_error r)
                                then [the (r_error r)] else [])))
       \<and> (\<not> shouldTryGoogle road country town rs2 \<longrightarrow>
          rs = rs2 \<and> w' = w2 \<and> \<not> fallbackUsed rs \<and> errors rs = [])"
  proof (cases "shouldTryGoogle road country town rs2")
    case True
    from google_stage_tried [OF True, of w2] obtain r1 w3 r w' rs where
      x: "fetchRoadTraffic w2 road town (Some (countryName_of country)) = (Inr r, w')"
      "google_stage road country town (rs2, w2) = (Inr rs, w')"
      "fallbackUsed rs"
      "sourcesUsed rs = sourcesUsed rs2 @ [''GoogleMaps'']"
      "data rs = data rs2 @ r_data r"
      "errors rs = errors rs2 @ (if r_data r = [] \<and> truthy_str (r_error r)
                                 then [the (r_error r)] else [])"
      "set (details rs2) \<subseteq> set (details rs)"
      "r_data r = [] \<longrightarrow>
          \<lparr>d_step = ''Google Maps returned no data'', d_fromCache = None, d_error = r_error r\<rparr>
            \<in> set (details rs)"
      by (elim exE conjE) (rule that)
    show ?thesis
      apply (rule exI [of _ rs], rule exI [of _ w'])
      using x e2 True by auto
  next
    case False
    from google_stage_skipped [OF False, of w2] e2 False show ?thesis by simp
  qed
  then obtain rs w' where
    s3: "google_stage road country town (rs2, w2) = (Inr rs, w')"
    and m3: "set (sourcesUsed rs2) \<subseteq> set (sourcesUsed rs)" "set (details rs2) \<subseteq> set (details rs)"
            "set (data rs2) \<subseteq> set (data rs)"
    and q3: "shouldTryGoogle road country town rs2 \<longrightarrow>
          fallbackUsed rs \<and> ''GoogleMaps'' \<in> set (sourcesUsed rs)
          \<and> (\<exists>r. fetchRoadTraffic w2 road town (Some (countryName_of country)) = (Inr r, w')
                \<and> data rs = data rs2 @ r_data r
                \<and> (r_data r = [] \<longrightarrow>
                     \<lparr>d_step = ''Google Maps returned no data'', d_fromCache = None,
                      d_error = r_error r\<rparr> \<in> set (details rs))
                \<and> errors rs = (if r_data r = [] \<and> truthy_str (r_error r)
                                then [the (r_error r)] else []))"
    and q4: "\<not> shouldTryGoogle road country town rs2 \<longrightarrow>
          rs = rs2 \<and> w' = w2 \<and> \<not> fallbackUsed rs \<and> errors rs = []"
    by (elim exE conjE) (rule that)
  have e: "fetchTrafficWithFallback w road country town = (Inr rs, w')"
    using f s3 by (simp add: fetchTrafficWithFallback_def)
  have A: "tii_applies road country \<longrightarrow>
          ''TII-Ireland'' \<in> set (sourcesUsed rs)
          \<and> (\<exists>r. fetchTIITraffic w road = (Inr r, w1)
                \<and> set (r_data r) \<subseteq> set (data rs)
                \<and> (r_data r = [] \<longrightarrow>
                     \<lparr>d_step = ''TII returned no data'', d_fromCache = None,
                      d_error = r_error r\<rparr> \<in> set (details rs)))"
    using q1 m2 m3 by blast
  have B: "webtris_applies road country \<longrightarrow>
          ''WebTRIS-UK'' \<in> set (sourcesUsed rs)
          \<and> (\<exists>r. fetchWebTRISTraffic w1 road = (Inr r, w2)
                \<and> set (r_data r) \<subseteq> set (data rs)
                \<and> (r_data r = [] \<longrightarrow>
                     \<lparr>d_step = ''WebTRIS returned no data'', d_fromCache = None,
                      d_error = r_error r\<rparr> \<in> set (details rs)))"
    using q2 m3 by blast
  show ?thesis
    apply (rule exI [of _ rs1], rule exI [of _ w1], rule exI [of _ rs2], rule exI [of _ w2],
           rule exI [of _ rs], rule exI [of _ w'])
    apply (intro conjI)
          apply (rule s1)
         apply (rule f)
        apply (rule e)
       apply (rule A)
      apply (rule B)
     apply (rule q3)
    apply (rule q4)
    done
qed

subsection \<open>What the adapters return, outcome by outcome\<close>

lemma isCacheValid_enter [simp]: "isCacheValid (enter c w) x = isCacheValid w x"
  by (simp add: isCacheValid_def enter_def split: option.split)

lemma enter_fields [simp]:
  "tii_cache (enter c w) = tii_cache w"
  "webtris_cache (enter c w) = webtris_cache w"
  "google_cache (enter c w) = google_cache w"
  "GOOGLE_MAPS_API_KEY (enter c w) = GOOGLE_MAPS_API_KEY w"
  "requests (enter c w) = requests w"
  "net (enter c w) = net w"
  "clock (enter c w) = clock w"
  by (simp_all add: enter_def)

lemma tii_failure:
  assumes "\<not> isCacheValid w (tii_cache w (tii_getCacheKey road))"
      and "tii_feed (net w) (length (requests w)) = TiiFails m
           \<or> tii_feed (net w) (length (requests w)) = TiiMalformed m"
  shows "\<exists>r w'. fetchTIITraffic w road = (Inr r, w') \<and> r_data r = [] \<and> r_error r = Some m"
  using assms
  by (auto simp: fetchTIITraffic_def fetchTIITraffic_try_def issue_def Let_def)

lemma google_failure:
  assumes "truthy_str (GOOGLE_MAPS_API_KEY w)"
      and "\<not> isCacheValid w (google_cache w (google_getCacheKey origin destination))"
      and "google_directions (net w) (length (requests w)) origin destination = GoogleFails m
           \<or> google_directions (net w) (length (requests w)) origin destination = GoogleMalformed m"
  shows "\<exists>r w'. fetchGoogleMapsTraffic w origin destination rd = (Inr r, w')
           \<and> r_data r = [] \<and> r_error r = Some m"
  using assms
  by (auto simp: fetchGoogleMapsTraffic_def fetchGoogleMapsTraffic_try_def issue_def Let_def)

lemma google_bad_status:
  assumes "truthy_str (GOOGLE_MAPS_API_KEY w)"
      and "\<not> isCacheValid w (google_cache w (google_getCacheKey origin destination))"
      and "google_directions (net w) (length (requests w)) origin destination = GoogleBody status routes"
      and "status \<noteq> ''OK''"
  shows "\<exists>r w'. fetchGoogleMapsTraffic w origin destination rd = (Inr r, w')
           \<and> r_data r = [] \<and> r_error r = Some (''Google Maps API Error: '' @ status)"
  using assms
  by (auto simp: fetchGoogleMapsTraffic_def fetchGoogleMapsTraffic_try_def issue_def Let_def)

lemma google_bad_route:
  assumes "truthy_str (GOOGLE_MAPS_API_KEY w)"
      and "\<not> isCacheValid w (google_cache w (google_getCacheKey origin destination))"
      and "google_directions (net w) (length (requests w)) origin destination
             = GoogleBody ''OK'' (route # routes)"
      and "normalizeGoogleMapsData (clock w + int (call_duration (net w) (length (requests w))))
             route origin destination rd = Inl e"
  shows "\<exists>r w'. fetchGoogleMapsTraffic w origin destination rd = (Inr r, w')
           \<and> r_data r = [] \<and> r_error r = Some (message e)"
  using assms
  by (auto simp: fetchGoogleMapsTraffic_def fetchGoogleMapsTraffic_try_def issue_def Let_def)

lemma webtris_sites_fail:
  assumes "\<not> isCacheValid w (webtris_cache w (webtris_getCacheKey road))"
      and "webtris_sites (net w) (length (requests w)) (toUpperCase road) = SitesFails m"
  shows "\<exists>r w'. fetchWebTRISTraffic w road = (Inr r, w') \<and> r_data r = [] \<and> r_error r = None"
  using assms
  by (auto simp: fetchWebTRISTraffic_def fetchWebTRISTraffic_try_def fetchSites_def issue_def Let_def)

lemma webtris_sites_malformed:
  assumes "\<not> isCacheValid w (webtris_cache w (webtris_getCacheKey road))"
      and "webtris_sites (net w) (length (requests w)) (toUpperCase road) = SitesMalformed m"
  shows "\<exists>r w'. fetchWebTRISTraffic w road = (Inr r, w') \<and> r_data r = [] \<and> r_error r = Some m"
  using assms
  by (auto simp: fetchWebTRISTraffic_def fetchWebTRISTraffic_try_def fetchSites_def issue_def Let_def)

lemma webtris_reports_malformed:
  assumes "\<not> isCacheValid w (webtris_cache w (webtris_getCacheKey road))"
      and "webtris_sites (net w) (length (requests w)) (toUpperCase road) = SitesList sites"
      and "sites \<noteq> []"
      and "webtris_reports (net w) (Suc (length (requests w))) (map site_id sites) = ReportsMalformed m"
  shows "\<exists>r w'. fetchWebTRISTraffic w road = (Inr r, w') \<and> r_data r = [] \<and> r_error r = Some m"
  using assms
  by (auto simp: fetchWebTRISTraffic_def fetchWebTRISTraffic_try_def fetchSites_def
        fetchReports_def issue_def Let_def)

lemma find_report_Nil [simp]: "find_report [] site = empty_report"
  by (simp add: find_report_def)

lemma webtris_reports_fail:
  assumes "\<not> isCacheValid w (webtris_cache w (webtris_getCacheKey road))"
      and "webtris_sites (net w) (length (requests w)) (toUpperCase road) = SitesList sites"
      and "sites \<noteq> []"
      and "webtris_reports (net w) (Suc (length (requests w))) (map site_id sites) = ReportsFails m"
  shows "\<exists>r w'. fetchWebTRISTraffic w road = (Inr r, w')
           \<and> r_data r = map (\<lambda>site. WebTRIS (normalizeWebTRISRecord
                                 (clock w + int (call_duration (net w) (length (requests w)))
                                    + int (call_duration (net w) (Suc (length (requests w)))))
                                 site empty_report)) sites
           \<and> r_error r = None"
  using assms
  by (auto simp: fetchWebTRISTraffic_def fetchWebTRISTraffic_try_def fetchSites_def
        fetchReports_def issue_def Let_def)


lemma tii_hit_any:
  assumes "isCacheValid w (tii_cache w (tii_getCacheKey road))"
  shows "\<exists>r w'. fetchTIITraffic w road = (Inr r, w') \<and> r_data r = ce_data (the (tii_cache w (tii_getCacheKey road)))
           \<and> r_error r = None \<and> r_fromCache r = Some True \<and> requests w' = requests w"
  using assms
  by (simp add: fetchTIITraffic_def Let_def)

lemma tii_answered:
  assumes "\<not> isCacheValid w (tii_cache w (tii_getCacheKey road))"
      and "tii_feed (net w) (length (requests w)) = TiiSituations items"
  shows "\<exists>r w'. fetchTIITraffic w road = (Inr r, w') \<and> r_data r = map (\<lambda>s. TII (normalizeTIIRecord (clock w + int (call_duration (net w) (length (requests w)))) s))
                        (if road \<noteq> []
                         then filter (\<lambda>s. includes_str
                                        (toUpperCase (or_str (sr_roadName (first_situationRecord
                                                                (it_situationRecord s))) []))
                                        (toUpperCase road)) items
                         else items)
           \<and> r_error r = None \<and> r_fromCache r = Some False"
  using assms
  by (simp add: fetchTIITraffic_def fetchTIITraffic_try_def issue_def Let_def)

lemma webtris_hit_any:
  assumes "isCacheValid w (webtris_cache w (webtris_getCacheKey road))"
  shows "\<exists>r w'. fetchWebTRISTraffic w road = (Inr r, w') \<and> r_data r = ce_data (the (webtris_cache w (webtris_getCacheKey road)))
           \<and> r_error r = None \<and> r_fromCache r = Some True \<and> requests w' = requests w"
  using assms
  by (simp add: fetchWebTRISTraffic_def Let_def)

lemma webtris_no_sites:
  assumes "\<not> isCacheValid w (webtris_cache w (webtris_getCacheKey road))"
      and "webtris_sites (net w) (length (requests w)) (toUpperCase road) = SitesList []"
  shows "\<exists>r w'. fetchWebTRISTraffic w road = (Inr r, w') \<and> r_data r = [] \<and> r_error r = None \<and> r_fromCache r = None"
  using assms
  by (simp add: fetchWebTRISTraffic_def fetchWebTRISTraffic_try_def fetchSites_def issue_def Let_def)

lemma webtris_answered:
  assumes "\<not> isCacheValid w (webtris_cache w (webtris_getCacheKey road))"
      and "webtris_sites (net w) (length (requests w)) (toUpperCase road) = SitesList sites"
      and "sites \<noteq> []"
      and "webtris_reports (net w) (Suc (length (requests w))) (map site_id sites) = ReportsList reports"
  shows "\<exists>r w'. fetchWebTRISTraffic w road = (Inr r, w') \<and> r_data r = map (\<lambda>site. WebTRIS (normalizeWebTRISRecord
                                 (clock w + int (call_duration (net w) (length (requests w)))
                 + int (call_duration (net w) (Suc (length (requests w)))))
                                 site (find_report reports site))) sites
           \<and> r_error r = None \<and> r_fromCache r = Some False"
  using assms
  by (simp add: fetchWebTRISTraffic_def fetchWebTRISTraffic_try_def fetchSites_def
        fetchReports_def issue_def Let_def)

lemma google_no_key:
  assumes "\<not> truthy_str (GOOGLE_MAPS_API_KEY w)"
  shows "\<exists>r w'. fetchGoogleMapsTraffic w origin destination rd = (Inr r, w') \<and> r_data r = [] \<and> r_error r = Some ''Google Maps API Key not configured''
           \<and> requests w' = requests w"
  using assms
  by (simp add: fetchGoogleMapsTraffic_def Let_def)

lemma google_hit_any:
  assumes "truthy_str (GOOGLE_MAPS_API_KEY w)"
      and "isCacheValid w (google_cache w (google_getCacheKey origin destination))"
  shows "\<exists>r w'. fetchGoogleMapsTraffic w origin destination rd = (Inr r, w') \<and> r_data r = ce_data (the (google_cache w (google_getCacheKey origin destination)))
           \<and> r_error r = None \<and> r_fromCache r = Some True \<and> requests w' = requests w"
  using assms
  by (simp add: fetchGoogleMapsTraffic_def Let_def)

lemma google_no_routes:
  assumes "truthy_str (GOOGLE_MAPS_API_KEY w)"
      and "\<not> isCacheValid w (google_cache w (google_getCacheKey origin destination))"
      and "google_directions (net w) (length (requests w)) origin destination = GoogleBody ''OK'' []"
  shows "\<exists>r w'. fetchGoogleMapsTraffic w origin destination rd = (Inr r, w') \<and> r_data r = [] \<and> r_error r = None \<and> r_fromCache r = None"
  using assms
  by (simp add: fetchGoogleMapsTraffic_def fetchGoogleMapsTraffic_try_def issue_def Let_def)

lemma google_answered:
  assumes "truthy_str (GOOGLE_MAPS_API_KEY w)"
      and "\<not> isCacheValid w (google_cache w (google_getCacheKey origin destination))"
      and "google_directions (net w) (length (requests w)) origin destination
             = GoogleBody ''OK'' (route # routes)"
      and "normalizeGoogleMapsData (clock w + int (call_duration (net w) (length (requests w))))
             route origin destination rd = Inr g"
  shows "\<exists>r w'. fetchGoogleMapsTraffic w origin destination rd = (Inr r, w') \<and> r_data r = [GoogleMaps g] \<and> r_error r = None \<and> r_fromCache r = Some False"
  using assms
  by (simp add: fetchGoogleMapsTraffic_def fetchGoogleMapsTraffic_try_def issue_def Let_def)


text \<open>
  Claim C7. For every world, each of \<open>fetchTIITraffic\<close>, \<open>fetchWebTRISTraffic\<close> and
  \<open>fetchGoogleMapsTraffic\<close> returns a result and never throws. What it returns, outcome
  by outcome: a valid cache entry is returned with \<open>fromCache = true\<close> and no request
  (in the Google Maps adapter only with an API key; without one the result is
  \<open>data = []\<close> and the error \<open>Google Maps API Key not configured\<close>, and no request).
  Otherwise:
  \<^item> TII. A rejected request (timeout, non-2xx) and a body on which the code raises
    give \<open>data = []\<close> and the failure's message as \<open>error\<close>. Every other body is read
    through \<open>|| []\<close>, a body without a \<open>situation\<close> array as the empty list: the
    records are returned and stored with \<open>fromCache = false\<close> and no \<open>error\<close>, also when
    there are none.
  \<^item> WebTRIS. A rejected site request gives \<open>data = []\<close> with no \<open>error\<close>, and so does
    a body without a site list (then also without \<open>fromCache\<close>); a site list or a report
    list on which the code raises gives \<open>data = []\<close> and the message; a rejected report
    request gives one record per site, built from an empty report, with no \<open>error\<close>; sites
    and reports give the records with \<open>fromCache = false\<close>.
  \<^item> Google Maps. A rejected request, a body on which the code raises, a status other
    than \<open>OK\<close> and a first route without legs give \<open>data = []\<close> and an \<open>error\<close>;
    status \<open>OK\<close> with no routes gives \<open>data = []\<close> with neither \<open>error\<close> nor
    \<open>fromCache\<close>; a first route with a leg gives its one record.

  So \<open>data = []\<close> with an \<open>error\<close> string, which the claim has for every ordinary
  failure, is what the TII and the Google Maps adapter return for a rejected request; the
  WebTRIS adapter loses the error of a rejected request, and a malformed body that is read
  as empty is no failure to any of the three.
\<close>

theorem C7_adapters_resolve_on_failure:
  "(\<exists>r w'. fetchTIITraffic w road = (Inr r, w'))
   \<and> (\<exists>r w'. fetchWebTRISTraffic w road = (Inr r, w'))
   \<and> (\<exists>r w'. fetchGoogleMapsTraffic w origin destination rd = (Inr r, w'))
   \<and> (isCacheValid w (tii_cache w (tii_getCacheKey road)) \<longrightarrow>
        (\<exists>r w'. fetchTIITraffic w road = (Inr r, w') \<and> r_data r = ce_data (the (tii_cache w (tii_getCacheKey road)))
           \<and> r_error r = None \<and> r_fromCache r = Some True \<and> requests w' = requests w))
   \<and> (\<not> isCacheValid w (tii_cache w (tii_getCacheKey road))
        \<and> (tii_feed (net w) (length (requests w)) = TiiFails m
           \<or> tii_feed (net w) (length (requests w)) = TiiMalformed m) \<longrightarrow>
        (\<exists>r w'. fetchTIITraffic w road = (Inr r, w') \<and> r_data r = [] \<and> r_error r = Some m))
   \<and> (\<not> isCacheValid w (tii_cache w (tii_getCacheKey road))
        \<and> tii_feed (net w) (length (requests w)) = TiiSituations items \<longrightarrow>
        (\<exists>r w'. fetchTIITraffic w road = (Inr r, w') \<and> r_data r = map (\<lambda>s. TII (normalizeTIIRecord (clock w + int (call_duration (net w) (length (requests w)))) s))
                        (if road \<noteq> []
                         then filter (\<lambda>s. includes_str
                                        (toUpperCase (or_str (sr_roadName (first_situationRecord
                                                                (it_situationRecord s))) []))
                                        (toUpperCase road)) items
                         else items)
           \<and> r_error r = None \<and> r_fromCache r = Some False))
   \<and> (isCacheValid w (webtris_cache w (webtris_getCacheKey road)) \<longrightarrow>
        (\<exists>r w'. fetchWebTRISTraffic w road = (Inr r, w') \<and> r_data r = ce_data (the (webtris_cache w (webtris_getCacheKey road)))
           \<and> r_error r = None \<and> r_fromCache r = Some True \<and> requests w' = requests w))
   \<and> (\<not> isCacheValid w (webtris_cache w (webtris_getCacheKey road))
        \<and> webtris_sites (net w) (length (requests w)) (toUpperCase road) = SitesFails m \<longrightarrow>
        (\<exists>r w'. fetchWebTRISTraffic w road = (Inr r, w') \<and> r_data r = [] \<and> r_error r = None))
   \<and> (\<not> isCacheValid w (webtris_cache w (webtris_getCacheKey road))
        \<and> webtris_sites (net w) (length (requests w)) (toUpperCase road) = SitesMalformed m \<longrightarrow>
        (\<exists>r w'. fetchWebTRISTraffic w road = (Inr r, w') \<and> r_data r = [] \<and> r_error r = Some m))
   \<and> (\<not> isCacheValid w (webtris_cache w (webtris_getCacheKey road))
        \<and> webtris_sites (net w) (length (requests w)) (toUpperCase road) = SitesList [] \<longrightarrow>
        (\<exists>r w'. fetchWebTRISTraffic w road = (Inr r, w') \<and> r_data r = [] \<and> r_error r = None \<and> r_fromCache r = None))
   \<and> (\<not> isCacheValid w (webtris_cache w (webtris_getCacheKey road))
        \<and> webtris_sites (net w) (length (requests w)) (toUpperCase road) = SitesList sites
        \<and> sites \<noteq> []
        \<and> webtris_reports (net w) (Suc (length (requests w))) (map site_id sites) = ReportsFails m \<longrightarrow>
        (\<exists>r w'. fetchWebTRISTraffic w road = (Inr r, w') \<and> r_data r = map (\<lambda>site. WebTRIS (normalizeWebTRISRecord
                                 (clock w + int (call_duration (net w) (length (requests w)))
                 + int (call_duration (net w) (Suc (length (requests w)))))
                                 site empty_report)) sites
           \<and> r_error r = None))
   \<and> (\<not> isCacheValid w (webtris_cache w (webtris_getCacheKey road))
        \<and> webtris_sites (net w) (length (requests w)) (toUpperCase road) = SitesList sites
        \<and> sites \<noteq> []
        \<and> webtris_reports (net w) (Suc (length (requests w))) (map site_id sites) = ReportsMalformed m \<longrightarrow>
        (\<exists>r w'. fetchWebTRISTraffic w road = (Inr r, w') \<and> r_data r = [] \<and> r_error r = Some m))
   \<and> (\<not> isCacheValid w (webtris_cache w (webtris_getCacheKey road))
        \<and> webtris_sites (net w) (length (requests w)) (toUpperCase road) = SitesList sites
        \<and> sites \<noteq> []
        \<and> webtris_reports (net w) (Suc (length (requests w))) (map site_id sites) = ReportsList reports \<longrightarrow>
        (\<exists>r w'. fetchWebTRISTraffic w road = (Inr r, w') \<and> r_data r = map (\<lambda>site. WebTRIS (normalizeWebTRISRecord
                                 (clock w + int (call_duration (net w) (length (requests w)))
                 + int (call_duration (net w) (Suc (length (requests w)))))
                                 site (find_report reports site))) sites
           \<and> r_error r = None \<and> r_fromCache r = Some False))
   \<and> (\<not> truthy_str (GOOGLE_MAPS_API_KEY w) \<longrightarrow>
        (\<exists>r w'. fetchGoogleMapsTraffic w origin destination rd = (Inr r, w') \<and> r_data r = [] \<and> r_error r = Some ''Google Maps API Key not configured''
           \<and> requests w' = requests w))
   \<and> (truthy_str (GOOGLE_MAPS_API_KEY w)
        \<and> isCacheValid w (google_cache w (google_getCacheKey origin destination)) \<longrightarrow>
        (\<exists>r w'. fetchGoogleMapsTraffic w origin destination rd = (Inr r, w') \<and> r_data r = ce_data (the (google_cache w (google_getCacheKey origin destination)))
           \<and> r_error r = None \<and> r_fromCache r = Some True \<and> requests w' = requests w))
   \<and> (truthy_str (GOOGLE_MAPS_API_KEY w)
        \<and> \<not> isCacheValid w (google_cache w (google_getCacheKey origin destination))
        \<and> (google_directions (net w) (length (requests w)) origin destination = GoogleFails m
           \<or> google_directions (net w) (length (requests w)) origin destination = GoogleMalformed m) \<longrightarrow>
        (\<exists>r w'. fetchGoogleMapsTraffic w origin destination rd = (Inr r, w') \<and> r_data r = [] \<and> r_error r = Some m))
   \<and> (truthy_str (GOOGLE_MAPS_API_KEY w)
        \<and> \<not> isCacheValid w (google_cache w (google_getCacheKey origin destination))
        \<and> google_directions (net w) (length (requests w)) origin destination = GoogleBody status routes
        \<and> status \<noteq> ''OK'' \<longrightarrow>
        (\<exists>r w'. fetchGoogleMapsTraffic w origin destination rd = (Inr r, w') \<and> r_data r = [] \<and> r_error r = Some (''Google Maps API Error: '' @ status)))
   \<and> (truthy_str (GOOGLE_MAPS_API_KEY w)
        \<and> \<not> isCacheValid w (google_cache w (google_getCacheKey origin destination))
        \<and> google_directions (net w) (length (requests w)) origin destination = GoogleBody ''OK'' [] \<longrightarrow>
        (\<exists>r w'. fetchGoogleMapsTraffic w origin destination rd = (Inr r, w') \<and> r_data r = [] \<and> r_error r = None \<and> r_fromCache r = None))
   \<and> (truthy_str (GOOGLE_MAPS_API_KEY w)
        \<and> \<not> isCacheValid w (google_cache w (google_getCacheKey origin destination))
        \<and> google_directions (net w) (length (requests w)) origin destination
             = GoogleBody ''OK'' (route # routes)
        \<and> normalizeGoogleMapsData (clock w + int (call_duration (net w) (length (requests w))))
             route origin destination rd = Inl e \<longrightarrow>
        (\<exists>r w'. fetchGoogleMapsTraffic w origin destination rd = (Inr r, w') \<and> r_data r = [] \<and> r_error r = Some (message e)))
   \<and> (truthy_str (GOOGLE_MAPS_API_KEY w)
        \<and> \<not> isCacheValid w (google_cache w (google_getCacheKey origin destination))
        \<and> google_directions (net w) (length (requests w)) origin destination
             = GoogleBody ''OK'' (route # routes)
        \<and> normalizeGoogleMapsData (clock w + int (call_duration (net w) (length (requests w))))
             route origin destination rd = Inr g \<longrightarrow>
        (\<exists>r w'. fetchGoogleMapsTraffic w origin destination rd = (Inr r, w') \<and> r_data r = [GoogleMaps g] \<and> r_error r = None \<and> r_fromCache r = Some False))"
proof (intro conjI)
  show "\<exists>r w'. fetchTIITraffic w road = (Inr r, w')"
    using fetchTIITraffic_returns [of w road] by blast
  show "\<exists>r w'. fetchWebTRISTraffic w road = (Inr r, w')"
    using fetchWebTRISTraffic_returns [of w road] by blast
  show "\<exists>r w'. fetchGoogleMapsTraffic w origin destination rd = (Inr r, w')"
    using fetchGoogleMapsTraffic_returns [of w origin destination rd] by blast
  show "isCacheValid w (tii_cache w (tii_getCacheKey road)) \<longrightarrow>
        (\<exists>r w'. fetchTIITraffic w road = (Inr r, w') \<and> r_data r = ce_data (the (tii_cache w (tii_getCacheKey road)))
           \<and> r_error r = None \<and> r_fromCache r = Some True \<and> requests w' = requests w)"
    by (intro impI, (elim conjE)?, rule tii_hit_any; assumption)
  show "\<not> isCacheValid w (tii_cache w (tii_getCacheKey road))
        \<and> (tii_feed (net w) (length (requests w)) = TiiFails m
           \<or> tii_feed (net w) (length (requests w)) = TiiMalformed m) \<longrightarrow>
        (\<exists>r w'. fetchTIITraffic w road = (Inr r, w') \<and> r_data r = [] \<and> r_error r = Some m)"
    by (intro impI, (elim conjE)?, rule tii_failure; assumption)
  show "\<not> isCacheValid w (tii_cache w (tii_getCacheKey road))
        \<and> tii_feed (net w) (length (requests w)) = TiiSituations items \<longrightarrow>
        (\<exists>r w'. fetchTIITraffic w road = (Inr r, w') \<and> r_data r = map (\<lambda>s. TII (normalizeTIIRecord (clock w + int (call_duration (net w) (length (requests w)))) s))
                        (if road \<noteq> []
                         then filter (\<lambda>s. includes_str
                                        (toUpperCase (or_str (sr_roadName (first_situationRecord
                                                                (it_situationRecord s))) []))
                                        (toUpperCase road)) items
                         else items)
           \<and> r_error r = None \<and> r_fromCache r = Some False)"
    by (intro impI, (elim conjE)?, rule tii_answered; assumption)
  show "isCacheValid w (webtris_cache w (webtris_getCacheKey road)) \<longrightarrow>
        (\<exists>r w'. fetchWebTRISTraffic w road = (Inr r, w') \<and> r_data r = ce_data (the (webtris_cache w (webtris_getCacheKey road)))
           \<and> r_error r = None \<and> r_fromCache r = Some True \<and> requests w' = requests w)"
    by (intro impI, (elim conjE)?, rule webtris_hit_any; assumption)
  show "\<not> isCacheValid w (webtris_cache w (webtris_getCacheKey road))
        \<and> webtris_sites (net w) (length (requests w)) (toUpperCase road) = SitesFails m \<longrightarrow>
        (\<exists>r w'. fetchWebTRISTraffic w road = (Inr r, w') \<and> r_data r = [] \<and> r_error r = None)"
    by (intro impI, (elim conjE)?, rule webtris_sites_fail; assumption)
  show "\<not> isCacheValid w (webtris_cache w (webtris_getCacheKey road))
        \<and> webtris_sites (net w) (length (requests w)) (toUpperCase road) = SitesMalformed m \<longrightarrow>
        (\<exists>r w'. fetchWebTRISTraffic w road = (Inr r, w') \<and> r_data r = [] \<and> r_error r = Some m)"
    by (intro impI, (elim conjE)?, rule webtris_sites_malformed; assumption)
  show "\<not> isCacheValid w (webtris_cache w (webtris_getCacheKey road))
        \<and> webtris_sites (net w) (length (requests w)) (toUpperCase road) = SitesList [] \<longrightarrow>
        (\<exists>r w'. fetchWebTRISTraffic w road = (Inr r, w') \<and> r_data r = [] \<and> r_error r = None \<and> r_fromCache r = None)"
    by (intro impI, (elim conjE)?, rule webtris_no_sites; assumption)
  show "\<not> isCacheValid w (webtris_cache w (webtris_getCacheKey road))
        \<and> webtris_sites (net w) (length (requests w)) (toUpperCase road) = SitesList sites
        \<and> sites \<noteq> []
        \<and> webtris_reports (net w) (Suc (length (requests w))) (map site_id sites) = ReportsFails m \<longrightarrow>
        (\<exists>r w'. fetchWebTRISTraffic w road = (Inr r, w') \<and> r_data r = map (\<lambda>site. WebTRIS (normalizeWebTRISRecord
                                 (clock w + int (call_duration (net w) (length (requests w)))
                 + int (call_duration (net w) (Suc (length (requests w)))))
                                 site empty_report)) sites
           \<and> r_error r = None)"
    by (intro impI, (elim conjE)?, rule webtris_reports_fail; assumption)
  show "\<not> isCacheValid w (webtris_cache w (webtris_getCacheKey road))
        \<and> webtris_sites (net w) (length (requests w)) (toUpperCase road) = SitesList sites
        \<and> sites \<noteq> []
        \<and> webtris_reports (net w) (Suc (length (requests w))) (map site_id sites) = ReportsMalformed m \<longrightarrow>
        (\<exists>r w'. fetchWebTRISTraffic w road = (Inr r, w') \<and> r_data r = [] \<and> r_error r = Some m)"
    by (intro impI, (elim conjE)?, rule webtris_reports_malformed; assumption)
  show "\<not> isCacheValid w (webtris_cache w (webtris_getCacheKey road))
        \<and> webtris_sites (net w) (length (requests w)) (toUpperCase road) = SitesList sites
        \<and> sites \<noteq> []
        \<and> webtris_reports (net w) (Suc (length (requests w))) (map site_id sites) = ReportsList reports \<longrightarrow>
        (\<exists>r w'. fetchWebTRISTraffic w road = (Inr r, w') \<and> r_data r = map (\<lambda>site. WebTRIS (normalizeWebTRISRecord
                                 (clock w + int (call_duration (net w) (length (requests w)))
                 + int (call_duration (net w) (Suc (length (requests w)))))
                                 site (find_report reports site))) sites
           \<and> r_error r = None \<and> r_fromCache r = Some False)"
    by (intro impI, (elim conjE)?, rule webtris_answered; assumption)
  show "\<not> truthy_str (GOOGLE_MAPS_API_KEY w) \<longrightarrow>
        (\<exists>r w'. fetchGoogleMapsTraffic w origin destination rd = (Inr r, w') \<and> r_data r = [] \<and> r_error r = Some ''Google Maps API Key not configured''
           \<and> requests w' = requests w)"
    by (intro impI, (elim conjE)?, rule google_no_key; assumption)
  show "truthy_str (GOOGLE_MAPS_API_KEY w)
        \<and> isCacheValid w (google_cache w (google_getCacheKey origin destination)) \<longrightarrow>
        (\<exists>r w'. fetchGoogleMapsTraffic w origin destination rd = (Inr r, w') \<and> r_data r = ce_data (the (google_cache w (google_getCacheKey origin destination)))
           \<and> r_error r = None \<and> r_fromCache r = Some True \<and> requests w' = requests w)"
    by (intro impI, (elim conjE)?, rule google_hit_any; assumption)
  show "truthy_str (GOOGLE_MAPS_API_KEY w)
        \<and> \<not> isCacheValid w (google_cache w (google_getCacheKey origin destination))
        \<and> (google_directions (net w) (length (requests w)) origin destination = GoogleFails m
           \<or> google_directions (net w) (length (requests w)) origin destination = GoogleMalformed m) \<longrightarrow>
        (\<exists>r w'. fetchGoogleMapsTraffic w origin destination rd = (Inr r, w') \<and> r_data r = [] \<and> r_error r = Some m)"
    by (intro impI, (elim conjE)?, rule google_failure; assumption)
  show "truthy_str (GOOGLE_MAPS_API_KEY w)
        \<and> \<not> isCacheValid w (google_cache w (google_getCacheKey origin destination))
        \<and> google_directions (net w) (length (requests w)) origin destination = GoogleBody status routes
        \<and> status \<noteq> ''OK'' \<longrightarrow>
        (\<exists>r w'. fetchGoogleMapsTraffic w origin destination rd = (Inr r, w') \<and> r_data r = [] \<and> r_error r = Some (''Google Maps API Error: '' @ status))"
    by (intro impI, (elim conjE)?, rule google_bad_status; assumption)
  show "truthy_str (GOOGLE_MAPS_API_KEY w)
        \<and> \<not> isCacheValid w (google_cache w (google_getCacheKey origin destination))
        \<and> google_directions (net w) (length (requests w)) origin destination = GoogleBody ''OK'' [] \<longrightarrow>
        (\<exists>r w'. fetchGoogleMapsTraffic w origin destination rd = (Inr r, w') \<and> r_data r = [] \<and> r_error r = None \<and> r_fromCache r = None)"
    by (intro impI, (elim conjE)?, rule google_no_routes; assumption)
  show "truthy_str (GOOGLE_MAPS_API_KEY w)
        \<and> \<not> isCacheValid w (google_cache w (google_getCacheKey origin destination))
        \<and> google_directions (net w) (length (requests w)) origin destination
             = GoogleBody ''OK'' (route # routes)
        \<and> normalizeGoogleMapsData (clock w + int (call_duration (net w) (length (requests w))))
             route origin destination rd = Inl e \<longrightarrow>
        (\<exists>r w'. fetchGoogleMapsTraffic w origin destination rd = (Inr r, w') \<and> r_data r = [] \<and> r_error r = Some (message e))"
    by (intro impI, (elim conjE)?, rule google_bad_route; assumption)
  show "truthy_str (GOOGLE_MAPS_API_KEY w)
        \<and> \<not> isCacheValid w (google_cache w (google_getCacheKey origin destination))
        \<and> google_directions (net w) (length (requests w)) origin destination
             = GoogleBody ''OK'' (route # routes)
        \<and> normalizeGoogleMapsData (clock w + int (call_duration (net w) (length (requests w))))
             route origin destination rd = Inr g \<longrightarrow>
        (\<exists>r w'. fetchGoogleMapsTraffic w origin destination rd = (Inr r, w') \<and> r_data r = [GoogleMaps g] \<and> r_error r = None \<and> r_fromCache r = Some False)"
    by (intro impI, (elim conjE)?, rule google_answered; assumption)
qed


subsection \<open>The caches\<close>

lemma advance_fields [simp]:
  "tii_cache (advance dt w) = tii_cache w"
  "webtris_cache (advance dt w) = webtris_cache w"
  "google_cache (advance dt w) = google_cache w"
  "GOOGLE_MAPS_API_KEY (advance dt w) = GOOGLE_MAPS_API_KEY w"
  "requests (advance dt w) = requests w"
  "net (advance dt w) = net w"
  "clock (advance dt w) = clock w + dt"
  by (simp_all add: advance_def)

lemma trackAPICall_fields [simp]:
  "google_cache (trackAPICall origin destination ok w) = google_cache w"
  "GOOGLE_MAPS_API_KEY (trackAPICall origin destination ok w) = GOOGLE_MAPS_API_KEY w"
  "requests (trackAPICall origin destination ok w) = requests w"
  "clock (trackAPICall origin destination ok w) = clock w"
  by (simp_all add: trackAPICall_def Let_def)

text \<open>A fetch that reports \<open>fromCache = false\<close> has stored its data under the key.\<close>

lemma tii_stored:
  assumes "fetchTIITraffic w road = (Inr r1, w1)" "r_fromCache r1 = Some False"
  shows "tii_cache w1 (tii_getCacheKey road) = Some \<lparr>ce_data = r_data r1, ce_timestamp = clock w1\<rparr>"
  using assms
  by (auto simp: fetchTIITraffic_def fetchTIITraffic_try_def issue_def Let_def
           split: if_splits tii_response.splits)

lemma webtris_stored:
  assumes "fetchWebTRISTraffic w road = (Inr r1, w1)" "r_fromCache r1 = Some False"
  shows "webtris_cache w1 (webtris_getCacheKey road)
           = Some \<lparr>ce_data = r_data r1, ce_timestamp = clock w1\<rparr>"
  using assms
  by (auto simp: fetchWebTRISTraffic_def fetchWebTRISTraffic_try_def fetchSites_def
        fetchReports_def issue_def Let_def
           split: if_splits sites_response.splits reports_response.splits)

lemma google_stored:
  assumes "fetchGoogleMapsTraffic w origin destination rd = (Inr r1, w1)"
          "r_fromCache r1 = Some False"
  shows "google_cache w1 (google_getCacheKey origin destination)
           = Some \<lparr>ce_data = r_data r1, ce_timestamp = clock w1\<rparr>
         \<and> truthy_str (GOOGLE_MAPS_API_KEY w1)"
  using assms
  by (auto simp: fetchGoogleMapsTraffic_def fetchGoogleMapsTraffic_try_def issue_def Let_def
           split: if_splits google_response.splits list.splits sum.splits)

text \<open>A fetch on a valid entry answers from the cache and leaves the network alone.\<close>

lemma tii_hit:
  assumes "tii_cache w (tii_getCacheKey road) = Some c" "clock w - ce_timestamp c < CACHE_TTL_MS"
  shows "\<exists>r w'. fetchTIITraffic w road = (Inr r, w') \<and> r_data r = ce_data c
           \<and> r_fromCache r = Some True \<and> requests w' = requests w"
  using assms by (simp add: fetchTIITraffic_def Let_def isCacheValid_def)

lemma webtris_hit:
  assumes "webtris_cache w (webtris_getCacheKey road) = Some c"
          "clock w - ce_timestamp c < CACHE_TTL_MS"
  shows "\<exists>r w'. fetchWebTRISTraffic w road = (Inr r, w') \<and> r_data r = ce_data c
           \<and> r_fromCache r = Some True \<and> requests w' = requests w"
  using assms by (simp add: fetchWebTRISTraffic_def Let_def isCacheValid_def)

lemma google_hit:
  assumes "google_cache w (google_getCacheKey origin destination) = Some c"
          "clock w - ce_timestamp c < CACHE_TTL_MS" "truthy_str (GOOGLE_MAPS_API_KEY w)"
  shows "\<exists>r w'. fetchGoogleMapsTraffic w origin destination rd = (Inr r, w')
           \<and> r_data r = ce_data c \<and> r_fromCache r = Some True \<and> requests w' = requests w"
  using assms by (simp add: fetchGoogleMapsTraffic_def Let_def isCacheValid_def)

text \<open>A fetch on an entry past its time goes to the network.\<close>

lemma tii_expired:
  assumes "tii_cache w (tii_getCacheKey road) = Some c"
          "\<not> clock w - ce_timestamp c < CACHE_TTL_MS"
  shows "\<exists>r w'. fetchTIITraffic w road = (Inr r, w') \<and> r_fromCache r \<noteq> Some True
           \<and> requests w' = requests w @ [GET_tii_traffic]"
  using assms
  by (auto simp: fetchTIITraffic_def fetchTIITraffic_try_def issue_def Let_def isCacheValid_def
           split: tii_response.splits)

lemma fetchSites_requests:
  "fetchSites w road = (x, w1) \<Longrightarrow> requests w1 = requests w @ [GET_webtris_sites (toUpperCase road)]"
  by (auto simp: fetchSites_def issue_def Let_def split: sites_response.splits)

lemma fetchReports_requests:
  "fetchReports w ids = (x, w1) \<Longrightarrow> \<exists>rest. requests w1 = requests w @ rest"
  by (auto simp: fetchReports_def issue_def Let_def split: reports_response.splits if_splits)

lemma webtris_try_requests:
  assumes "fetchWebTRISTraffic_try w road key = (x, w')"
  shows "(\<exists>rest. requests w' = requests w @ GET_webtris_sites (toUpperCase road) # rest)
         \<and> (\<forall>r. x = Inr r \<longrightarrow> r_fromCache r \<noteq> Some True)"
proof -
  obtain s w1 where s: "fetchSites w road = (s, w1)" by (cases "fetchSites w road")
  from fetchSites_requests [OF s]
  have c1: "requests w1 = requests w @ [GET_webtris_sites (toUpperCase road)]" .
  show ?thesis
  proof (cases s)
    case (SitesFails m)
    with assms s c1 show ?thesis by (auto simp: fetchWebTRISTraffic_try_def)
  next
    case (SitesMalformed m)
    with assms s c1 show ?thesis by (auto simp: fetchWebTRISTraffic_try_def)
  next
    case (SitesList sites)
    show ?thesis
    proof (cases "sites = []")
      case True
      with assms s c1 SitesList show ?thesis by (auto simp: fetchWebTRISTraffic_try_def)
    next
      case False
      obtain rp w2 where rp: "fetchReports w1 (map site_id sites) = (rp, w2)"
        by (cases "fetchReports w1 (map site_id sites)")
      from fetchReports_requests [OF rp] c1
      obtain rest where c2: "requests w2 = requests w @ GET_webtris_sites (toUpperCase road) # rest"
        by auto
      from assms s SitesList False rp c2 show ?thesis
        by (cases rp) (auto simp: fetchWebTRISTraffic_try_def Let_def)
    qed
  qed
qed

lemma webtris_expired:
  assumes "webtris_cache w (webtris_getCacheKey road) = Some c"
          "\<not> clock w - ce_timestamp c < CACHE_TTL_MS"
  shows "\<exists>r w' rest. fetchWebTRISTraffic w road = (Inr r, w') \<and> r_fromCache r \<noteq> Some True
           \<and> requests w' = requests w @ GET_webtris_sites (toUpperCase road) # rest"
proof -
  let ?w = "enter (Call_fetchWebTRISTraffic road) w"
  obtain x w1 where t: "fetchWebTRISTraffic_try ?w road (webtris_getCacheKey road) = (x, w1)"
    by (cases "fetchWebTRISTraffic_try ?w road (webtris_getCacheKey road)")
  from webtris_try_requests [OF t] obtain rest where
    c: "requests w1 = requests w @ GET_webtris_sites (toUpperCase road) # rest"
    and n: "\<forall>r. x = Inr r \<longrightarrow> r_fromCache r \<noteq> Some True"
    by auto
  have inv: "\<not> isCacheValid ?w (webtris_cache ?w (webtris_getCacheKey road))"
    using assms by (simp add: isCacheValid_def)
  show ?thesis
    using t c n inv
    by (cases x) (auto simp: fetchWebTRISTraffic_def Let_def)
qed

lemma google_try_requests:
  assumes "fetchGoogleMapsTraffic_try w origin destination rd key = (x, w')"
  shows "requests w' = requests w @ [GET_google_directions origin destination]
         \<and> (\<forall>r. x = Inr r \<longrightarrow> r_fromCache r \<noteq> Some True)"
proof (cases "google_directions (net w) (length (requests w)) origin destination")
  case (GoogleFails m)
  with assms show ?thesis
    by (auto simp: fetchGoogleMapsTraffic_try_def issue_def Let_def)
next
  case (GoogleMalformed m)
  with assms show ?thesis
    by (auto simp: fetchGoogleMapsTraffic_try_def issue_def Let_def)
next
  case (GoogleBody status routes)
  with assms show ?thesis
    by (auto simp: fetchGoogleMapsTraffic_try_def issue_def Let_def
             split: if_splits list.splits sum.splits)
qed

lemma google_expired:
  assumes "google_cache w (google_getCacheKey origin destination) = Some c"
          "\<not> clock w - ce_timestamp c < CACHE_TTL_MS" "truthy_str (GOOGLE_MAPS_API_KEY w)"
  shows "\<exists>r w'. fetchGoogleMapsTraffic w origin destination rd = (Inr r, w')
           \<and> r_fromCache r \<noteq> Some True
           \<and> requests w' = requests w @ [GET_google_directions origin destination]"
proof -
  let ?w = "enter (Call_fetchGoogleMapsTraffic origin destination rd) w"
  obtain x w1 where t: "fetchGoogleMapsTraffic_try ?w origin destination rd
                          (google_getCacheKey origin destination) = (x, w1)"
    by (cases "fetchGoogleMapsTraffic_try ?w origin destination rd
                 (google_getCacheKey origin destination)")
  from google_try_requests [OF t] have
    c: "requests w1 = requests w @ [GET_google_directions origin destination]"
    and n: "\<forall>r. x = Inr r \<longrightarrow> r_fromCache r \<noteq> Some True"
    by auto
  have inv: "\<not> isCacheValid ?w (google_cache ?w (google_getCacheKey origin destination))"
    using assms by (simp add: isCacheValid_def)
  show ?thesis
    using t c n inv assms(3)
    by (cases x) (auto simp: fetchGoogleMapsTraffic_def Let_def)
qed

text \<open>An entry that is not valid does not become valid as the clock moves on.\<close>

lemma stale_stays:
  assumes "\<not> isCacheValid w x" "clock w \<le> clock w'"
  shows "\<not> isCacheValid w' x"
  using assms by (auto simp: isCacheValid_def split: option.splits)

text \<open>
  A fetch that resolves without \<open>fromCache\<close> found no valid entry, and has left the cache as
  it was; the clock has not gone back.
\<close>

lemma tii_not_stored:
  assumes "fetchTIITraffic w road = (Inr r1, w1)" "r_fromCache r1 = None"
  shows "tii_cache w1 = tii_cache w
       \<and> \<not> isCacheValid w (tii_cache w (tii_getCacheKey road))
       \<and> clock w \<le> clock w1"
  using assms
  by (auto simp: fetchTIITraffic_def fetchTIITraffic_try_def issue_def Let_def
           split: if_splits tii_response.splits)

lemma webtris_not_stored:
  assumes "fetchWebTRISTraffic w road = (Inr r1, w1)" "r_fromCache r1 = None"
  shows "webtris_cache w1 = webtris_cache w
       \<and> \<not> isCacheValid w (webtris_cache w (webtris_getCacheKey road))
       \<and> clock w \<le> clock w1"
  using assms
  by (auto simp: fetchWebTRISTraffic_def fetchWebTRISTraffic_try_def fetchSites_def
        fetchReports_def issue_def Let_def
           split: if_splits sites_response.splits reports_response.splits)

lemma google_not_stored:
  assumes "fetchGoogleMapsTraffic w origin destination rd = (Inr r1, w1)"
          "r_fromCache r1 = None" "truthy_str (GOOGLE_MAPS_API_KEY w)"
  shows "google_cache w1 = google_cache w
       \<and> \<not> isCacheValid w (google_cache w (google_getCacheKey origin destination))
       \<and> clock w \<le> clock w1
       \<and> truthy_str (GOOGLE_MAPS_API_KEY w1)"
  using assms
  by (auto simp: fetchGoogleMapsTraffic_def fetchGoogleMapsTraffic_try_def issue_def Let_def
           split: if_splits google_response.splits list.splits sum.splits)

text \<open>A fetch that finds no valid entry goes to the network.\<close>

lemma tii_miss:
  assumes "\<not> isCacheValid w (tii_cache w (tii_getCacheKey road))"
  shows "\<exists>r w'. fetchTIITraffic w road = (Inr r, w') \<and> r_fromCache r \<noteq> Some True
           \<and> requests w' = requests w @ [GET_tii_traffic]"
  using assms
  by (auto simp: fetchTIITraffic_def fetchTIITraffic_try_def issue_def Let_def
           split: tii_response.splits)

lemma webtris_miss:
  assumes "\<not> isCacheValid w (webtris_cache w (webtris_getCacheKey road))"
  shows "\<exists>r w' rest. fetchWebTRISTraffic w road = (Inr r, w') \<and> r_fromCache r \<noteq> Some True
           \<and> requests w' = requests w @ GET_webtris_sites (toUpperCase road) # rest"
proof -
  let ?w = "enter (Call_fetchWebTRISTraffic road) w"
  obtain x w1 where t: "fetchWebTRISTraffic_try ?w road (webtris_getCacheKey road) = (x, w1)"
    by (cases "fetchWebTRISTraffic_try ?w road (webtris_getCacheKey road)")
  from webtris_try_requests [OF t] obtain rest where
    c: "requests w1 = requests w @ GET_webtris_sites (toUpperCase road) # rest"
    and n: "\<forall>r. x = Inr r \<longrightarrow> r_fromCache r \<noteq> Some True"
    by auto
  have inv: "\<not> isCacheValid ?w (webtris_cache ?w (webtris_getCacheKey road))"
    using assms by simp
  show ?thesis
    using t c n inv
    by (cases x) (auto simp: fetchWebTRISTraffic_def Let_def)
qed

lemma google_miss:
  assumes "\<not> isCacheValid w (google_cache w (google_getCacheKey origin destination))"
          "truthy_str (GOOGLE_MAPS_API_KEY w)"
  shows "\<exists>r w'. fetchGoogleMapsTraffic w origin destination rd = (Inr r, w')
           \<and> r_fromCache r \<noteq> Some True
           \<and> requests w' = requests w @ [GET_google_directions origin destination]"
proof -
  let ?w = "enter (Call_fetchGoogleMapsTraffic origin destination rd) w"
  obtain x w1 where t: "fetchGoogleMapsTraffic_try ?w origin destination rd
                          (google_getCacheKey origin destination) = (x, w1)"
    by (cases "fetchGoogleMapsTraffic_try ?w origin destination rd
                 (google_getCacheKey origin destination)")
  from google_try_requests [OF t] have
    c: "requests w1 = requests w @ [GET_google_directions origin destination]"
    and n: "\<forall>r. x = Inr r \<longrightarrow> r_fromCache r \<noteq> Some True"
    by auto
  have inv: "\<not> isCacheValid ?w (google_cache ?w (google_getCacheKey origin destination))"
    using assms(1) by simp
  show ?thesis
    using t c n inv assms(2)
    by (cases x) (auto simp: fetchGoogleMapsTraffic_def Let_def)
qed

text \<open>Without an API key the Google adapter reads neither the cache nor the network.\<close>

lemma google_keyless:
  assumes "\<not> truthy_str (GOOGLE_MAPS_API_KEY w)"
  shows "\<exists>r w'. fetchGoogleMapsTraffic w origin destination rd = (Inr r, w')
           \<and> r_data r = [] \<and> r_fromCache r = None
           \<and> google_cache w' = google_cache w \<and> requests w' = requests w
           \<and> GOOGLE_MAPS_API_KEY w' = GOOGLE_MAPS_API_KEY w"
  using assms by (simp add: fetchGoogleMapsTraffic_def Let_def)

lemma stale_after:
  assumes "\<not> isCacheValid w x" "clock w \<le> clock w1" "0 \<le> dt"
  shows "\<not> isCacheValid (advance dt w1) x"
  using assms by (auto simp: isCacheValid_def split: option.splits)

text \<open>
  Claim C8, as amended. For each adapter: after a fetch that reported \<open>fromCache = false\<close>
  (it stored its data), a second fetch for the same cache key less than \<open>CACHE_TTL_MS\<close>
  later returns the same data with \<open>fromCache = true\<close> and issues no request; a second
  fetch \<open>CACHE_TTL_MS\<close> or more later does not answer from the cache and issues a fresh
  request. A fetch that resolved without \<open>fromCache\<close> (a failed request, an empty site
  list, no routes) has left the cache as it was, and a later fetch for the same key
  issues a request again; for Google Maps this is with an API key. Without an API key the
  Google Maps adapter resolves with no data, reads neither the cache nor the network, and
  the next fetch does the same.
\<close>

theorem C8_cache_round_trip_and_expiry:
  "(fetchTIITraffic w road = (Inr r1, w1) \<and> r_fromCache r1 = Some False
      \<and> tii_getCacheKey road2 = tii_getCacheKey road \<longrightarrow>
      (dt < CACHE_TTL_MS \<longrightarrow>
         (\<exists>r2 w2. fetchTIITraffic (advance dt w1) road2 = (Inr r2, w2)
            \<and> r_data r2 = r_data r1 \<and> r_fromCache r2 = Some True
            \<and> requests w2 = requests w1))
      \<and> (CACHE_TTL_MS \<le> dt \<longrightarrow>
         (\<exists>r2 w2. fetchTIITraffic (advance dt w1) road2 = (Inr r2, w2)
            \<and> r_fromCache r2 \<noteq> Some True
            \<and> requests w2 = requests w1 @ [GET_tii_traffic])))
   \<and> (fetchWebTRISTraffic w road = (Inr r1, w1) \<and> r_fromCache r1 = Some False
      \<and> webtris_getCacheKey road2 = webtris_getCacheKey road \<longrightarrow>
      (dt < CACHE_TTL_MS \<longrightarrow>
         (\<exists>r2 w2. fetchWebTRISTraffic (advance dt w1) road2 = (Inr r2, w2)
            \<and> r_data r2 = r_data r1 \<and> r_fromCache r2 = Some True
            \<and> requests w2 = requests w1))
      \<and> (CACHE_TTL_MS \<le> dt \<longrightarrow>
         (\<exists>r2 w2 rest. fetchWebTRISTraffic (advance dt w1) road2 = (Inr r2, w2)
            \<and> r_fromCache r2 \<noteq> Some True
            \<and> requests w2 = requests w1 @ GET_webtris_sites (toUpperCase road2) # rest)))
   \<and> (fetchGoogleMapsTraffic w origin destination rd = (Inr r1, w1) \<and> r_fromCache r1 = Some False
      \<and> google_getCacheKey origin2 destination2 = google_getCacheKey origin destination \<longrightarrow>
      (dt < CACHE_TTL_MS \<longrightarrow>
         (\<exists>r2 w2. fetchGoogleMapsTraffic (advance dt w1) origin2 destination2 rd2 = (Inr r2, w2)
            \<and> r_data r2 = r_data r1 \<and> r_fromCache r2 = Some True
            \<and> requests w2 = requests w1))
      \<and> (CACHE_TTL_MS \<le> dt \<longrightarrow>
         (\<exists>r2 w2. fetchGoogleMapsTraffic (advance dt w1) origin2 destination2 rd2 = (Inr r2, w2)
            \<and> r_fromCache r2 \<noteq> Some True
            \<and> requests w2 = requests w1 @ [GET_google_directions origin2 destination2])))
   \<and> (fetchTIITraffic w road = (Inr r1, w1) \<and> r_fromCache r1 = None
      \<and> tii_getCacheKey road2 = tii_getCacheKey road \<and> 0 \<le> dt \<longrightarrow>
      tii_cache w1 = tii_cache w
      \<and> (\<exists>r2 w2. fetchTIITraffic (advance dt w1) road2 = (Inr r2, w2)
            \<and> r_fromCache r2 \<noteq> Some True
            \<and> requests w2 = requests w1 @ [GET_tii_traffic]))
   \<and> (fetchWebTRISTraffic w road = (Inr r1, w1) \<and> r_fromCache r1 = None
      \<and> webtris_getCacheKey road2 = webtris_getCacheKey road \<and> 0 \<le> dt \<longrightarrow>
      webtris_cache w1 = webtris_cache w
      \<and> (\<exists>r2 w2 rest. fetchWebTRISTraffic (advance dt w1) road2 = (Inr r2, w2)
            \<and> r_fromCache r2 \<noteq> Some True
            \<and> requests w2 = requests w1 @ GET_webtris_sites (toUpperCase road2) # rest))
   \<and> (truthy_str (GOOGLE_MAPS_API_KEY w)
      \<and> fetchGoogleMapsTraffic w origin destination rd = (Inr r1, w1) \<and> r_fromCache r1 = None
      \<and> google_getCacheKey origin2 destination2 = google_getCacheKey origin destination
      \<and> 0 \<le> dt \<longrightarrow>
      google_cache w1 = google_cache w
      \<and> (\<exists>r2 w2. fetchGoogleMapsTraffic (advance dt w1) origin2 destination2 rd2 = (Inr r2, w2)
            \<and> r_fromCache r2 \<noteq> Some True
            \<and> requests w2 = requests w1 @ [GET_google_directions origin2 destination2]))
   \<and> (\<not> truthy_str (GOOGLE_MAPS_API_KEY w)
      \<and> fetchGoogleMapsTraffic w origin destination rd = (Inr r1, w1) \<longrightarrow>
      r_data r1 = [] \<and> r_fromCache r1 = None
      \<and> google_cache w1 = google_cache w \<and> requests w1 = requests w
      \<and> (\<exists>r2 w2. fetchGoogleMapsTraffic (advance dt w1) origin2 destination2 rd2 = (Inr r2, w2)
            \<and> r_data r2 = [] \<and> r_fromCache r2 = None
            \<and> requests w2 = requests w1))"
proof (intro conjI impI; (elim conjE)?)
  assume a: "fetchTIITraffic w road = (Inr r1, w1)" "r_fromCache r1 = Some False"
    and k: "tii_getCacheKey road2 = tii_getCacheKey road"
  from tii_stored [OF a] k
  have st: "tii_cache (advance dt w1) (tii_getCacheKey road2)
              = Some \<lparr>ce_data = r_data r1, ce_timestamp = clock w1\<rparr>" by simp
  { assume "dt < CACHE_TTL_MS"
    then have "clock (advance dt w1) - ce_timestamp \<lparr>ce_data = r_data r1, ce_timestamp = clock w1\<rparr>
                < CACHE_TTL_MS" by simp
    from tii_hit [OF st this]
    show "\<exists>r2 w2. fetchTIITraffic (advance dt w1) road2 = (Inr r2, w2)
            \<and> r_data r2 = r_data r1 \<and> r_fromCache r2 = Some True
            \<and> requests w2 = requests w1" by simp }
  { assume "CACHE_TTL_MS \<le> dt"
    then have "\<not> clock (advance dt w1) - ce_timestamp \<lparr>ce_data = r_data r1, ce_timestamp = clock w1\<rparr>
                < CACHE_TTL_MS" by simp
    from tii_expired [OF st this]
    show "\<exists>r2 w2. fetchTIITraffic (advance dt w1) road2 = (Inr r2, w2)
            \<and> r_fromCache r2 \<noteq> Some True
            \<and> requests w2 = requests w1 @ [GET_tii_traffic]" by simp }
next
  assume a: "fetchWebTRISTraffic w road = (Inr r1, w1)" "r_fromCache r1 = Some False"
    and k: "webtris_getCacheKey road2 = webtris_getCacheKey road"
  from webtris_stored [OF a] k
  have st: "webtris_cache (advance dt w1) (webtris_getCacheKey road2)
              = Some \<lparr>ce_data = r_data r1, ce_timestamp = clock w1\<rparr>" by simp
  { assume "dt < CACHE_TTL_MS"
    then have "clock (advance dt w1) - ce_timestamp \<lparr>ce_data = r_data r1, ce_timestamp = clock w1\<rparr>
                < CACHE_TTL_MS" by simp
    from webtris_hit [OF st this]
    show "\<exists>r2 w2. fetchWebTRISTraffic (advance dt w1) road2 = (Inr r2, w2)
            \<and> r_data r2 = r_data r1 \<and> r_fromCache r2 = Some True
            \<and> requests w2 = requests w1" by simp }
  { assume "CACHE_TTL_MS \<le> dt"
    then have "\<not> clock (advance dt w1) - ce_timestamp \<lparr>ce_data = r_data r1, ce_timestamp = clock w1\<rparr>
                < CACHE_TTL_MS" by simp
    from webtris_expired [OF st this]
    show "\<exists>r2 w2 rest. fetchWebTRISTraffic (advance dt w1) road2 = (Inr r2, w2)
            \<and> r_fromCache r2 \<noteq> Some True
            \<and> requests w2 = requests w1 @ GET_webtris_sites (toUpperCase road2) # rest" by simp }
next
  assume a: "fetchGoogleMapsTraffic w origin destination rd = (Inr r1, w1)"
            "r_fromCache r1 = Some False"
    and k: "google_getCacheKey origin2 destination2 = google_getCacheKey origin destination"
  from google_stored [OF a] k
  have st: "google_cache (advance dt w1) (google_getCacheKey origin2 destination2)
              = Some \<lparr>ce_data = r_data r1, ce_timestamp = clock w1\<rparr>"
    and key: "truthy_str (GOOGLE_MAPS_API_KEY (advance dt w1))" by simp_all
  { assume "dt < CACHE_TTL_MS"
    then have "clock (advance dt w1) - ce_timestamp \<lparr>ce_data = r_data r1, ce_timestamp = clock w1\<rparr>
                < CACHE_TTL_MS" by simp
    from google_hit [OF st this key]
    show "\<exists>r2 w2. fetchGoogleMapsTraffic (advance dt w1) origin2 destination2 rd2 = (Inr r2, w2)
            \<and> r_data r2 = r_data r1 \<and> r_fromCache r2 = Some True
            \<and> requests w2 = requests w1" by simp }
  { assume "CACHE_TTL_MS \<le> dt"
    then have "\<not> clock (advance dt w1) - ce_timestamp \<lparr>ce_data = r_data r1, ce_timestamp = clock w1\<rparr>
                < CACHE_TTL_MS" by simp
    from google_expired [OF st this key]
    show "\<exists>r2 w2. fetchGoogleMapsTraffic (advance dt w1) origin2 destination2 rd2 = (Inr r2, w2)
            \<and> r_fromCache r2 \<noteq> Some True
            \<and> requests w2 = requests w1 @ [GET_google_directions origin2 destination2]" by simp }
next
  assume a: "fetchTIITraffic w road = (Inr r1, w1)" "r_fromCache r1 = None"
    and k: "tii_getCacheKey road2 = tii_getCacheKey road" and dt: "0 \<le> dt"
  from tii_not_stored [OF a]
  have c: "tii_cache w1 = tii_cache w"
    and s: "\<not> isCacheValid w (tii_cache w (tii_getCacheKey road))"
    and t: "clock w \<le> clock w1" by blast+
  show "tii_cache w1 = tii_cache w" by (rule c)
  from stale_after [OF s t dt] c k
  have "\<not> isCacheValid (advance dt w1)
            (tii_cache (advance dt w1) (tii_getCacheKey road2))" by simp
  from tii_miss [OF this]
  show "\<exists>r2 w2. fetchTIITraffic (advance dt w1) road2 = (Inr r2, w2)
            \<and> r_fromCache r2 \<noteq> Some True
            \<and> requests w2 = requests w1 @ [GET_tii_traffic]" by simp
next
  assume a: "fetchWebTRISTraffic w road = (Inr r1, w1)" "r_fromCache r1 = None"
    and k: "webtris_getCacheKey road2 = webtris_getCacheKey road" and dt: "0 \<le> dt"
  from webtris_not_stored [OF a]
  have c: "webtris_cache w1 = webtris_cache w"
    and s: "\<not> isCacheValid w (webtris_cache w (webtris_getCacheKey road))"
    and t: "clock w \<le> clock w1" by blast+
  show "webtris_cache w1 = webtris_cache w" by (rule c)
  from stale_after [OF s t dt] c k
  have "\<not> isCacheValid (advance dt w1)
            (webtris_cache (advance dt w1) (webtris_getCacheKey road2))" by simp
  from webtris_miss [OF this]
  show "\<exists>r2 w2 rest. fetchWebTRISTraffic (advance dt w1) road2 = (Inr r2, w2)
            \<and> r_fromCache r2 \<noteq> Some True
            \<and> requests w2 = requests w1 @ GET_webtris_sites (toUpperCase road2) # rest" by simp
next
  assume key: "truthy_str (GOOGLE_MAPS_API_KEY w)"
    and a: "fetchGoogleMapsTraffic w origin destination rd = (Inr r1, w1)"
           "r_fromCache r1 = None"
    and k: "google_getCacheKey origin2 destination2 = google_getCacheKey origin destination"
    and dt: "0 \<le> dt"
  from google_not_stored [OF a key]
  have c: "google_cache w1 = google_cache w"
    and s: "\<not> isCacheValid w (google_cache w (google_getCacheKey origin destination))"
    and t: "clock w \<le> clock w1"
    and key1: "truthy_str (GOOGLE_MAPS_API_KEY w1)" by blast+
  show "google_cache w1 = google_cache w" by (rule c)
  from stale_after [OF s t dt] c k
  have "\<not> isCacheValid (advance dt w1)
            (google_cache (advance dt w1) (google_getCacheKey origin2 destination2))" by simp
  moreover from key1 have "truthy_str (GOOGLE_MAPS_API_KEY (advance dt w1))" by simp
  ultimately show "\<exists>r2 w2. fetchGoogleMapsTraffic (advance dt w1) origin2 destination2 rd2
                              = (Inr r2, w2)
            \<and> r_fromCache r2 \<noteq> Some True
            \<and> requests w2 = requests w1 @ [GET_google_directions origin2 destination2]"
    using google_miss [of "advance dt w1" origin2 destination2 rd2] by simp
next
  assume key: "\<not> truthy_str (GOOGLE_MAPS_API_KEY w)"
    and a: "fetchGoogleMapsTraffic w origin destination rd = (Inr r1, w1)"
  from google_keyless [OF key, of origin destination rd] a
  have f: "r_data r1 = []" "r_fromCache r1 = None" "google_cache w1 = google_cache w"
          "requests w1 = requests w" and key1: "GOOGLE_MAPS_API_KEY w1 = GOOGLE_MAPS_API_KEY w"
    by auto
  show "r_data r1 = []" "r_fromCache r1 = None" "google_cache w1 = google_cache w"
       "requests w1 = requests w" by (rule f)+
  from key key1 have "\<not> truthy_str (GOOGLE_MAPS_API_KEY (advance dt w1))" by simp
  from google_keyless [OF this, of origin2 destination2 rd2]
  show "\<exists>r2 w2. fetchGoogleMapsTraffic (advance dt w1) origin2 destination2 rd2 = (Inr r2, w2)
            \<and> r_data r2 = [] \<and> r_fromCache r2 = None
            \<and> requests w2 = requests w1" by auto
qed

subsection \<open>The orchestrator on a dead and on a live network\<close>

text \<open>
  The statement of C1 at a local street on the dead network (two Google Maps calls, the
  second with the alternative phrasing) and at the M1 on the live network (none).
\<close>

theorem C1_witness:
  "(\<exists>rs w'. fetchTrafficWithFallback (fresh_world dead_network (Some ''key''))
               ''Georges Street'' (Some ''IE'') (Some ''Drogheda'') = (Inr rs, w')
      \<and> fallbackUsed rs \<and> ''GoogleMaps'' \<in> set (sourcesUsed rs)
      \<and> google_calls_since (fresh_world dead_network (Some ''key'')) w'
          = [Call_fetchGoogleMapsTraffic ''Drogheda Ireland''
               ''Georges Street, Drogheda, Ireland'' (Some ''Georges Street''),
             Call_fetchGoogleMapsTraffic ''Near Georges Street, Drogheda''
               ''End of Georges Street, Drogheda'' (Some ''Georges Street'')])
   \<and> (\<exists>rs w'. fetchTrafficWithFallback (fresh_world live_network (Some ''key''))
               ''M1'' (Some ''IE'') None = (Inr rs, w')
      \<and> \<not> fallbackUsed rs \<and> ''GoogleMaps'' \<notin> set (sourcesUsed rs)
      \<and> google_calls_since (fresh_world live_network (Some ''key'')) w' = [])"
proof (rule conjI)
  let ?W = "fresh_world dead_network (Some ''key'')"
  let ?o = "first_origin ''Georges Street'' (Some ''Drogheda'') (Some (countryName_of (Some ''IE'')))"
  let ?d = "buildLocationQuery ''Georges Street'' (Some ''Drogheda'') (Some (countryName_of (Some ''IE'')))"
  from C1_commercial_fallback_trigger_and_retry
         [of ?W "''Georges Street''" "Some ''IE''" "Some ''Drogheda''"]
  obtain rs2 w2 rs w' where
    f: "free_stages ?W ''Georges Street'' (Some ''IE'') = (Inr rs2, w2)"
    and e: "fetchTrafficWithFallback ?W ''Georges Street'' (Some ''IE'') (Some ''Drogheda'') = (Inr rs, w')"
    and i: "google_calls_since ?W w' \<noteq> [] \<longleftrightarrow>
          data rs2 = [] \<or> isLocalStreet ''Georges Street'' (Some ''Drogheda'')
          \<or> isGoogleMapsPreferred ''Georges Street'' (Some ''Drogheda'') (Some ''IE'')"
    and t: "google_calls_since ?W w' \<noteq> [] \<longrightarrow>
          fallbackUsed rs \<and> ''GoogleMaps'' \<in> set (sourcesUsed rs)
          \<and> (\<exists>r1 w3.
                fetchGoogleMapsTraffic w2 ?o ?d (Some ''Georges Street'') = (Inr r1, w3)
              \<and> google_calls_since ?W w' =
                  (if r_data r1 = [] \<and> truthy_str (Some ''Drogheda'')
                   then [Call_fetchGoogleMapsTraffic ?o ?d (Some ''Georges Street''),
                         Call_fetchGoogleMapsTraffic
                           (''Near '' @ ''Georges Street'' @ '', '' @ the (Some ''Drogheda''))
                           (''End of '' @ ''Georges Street'' @ '', '' @ the (Some ''Drogheda''))
                           (Some ''Georges Street'')]
                   else [Call_fetchGoogleMapsTraffic ?o ?d (Some ''Georges Street'')]))"
    by (elim exE conjE) (rule that)
  have loc: "isLocalStreet ''Georges Street'' (Some ''Drogheda'')" by code_simp
  with i have ne: "google_calls_since ?W w' \<noteq> []" by simp
  with t obtain r1 w3 where
    a: "fetchGoogleMapsTraffic w2 ?o ?d (Some ''Georges Street'') = (Inr r1, w3)"
    and g: "google_calls_since ?W w' =
                  (if r_data r1 = [] \<and> truthy_str (Some ''Drogheda'')
                   then [Call_fetchGoogleMapsTraffic ?o ?d (Some ''Georges Street''),
                         Call_fetchGoogleMapsTraffic
                           (''Near '' @ ''Georges Street'' @ '', '' @ the (Some ''Drogheda''))
                           (''End of '' @ ''Georges Street'' @ '', '' @ the (Some ''Drogheda''))
                           (Some ''Georges Street'')]
                   else [Call_fetchGoogleMapsTraffic ?o ?d (Some ''Georges Street'')])"
    and u: "fallbackUsed rs" "''GoogleMaps'' \<in> set (sourcesUsed rs)"
    by blast
  have ev: "map_sum id r_data
              (fst (fetchGoogleMapsTraffic (snd (free_stages ?W ''Georges Street'' (Some ''IE'')))
                      ?o ?d (Some ''Georges Street''))) = Inr []"
    by code_simp
  from f have "snd (free_stages ?W ''Georges Street'' (Some ''IE'')) = w2" by simp
  with ev a have empty: "r_data r1 = []" by simp
  have o: "?o = ''Drogheda Ireland''" by code_simp
  have d: "?d = ''Georges Street, Drogheda, Ireland''" by code_simp
  have tt: "truthy_str (Some ''Drogheda'')" by (simp add: truthy_str_def)
  from g empty tt have "google_calls_since ?W w'
          = [Call_fetchGoogleMapsTraffic ''Drogheda Ireland''
               ''Georges Street, Drogheda, Ireland'' (Some ''Georges Street''),
             Call_fetchGoogleMapsTraffic ''Near Georges Street, Drogheda''
               ''End of Georges Street, Drogheda'' (Some ''Georges Street'')]"
    unfolding o d by simp
  with e u show "\<exists>rs w'. fetchTrafficWithFallback ?W
               ''Georges Street'' (Some ''IE'') (Some ''Drogheda'') = (Inr rs, w')
      \<and> fallbackUsed rs \<and> ''GoogleMaps'' \<in> set (sourcesUsed rs)
      \<and> google_calls_since ?W w'
          = [Call_fetchGoogleMapsTraffic ''Drogheda Ireland''
               ''Georges Street, Drogheda, Ireland'' (Some ''Georges Street''),
             Call_fetchGoogleMapsTraffic ''Near Georges Street, Drogheda''
               ''End of Georges Street, Drogheda'' (Some ''Georges Street'')]"
    by blast
next
  let ?W = "fresh_world live_network (Some ''key'')"
  from C1_commercial_fallback_trigger_and_retry [of ?W "''M1''" "Some ''IE''" None]
  obtain rs2 w2 rs w' where
    f: "free_stages ?W ''M1'' (Some ''IE'') = (Inr rs2, w2)"
    and e: "fetchTrafficWithFallback ?W ''M1'' (Some ''IE'') None = (Inr rs, w')"
    and i: "google_calls_since ?W w' \<noteq> [] \<longleftrightarrow>
          data rs2 = [] \<or> isLocalStreet ''M1'' None \<or> isGoogleMapsPreferred ''M1'' None (Some ''IE'')"
    and n: "google_calls_since ?W w' = [] \<longrightarrow>
          \<not> fallbackUsed rs \<and> ''GoogleMaps'' \<notin> set (sourcesUsed rs)"
    by (elim exE conjE) (rule that)
  have ev: "map_sum id (\<lambda>rs. data rs = []) (fst (free_stages ?W ''M1'' (Some ''IE''))) = Inr False"
    by code_simp
  with f have "data rs2 \<noteq> []" by simp
  moreover have "\<not> isLocalStreet ''M1'' None" by code_simp
  moreover have "\<not> isGoogleMapsPreferred ''M1'' None (Some ''IE'')" by code_simp
  ultimately have z: "google_calls_since ?W w' = []" using i by blast
  with n e show "\<exists>rs w'. fetchTrafficWithFallback ?W ''M1'' (Some ''IE'') None = (Inr rs, w')
      \<and> \<not> fallbackUsed rs \<and> ''GoogleMaps'' \<notin> set (sourcesUsed rs)
      \<and> google_calls_since ?W w' = []"
    by blast
qed

text \<open>
  The statement of C3 at the M1 on the dead network (all three adapters are tried and
  traced, and the one entry of \<open>errors\<close> is the Google Maps timeout) and on the live
  network with the TII feed timing out (the timeout is in the trace, Google Maps is not
  called, and \<open>errors\<close> is empty).
\<close>

theorem C3_witness:
  "(\<exists>rs w'. fetchTrafficWithFallback (fresh_world dead_network (Some ''key'')) ''M1'' None None
              = (Inr rs, w')
      \<and> ''TII-Ireland'' \<in> set (sourcesUsed rs) \<and> ''WebTRIS-UK'' \<in> set (sourcesUsed rs)
      \<and> ''GoogleMaps'' \<in> set (sourcesUsed rs) \<and> fallbackUsed rs
      \<and> \<lparr>d_step = ''TII returned no data'', d_fromCache = None,
          d_error = Some ''timeout of 10000ms exceeded''\<rparr> \<in> set (details rs)
      \<and> \<lparr>d_step = ''WebTRIS returned no data'', d_fromCache = None, d_error = None\<rparr>
          \<in> set (details rs)
      \<and> \<lparr>d_step = ''Google Maps returned no data'', d_fromCache = None,
          d_error = Some ''timeout of 10000ms exceeded''\<rparr> \<in> set (details rs)
      \<and> errors rs = [''timeout of 10000ms exceeded''])
   \<and> (\<exists>rs w'. fetchTrafficWithFallback (fresh_world tii_down_network (Some ''key'')) ''M1'' None None
              = (Inr rs, w')
      \<and> ''TII-Ireland'' \<in> set (sourcesUsed rs)
      \<and> \<lparr>d_step = ''TII returned no data'', d_fromCache = None,
          d_error = Some ''timeout of 10000ms exceeded''\<rparr> \<in> set (details rs)
      \<and> \<not> fallbackUsed rs \<and> errors rs = [])"
proof (rule conjI)
  let ?W = "fresh_world dead_network (Some ''key'')"
  from C3_orchestrator_returns_and_traces [of "''M1''" None ?W None]
  obtain rs1 w1 rs2 w2 rs w' where
    s1: "tii_stage ''M1'' None (initial_results, ?W) = (Inr rs1, w1)"
    and f: "free_stages ?W ''M1'' None = (Inr rs2, w2)"
    and e: "fetchTrafficWithFallback ?W ''M1'' None None = (Inr rs, w')"
    and A: "tii_applies ''M1'' None \<longrightarrow>
          ''TII-Ireland'' \<in> set (sourcesUsed rs)
          \<and> (\<exists>r. fetchTIITraffic ?W ''M1'' = (Inr r, w1)
                \<and> set (r_data r) \<subseteq> set (data rs)
                \<and> (r_data r = [] \<longrightarrow>
                     \<lparr>d_step = ''TII returned no data'', d_fromCache = None,
                      d_error = r_error r\<rparr> \<in> set (details rs)))"
    and B: "webtris_applies ''M1'' None \<longrightarrow>
          ''WebTRIS-UK'' \<in> set (sourcesUsed rs)
          \<and> (\<exists>r. fetchWebTRISTraffic w1 ''M1'' = (Inr r, w2)
                \<and> set (r_data r) \<subseteq> set (data rs)
                \<and> (r_data r = [] \<longrightarrow>
                     \<lparr>d_step = ''WebTRIS returned no data'', d_fromCache = None,
                      d_error = r_error r\<rparr> \<in> set (details rs)))"
    and G: "shouldTryGoogle ''M1'' None None rs2 \<longrightarrow>
          fallbackUsed rs \<and> ''GoogleMaps'' \<in> set (sourcesUsed rs)
          \<and> (\<exists>r. fetchRoadTraffic w2 ''M1'' None (Some (countryName_of None)) = (Inr r, w')
                \<and> data rs = data rs2 @ r_data r
                \<and> (r_data r = [] \<longrightarrow>
                     \<lparr>d_step = ''Google Maps returned no data'', d_fromCache = None,
                      d_error = r_error r\<rparr> \<in> set (details rs))
                \<and> errors rs = (if r_data r = [] \<and> truthy_str (r_error r)
                                then [the (r_error r)] else []))"
    by (elim exE conjE) (rule that)
  have ta: "tii_applies ''M1'' None" by code_simp
  have wa: "webtris_applies ''M1'' None" by code_simp
  from A ta obtain r1 where a1: "''TII-Ireland'' \<in> set (sourcesUsed rs)"
    and f1: "fetchTIITraffic ?W ''M1'' = (Inr r1, w1)"
    and l1: "r_data r1 = [] \<longrightarrow>
                     \<lparr>d_step = ''TII returned no data'', d_fromCache = None,
                      d_error = r_error r1\<rparr> \<in> set (details rs)"
    by blast
  have ev1: "map_sum id (\<lambda>r. (r_data r, r_error r)) (fst (fetchTIITraffic ?W ''M1''))
               = Inr ([], Some ''timeout of 10000ms exceeded'')" by code_simp
  with f1 have "r_data r1 = []" "r_error r1 = Some ''timeout of 10000ms exceeded''" by simp_all
  with l1 have t1: "\<lparr>d_step = ''TII returned no data'', d_fromCache = None,
          d_error = Some ''timeout of 10000ms exceeded''\<rparr> \<in> set (details rs)" by simp
  from B wa obtain r2 where a2: "''WebTRIS-UK'' \<in> set (sourcesUsed rs)"
    and f2: "fetchWebTRISTraffic w1 ''M1'' = (Inr r2, w2)"
    and l2: "r_data r2 = [] \<longrightarrow>
                     \<lparr>d_step = ''WebTRIS returned no data'', d_fromCache = None,
                      d_error = r_error r2\<rparr> \<in> set (details rs)"
    by blast
  from s1 have w1_eq: "w1 = snd (tii_stage ''M1'' None (initial_results, ?W))" by simp
  have ev2: "map_sum id (\<lambda>r. (r_data r, r_error r))
               (fst (fetchWebTRISTraffic (snd (tii_stage ''M1'' None (initial_results, ?W))) ''M1''))
               = Inr ([], None)" by code_simp
  with f2 have "r_data r2 = []" "r_error r2 = None" unfolding w1_eq by simp_all
  with l2 have t2: "\<lparr>d_step = ''WebTRIS returned no data'', d_fromCache = None, d_error = None\<rparr>
          \<in> set (details rs)" by simp
  have ev3: "map_sum id (shouldTryGoogle ''M1'' None None) (fst (free_stages ?W ''M1'' None))
               = Inr True" by code_simp
  with f have sg: "shouldTryGoogle ''M1'' None None rs2" by simp
  from f have w2_eq: "w2 = snd (free_stages ?W ''M1'' None)" by simp
  from G sg obtain r3 where a3: "fallbackUsed rs" "''GoogleMaps'' \<in> set (sourcesUsed rs)"
    and f3: "fetchRoadTraffic w2 ''M1'' None (Some (countryName_of None)) = (Inr r3, w')"
    and l3: "r_data r3 = [] \<longrightarrow>
                     \<lparr>d_step = ''Google Maps returned no data'', d_fromCache = None,
                      d_error = r_error r3\<rparr> \<in> set (details rs)"
    and e3: "errors rs = (if r_data r3 = [] \<and> truthy_str (r_error r3)
                                then [the (r_error r3)] else [])"
    by blast
  have ev4: "map_sum id (\<lambda>r. (r_data r, r_error r))
               (fst (fetchRoadTraffic (snd (free_stages ?W ''M1'' None)) ''M1'' None
                       (Some (countryName_of None))))
               = Inr ([], Some ''timeout of 10000ms exceeded'')" by code_simp
  with f3 have d3: "r_data r3 = []" "r_error r3 = Some ''timeout of 10000ms exceeded''"
    unfolding w2_eq by simp_all
  with l3 have t3: "\<lparr>d_step = ''Google Maps returned no data'', d_fromCache = None,
          d_error = Some ''timeout of 10000ms exceeded''\<rparr> \<in> set (details rs)" by simp
  from e3 d3 have t4: "errors rs = [''timeout of 10000ms exceeded'']"
    by (simp add: truthy_str_def)
  from e a1 a2 a3 t1 t2 t3 t4
  show "\<exists>rs w'. fetchTrafficWithFallback ?W ''M1'' None None = (Inr rs, w')
      \<and> ''TII-Ireland'' \<in> set (sourcesUsed rs) \<and> ''WebTRIS-UK'' \<in> set (sourcesUsed rs)
      \<and> ''GoogleMaps'' \<in> set (sourcesUsed rs) \<and> fallbackUsed rs
      \<and> \<lparr>d_step = ''TII returned no data'', d_fromCache = None,
          d_error = Some ''timeout of 10000ms exceeded''\<rparr> \<in> set (details rs)
      \<and> \<lparr>d_step = ''WebTRIS returned no data'', d_fromCache = None, d_error = None\<rparr>
          \<in> set (details rs)
      \<and> \<lparr>d_step = ''Google Maps returned no data'', d_fromCache = None,
          d_error = Some ''timeout of 10000ms exceeded''\<rparr> \<in> set (details rs)
      \<and> errors rs = [''timeout of 10000ms exceeded'']"
    by blast
next
  let ?W = "fresh_world tii_down_network (Some ''key'')"
  from C3_orchestrator_returns_and_traces [of "''M1''" None ?W None]
  obtain rs1 w1 rs2 w2 rs w' where
    f: "free_stages ?W ''M1'' None = (Inr rs2, w2)"
    and e: "fetchTrafficWithFallback ?W ''M1'' None None = (Inr rs, w')"
    and A: "tii_applies ''M1'' None \<longrightarrow>
          ''TII-Ireland'' \<in> set (sourcesUsed rs)
          \<and> (\<exists>r. fetchTIITraffic ?W ''M1'' = (Inr r, w1)
                \<and> set (r_data r) \<subseteq> set (data rs)
                \<and> (r_data r = [] \<longrightarrow>
                     \<lparr>d_step = ''TII returned no data'', d_fromCache = None,
                      d_error = r_error r\<rparr> \<in> set (details rs)))"
    and N: "\<not> shouldTryGoogle ''M1'' None None rs2 \<longrightarrow>
          rs = rs2 \<and> w' = w2 \<and> \<not> fallbackUsed rs \<and> errors rs = []"
    by (elim exE conjE) (rule that)
  have ta: "tii_applies ''M1'' None" by code_simp
  from A ta obtain r1 where a1: "''TII-Ireland'' \<in> set (sourcesUsed rs)"
    and f1: "fetchTIITraffic ?W ''M1'' = (Inr r1, w1)"
    and l1: "r_data r1 = [] \<longrightarrow>
                     \<lparr>d_step = ''TII returned no data'', d_fromCache = None,
                      d_error = r_error r1\<rparr> \<in> set (details rs)"
    by blast
  have ev1: "map_sum id (\<lambda>r. (r_data r, r_error r)) (fst (fetchTIITraffic ?W ''M1''))
               = Inr ([], Some ''timeout of 10000ms exceeded'')" by code_simp
  with f1 have "r_data r1 = []" "r_error r1 = Some ''timeout of 10000ms exceeded''" by simp_all
  with l1 have t1: "\<lparr>d_step = ''TII returned no data'', d_fromCache = None,
          d_error = Some ''timeout of 10000ms exceeded''\<rparr> \<in> set (details rs)" by simp
  have ev3: "map_sum id (shouldTryGoogle ''M1'' None None) (fst (free_stages ?W ''M1'' None))
               = Inr False" by code_simp
  with f have "\<not> shouldTryGoogle ''M1'' None None rs2" by simp
  with N have t2: "\<not> fallbackUsed rs" "errors rs = []" by blast+
  from e a1 t1 t2
  show "\<exists>rs w'. fetchTrafficWithFallback ?W ''M1'' None None = (Inr rs, w')
      \<and> ''TII-Ireland'' \<in> set (sourcesUsed rs)
      \<and> \<lparr>d_step = ''TII returned no data'', d_fromCache = None,
          d_error = Some ''timeout of 10000ms exceeded''\<rparr> \<in> set (details rs)
      \<and> \<not> fallbackUsed rs \<and> errors rs = []"
    by blast
qed

text \<open>
  The statement of C8 at the three adapters on the live network, one second and five
  minutes after the first fetch, the second fetch spelling the key in lower case; then at
  a TII fetch that timed out, at a WebTRIS fetch that found no sites and a Google Maps
  fetch that found no routes, each followed by a fetch one second later; and at two
  Google Maps fetches without an API key.
\<close>

theorem C8_witness:
  "(\<exists>r1 w1. fetchTIITraffic (fresh_world live_network (Some ''key'')) ''M1'' = (Inr r1, w1)
      \<and> (\<exists>r2 w2. fetchTIITraffic (advance 1000 w1) ''m1'' = (Inr r2, w2)
            \<and> r_data r2 = r_data r1 \<and> r_fromCache r2 = Some True
            \<and> requests w2 = requests w1)
      \<and> (\<exists>r2 w2. fetchTIITraffic (advance 300000 w1) ''m1'' = (Inr r2, w2)
            \<and> r_fromCache r2 \<noteq> Some True
            \<and> requests w2 = requests w1 @ [GET_tii_traffic]))
   \<and> (\<exists>r1 w1. fetchWebTRISTraffic (fresh_world live_network (Some ''key'')) ''M1'' = (Inr r1, w1)
      \<and> (\<exists>r2 w2. fetchWebTRISTraffic (advance 1000 w1) ''m1'' = (Inr r2, w2)
            \<and> r_data r2 = r_data r1 \<and> r_fromCache r2 = Some True
            \<and> requests w2 = requests w1)
      \<and> (\<exists>r2 w2 rest. fetchWebTRISTraffic (advance 300000 w1) ''m1'' = (Inr r2, w2)
            \<and> r_fromCache r2 \<noteq> Some True
            \<and> requests w2 = requests w1 @ GET_webtris_sites (toUpperCase ''m1'') # rest))
   \<and> (\<exists>r1 w1. fetchGoogleMapsTraffic (fresh_world live_network (Some ''key''))
                  ''Drogheda Ireland'' ''M1, Drogheda, Ireland'' (Some ''M1'') = (Inr r1, w1)
      \<and> (\<exists>r2 w2. fetchGoogleMapsTraffic (advance 1000 w1)
                     ''drogheda ireland'' ''m1, drogheda, ireland'' (Some ''m1'') = (Inr r2, w2)
            \<and> r_data r2 = r_data r1 \<and> r_fromCache r2 = Some True
            \<and> requests w2 = requests w1)
      \<and> (\<exists>r2 w2. fetchGoogleMapsTraffic (advance 300000 w1)
                     ''drogheda ireland'' ''m1, drogheda, ireland'' (Some ''m1'') = (Inr r2, w2)
            \<and> r_fromCache r2 \<noteq> Some True
            \<and> requests w2 = requests w1
                 @ [GET_google_directions ''drogheda ireland'' ''m1, drogheda, ireland'']))
   \<and> (\<exists>r1 w1. fetchTIITraffic (fresh_world dead_network (Some ''key'')) ''M1'' = (Inr r1, w1)
      \<and> r_fromCache r1 = None
      \<and> tii_cache w1 = tii_cache (fresh_world dead_network (Some ''key''))
      \<and> (\<exists>r2 w2. fetchTIITraffic (advance 1000 w1) ''m1'' = (Inr r2, w2)
            \<and> r_fromCache r2 \<noteq> Some True
            \<and> requests w2 = requests w1 @ [GET_tii_traffic]))
   \<and> (\<exists>r1 w1. fetchWebTRISTraffic
                  (fresh_world (network_with (TiiSituations []) (SitesList []) (ReportsList [])
                    (GoogleBody ''OK'' [])) (Some ''key'')) ''M1'' = (Inr r1, w1)
      \<and> r_fromCache r1 = None
      \<and> webtris_cache w1 = webtris_cache
                  (fresh_world (network_with (TiiSituations []) (SitesList []) (ReportsList [])
                    (GoogleBody ''OK'' [])) (Some ''key''))
      \<and> (\<exists>r2 w2 rest. fetchWebTRISTraffic (advance 1000 w1) ''m1'' = (Inr r2, w2)
            \<and> r_fromCache r2 \<noteq> Some True
            \<and> requests w2 = requests w1 @ GET_webtris_sites (toUpperCase ''m1'') # rest))
   \<and> (\<exists>r1 w1. fetchGoogleMapsTraffic
                  (fresh_world (network_with (TiiSituations []) (SitesList []) (ReportsList [])
                    (GoogleBody ''OK'' [])) (Some ''key''))
                  ''Drogheda Ireland'' ''M1, Drogheda, Ireland'' (Some ''M1'') = (Inr r1, w1)
      \<and> r_fromCache r1 = None
      \<and> google_cache w1 = google_cache
                  (fresh_world (network_with (TiiSituations []) (SitesList []) (ReportsList [])
                    (GoogleBody ''OK'' [])) (Some ''key''))
      \<and> (\<exists>r2 w2. fetchGoogleMapsTraffic (advance 1000 w1)
                     ''drogheda ireland'' ''m1, drogheda, ireland'' (Some ''m1'') = (Inr r2, w2)
            \<and> r_fromCache r2 \<noteq> Some True
            \<and> requests w2 = requests w1
                 @ [GET_google_directions ''drogheda ireland'' ''m1, drogheda, ireland'']))
   \<and> (\<exists>r1 w1. fetchGoogleMapsTraffic (fresh_world live_network None)
                  ''Drogheda Ireland'' ''M1, Drogheda, Ireland'' (Some ''M1'') = (Inr r1, w1)
      \<and> r_data r1 = [] \<and> r_fromCache r1 = None \<and> requests w1 = []
      \<and> (\<exists>r2 w2. fetchGoogleMapsTraffic (advance 1000 w1)
                     ''drogheda ireland'' ''m1, drogheda, ireland'' (Some ''m1'') = (Inr r2, w2)
            \<and> r_data r2 = [] \<and> r_fromCache r2 = None \<and> requests w2 = []))"
proof (intro conjI)
  let ?W = "fresh_world live_network (Some ''key'')"
  have lt: "(1000::int) < CACHE_TTL_MS" and ge: "CACHE_TTL_MS \<le> (300000::int)"
    by (simp_all add: CACHE_TTL_MS_def)
  {
    from fetchTIITraffic_returns [of ?W "''M1''"] obtain r1 w1 where
      f: "fetchTIITraffic ?W ''M1'' = (Inr r1, w1)" by blast
    have "map_sum id r_fromCache (fst (fetchTIITraffic ?W ''M1'')) = Inr (Some False)"
      by code_simp
    with f have fc: "r_fromCache r1 = Some False" by simp
    have k: "tii_getCacheKey ''m1'' = tii_getCacheKey ''M1''" by code_simp
    from C8_cache_round_trip_and_expiry [of ?W "''M1''" r1 w1 "''m1''" 1000] f fc k lt
    have hit: "\<exists>r2 w2. fetchTIITraffic (advance 1000 w1) ''m1'' = (Inr r2, w2)
              \<and> r_data r2 = r_data r1 \<and> r_fromCache r2 = Some True
              \<and> requests w2 = requests w1" by blast
    from C8_cache_round_trip_and_expiry [of ?W "''M1''" r1 w1 "''m1''" 300000] f fc k ge
    have miss: "\<exists>r2 w2. fetchTIITraffic (advance 300000 w1) ''m1'' = (Inr r2, w2)
              \<and> r_fromCache r2 \<noteq> Some True
              \<and> requests w2 = requests w1 @ [GET_tii_traffic]" by blast
    from f hit miss
    show "\<exists>r1 w1. fetchTIITraffic ?W ''M1'' = (Inr r1, w1)
      \<and> (\<exists>r2 w2. fetchTIITraffic (advance 1000 w1) ''m1'' = (Inr r2, w2)
            \<and> r_data r2 = r_data r1 \<and> r_fromCache r2 = Some True
            \<and> requests w2 = requests w1)
      \<and> (\<exists>r2 w2. fetchTIITraffic (advance 300000 w1) ''m1'' = (Inr r2, w2)
            \<and> r_fromCache r2 \<noteq> Some True
            \<and> requests w2 = requests w1 @ [GET_tii_traffic])" by blast
  }
  {
    from fetchWebTRISTraffic_returns [of ?W "''M1''"] obtain r1 w1 where
      f: "fetchWebTRISTraffic ?W ''M1'' = (Inr r1, w1)" by blast
    have "map_sum id r_fromCache (fst (fetchWebTRISTraffic ?W ''M1'')) = Inr (Some False)"
      by code_simp
    with f have fc: "r_fromCache r1 = Some False" by simp
    have k: "webtris_getCacheKey ''m1'' = webtris_getCacheKey ''M1''" by code_simp
    from C8_cache_round_trip_and_expiry [of ?W "''M1''" r1 w1 "''m1''" 1000] f fc k lt
    have hit: "\<exists>r2 w2. fetchWebTRISTraffic (advance 1000 w1) ''m1'' = (Inr r2, w2)
              \<and> r_data r2 = r_data r1 \<and> r_fromCache r2 = Some True
              \<and> requests w2 = requests w1" by blast
    from C8_cache_round_trip_and_expiry [of ?W "''M1''" r1 w1 "''m1''" 300000] f fc k ge
    have miss: "\<exists>r2 w2 rest. fetchWebTRISTraffic (advance 300000 w1) ''m1'' = (Inr r2, w2)
              \<and> r_fromCache r2 \<noteq> Some True
              \<and> requests w2 = requests w1 @ GET_webtris_sites (toUpperCase ''m1'') # rest" by blast
    from f hit miss
    show "\<exists>r1 w1. fetchWebTRISTraffic ?W ''M1'' = (Inr r1, w1)
      \<and> (\<exists>r2 w2. fetchWebTRISTraffic (advance 1000 w1) ''m1'' = (Inr r2, w2)
            \<and> r_data r2 = r_data r1 \<and> r_fromCache r2 = Some True
            \<and> requests w2 = requests w1)
      \<and> (\<exists>r2 w2 rest. fetchWebTRISTraffic (advance 300000 w1) ''m1'' = (Inr r2, w2)
            \<and> r_fromCache r2 \<noteq> Some True
            \<and> requests w2 = requests w1 @ GET_webtris_sites (toUpperCase ''m1'') # rest)" by blast
  }
  {
    from fetchGoogleMapsTraffic_returns [of ?W "''Drogheda Ireland''" "''M1, Drogheda, Ireland''" "Some ''M1''"]
    obtain r1 w1 where
      f: "fetchGoogleMapsTraffic ?W ''Drogheda Ireland'' ''M1, Drogheda, Ireland'' (Some ''M1'')
            = (Inr r1, w1)" by blast
    have "map_sum id r_fromCache
            (fst (fetchGoogleMapsTraffic ?W ''Drogheda Ireland'' ''M1, Drogheda, Ireland'' (Some ''M1'')))
          = Inr (Some False)"
      by code_simp
    with f have fc: "r_fromCache r1 = Some False" by simp
    have k: "google_getCacheKey ''drogheda ireland'' ''m1, drogheda, ireland''
             = google_getCacheKey ''Drogheda Ireland'' ''M1, Drogheda, Ireland''" by code_simp
    from C8_cache_round_trip_and_expiry [of ?W _ r1 w1 _ 1000 "''Drogheda Ireland''"
        "''M1, Drogheda, Ireland''" "Some ''M1''" "''drogheda ireland''"
        "''m1, drogheda, ireland''" "Some ''m1''"] f fc k lt
    have hit: "\<exists>r2 w2. fetchGoogleMapsTraffic (advance 1000 w1)
                     ''drogheda ireland'' ''m1, drogheda, ireland'' (Some ''m1'') = (Inr r2, w2)
            \<and> r_data r2 = r_data r1 \<and> r_fromCache r2 = Some True
            \<and> requests w2 = requests w1" by blast
    from C8_cache_round_trip_and_expiry [of ?W _ r1 w1 _ 300000 "''Drogheda Ireland''"
        "''M1, Drogheda, Ireland''" "Some ''M1''" "''drogheda ireland''"
        "''m1, drogheda, ireland''" "Some ''m1''"] f fc k ge
    have miss: "\<exists>r2 w2. fetchGoogleMapsTraffic (advance 300000 w1)
                     ''drogheda ireland'' ''m1, drogheda, ireland'' (Some ''m1'') = (Inr r2, w2)
            \<and> r_fromCache r2 \<noteq> Some True
            \<and> requests w2 = requests w1
                 @ [GET_google_directions ''drogheda ireland'' ''m1, drogheda, ireland'']" by blast
    from f hit miss
    show "\<exists>r1 w1. fetchGoogleMapsTraffic ?W
                  ''Drogheda Ireland'' ''M1, Drogheda, Ireland'' (Some ''M1'') = (Inr r1, w1)
      \<and> (\<exists>r2 w2. fetchGoogleMapsTraffic (advance 1000 w1)
                     ''drogheda ireland'' ''m1, drogheda, ireland'' (Some ''m1'') = (Inr r2, w2)
            \<and> r_data r2 = r_data r1 \<and> r_fromCache r2 = Some True
            \<and> requests w2 = requests w1)
      \<and> (\<exists>r2 w2. fetchGoogleMapsTraffic (advance 300000 w1)
                     ''drogheda ireland'' ''m1, drogheda, ireland'' (Some ''m1'') = (Inr r2, w2)
            \<and> r_fromCache r2 \<noteq> Some True
            \<and> requests w2 = requests w1
                 @ [GET_google_directions ''drogheda ireland'' ''m1, drogheda, ireland''])" by blast
  }
  let ?D = "fresh_world dead_network (Some ''key'')"
  let ?E = "fresh_world (network_with (TiiSituations []) (SitesList []) (ReportsList [])
                    (GoogleBody ''OK'' [])) (Some ''key'')"
  let ?N = "fresh_world live_network None"
  have nn: "(0::int) \<le> 1000" by simp
  {
    from fetchTIITraffic_returns [of ?D "''M1''"] obtain r1 w1 where
      f: "fetchTIITraffic ?D ''M1'' = (Inr r1, w1)" by blast
    have "map_sum id r_fromCache (fst (fetchTIITraffic ?D ''M1'')) = Inr None"
      by code_simp
    with f have fc: "r_fromCache r1 = None" by simp
    have k: "tii_getCacheKey ''m1'' = tii_getCacheKey ''M1''" by code_simp
    note T = C8_cache_round_trip_and_expiry [of ?D "''M1''" r1 w1 "''m1''" 1000]
    from f fc k nn have h: "fetchTIITraffic ?D ''M1'' = (Inr r1, w1) \<and> r_fromCache r1 = None
      \<and> tii_getCacheKey ''m1'' = tii_getCacheKey ''M1'' \<and> (0::int) \<le> 1000" by simp
    from T [THEN conjunct2, THEN conjunct2, THEN conjunct2, THEN conjunct1, THEN mp, OF h]
    have again: "tii_cache w1 = tii_cache ?D
        \<and> (\<exists>r2 w2. fetchTIITraffic (advance 1000 w1) ''m1'' = (Inr r2, w2)
              \<and> r_fromCache r2 \<noteq> Some True
              \<and> requests w2 = requests w1 @ [GET_tii_traffic])"
      .
    from f fc again
    show "\<exists>r1 w1. fetchTIITraffic ?D ''M1'' = (Inr r1, w1)
      \<and> r_fromCache r1 = None
      \<and> tii_cache w1 = tii_cache ?D
      \<and> (\<exists>r2 w2. fetchTIITraffic (advance 1000 w1) ''m1'' = (Inr r2, w2)
            \<and> r_fromCache r2 \<noteq> Some True
            \<and> requests w2 = requests w1 @ [GET_tii_traffic])" by blast
  }
  {
    from fetchWebTRISTraffic_returns [of ?E "''M1''"] obtain r1 w1 where
      f: "fetchWebTRISTraffic ?E ''M1'' = (Inr r1, w1)" by blast
    have "map_sum id r_fromCache (fst (fetchWebTRISTraffic ?E ''M1'')) = Inr None"
      by code_simp
    with f have fc: "r_fromCache r1 = None" by simp
    have k: "webtris_getCacheKey ''m1'' = webtris_getCacheKey ''M1''" by code_simp
    note T = C8_cache_round_trip_and_expiry [of ?E "''M1''" r1 w1 "''m1''" 1000]
    from f fc k nn have h: "fetchWebTRISTraffic ?E ''M1'' = (Inr r1, w1) \<and> r_fromCache r1 = None
      \<and> webtris_getCacheKey ''m1'' = webtris_getCacheKey ''M1'' \<and> (0::int) \<le> 1000" by simp
    from T [THEN conjunct2, THEN conjunct2, THEN conjunct2, THEN conjunct2, THEN conjunct1, THEN mp, OF h]
    have again: "webtris_cache w1 = webtris_cache ?E
        \<and> (\<exists>r2 w2 rest. fetchWebTRISTraffic (advance 1000 w1) ''m1'' = (Inr r2, w2)
              \<and> r_fromCache r2 \<noteq> Some True
              \<and> requests w2 = requests w1 @ GET_webtris_sites (toUpperCase ''m1'') # rest)"
      .
    from f fc again
    show "\<exists>r1 w1. fetchWebTRISTraffic ?E ''M1'' = (Inr r1, w1)
      \<and> r_fromCache r1 = None
      \<and> webtris_cache w1 = webtris_cache ?E
      \<and> (\<exists>r2 w2 rest. fetchWebTRISTraffic (advance 1000 w1) ''m1'' = (Inr r2, w2)
            \<and> r_fromCache r2 \<noteq> Some True
            \<and> requests w2 = requests w1 @ GET_webtris_sites (toUpperCase ''m1'') # rest)"
      by blast
  }
  {
    from fetchGoogleMapsTraffic_returns [of ?E "''Drogheda Ireland''" "''M1, Drogheda, Ireland''" "Some ''M1''"]
    obtain r1 w1 where
      f: "fetchGoogleMapsTraffic ?E ''Drogheda Ireland'' ''M1, Drogheda, Ireland'' (Some ''M1'')
            = (Inr r1, w1)" by blast
    have "map_sum id r_fromCache
            (fst (fetchGoogleMapsTraffic ?E ''Drogheda Ireland'' ''M1, Drogheda, Ireland'' (Some ''M1'')))
          = Inr None"
      by code_simp
    with f have fc: "r_fromCache r1 = None" by simp
    have key: "truthy_str (GOOGLE_MAPS_API_KEY ?E)" by (simp add: fresh_world_def truthy_str_def)
    have k: "google_getCacheKey ''drogheda ireland'' ''m1, drogheda, ireland''
             = google_getCacheKey ''Drogheda Ireland'' ''M1, Drogheda, Ireland''" by code_simp
    note T = C8_cache_round_trip_and_expiry [of ?E _ r1 w1 _ 1000 "''Drogheda Ireland''"
        "''M1, Drogheda, Ireland''" "Some ''M1''" "''drogheda ireland''"
        "''m1, drogheda, ireland''" "Some ''m1''"]
    from key f fc k nn have h: "truthy_str (GOOGLE_MAPS_API_KEY ?E)
      \<and> fetchGoogleMapsTraffic ?E ''Drogheda Ireland'' ''M1, Drogheda, Ireland'' (Some ''M1'')
            = (Inr r1, w1) \<and> r_fromCache r1 = None
      \<and> google_getCacheKey ''drogheda ireland'' ''m1, drogheda, ireland''
             = google_getCacheKey ''Drogheda Ireland'' ''M1, Drogheda, Ireland''
      \<and> (0::int) \<le> 1000" by simp
    from T [THEN conjunct2, THEN conjunct2, THEN conjunct2, THEN conjunct2, THEN conjunct2, THEN conjunct1, THEN mp, OF h]
    have again: "google_cache w1 = google_cache ?E
        \<and> (\<exists>r2 w2. fetchGoogleMapsTraffic (advance 1000 w1)
                     ''drogheda ireland'' ''m1, drogheda, ireland'' (Some ''m1'') = (Inr r2, w2)
            \<and> r_fromCache r2 \<noteq> Some True
            \<and> requests w2 = requests w1
                 @ [GET_google_directions ''drogheda ireland'' ''m1, drogheda, ireland''])"
      .
    from f fc again
    show "\<exists>r1 w1. fetchGoogleMapsTraffic ?E
                  ''Drogheda Ireland'' ''M1, Drogheda, Ireland'' (Some ''M1'') = (Inr r1, w1)
      \<and> r_fromCache r1 = None
      \<and> google_cache w1 = google_cache ?E
      \<and> (\<exists>r2 w2. fetchGoogleMapsTraffic (advance 1000 w1)
                     ''drogheda ireland'' ''m1, drogheda, ireland'' (Some ''m1'') = (Inr r2, w2)
            \<and> r_fromCache r2 \<noteq> Some True
            \<and> requests w2 = requests w1
                 @ [GET_google_directions ''drogheda ireland'' ''m1, drogheda, ireland''])"
      by blast
  }
  {
    from fetchGoogleMapsTraffic_returns [of ?N "''Drogheda Ireland''" "''M1, Drogheda, Ireland''" "Some ''M1''"]
    obtain r1 w1 where
      f: "fetchGoogleMapsTraffic ?N ''Drogheda Ireland'' ''M1, Drogheda, Ireland'' (Some ''M1'')
            = (Inr r1, w1)" by blast
    have key: "\<not> truthy_str (GOOGLE_MAPS_API_KEY ?N)"
      by (simp add: fresh_world_def truthy_str_def)
    have rq: "requests ?N = []" by (simp add: fresh_world_def)
    note T = C8_cache_round_trip_and_expiry [of ?N _ r1 w1 _ 1000 "''Drogheda Ireland''"
        "''M1, Drogheda, Ireland''" "Some ''M1''" "''drogheda ireland''"
        "''m1, drogheda, ireland''" "Some ''m1''"]
    from key f have h: "\<not> truthy_str (GOOGLE_MAPS_API_KEY ?N)
      \<and> fetchGoogleMapsTraffic ?N ''Drogheda Ireland'' ''M1, Drogheda, Ireland'' (Some ''M1'')
            = (Inr r1, w1)" by simp
    from T [THEN conjunct2, THEN conjunct2, THEN conjunct2, THEN conjunct2, THEN conjunct2, THEN conjunct2, THEN mp, OF h]
    have again: "r_data r1 = [] \<and> r_fromCache r1 = None
      \<and> google_cache w1 = google_cache ?N \<and> requests w1 = requests ?N
      \<and> (\<exists>r2 w2. fetchGoogleMapsTraffic (advance 1000 w1)
                     ''drogheda ireland'' ''m1, drogheda, ireland'' (Some ''m1'') = (Inr r2, w2)
            \<and> r_data r2 = [] \<and> r_fromCache r2 = None
            \<and> requests w2 = requests w1)"
      .
    with f rq
    show "\<exists>r1 w1. fetchGoogleMapsTraffic ?N
                  ''Drogheda Ireland'' ''M1, Drogheda, Ireland'' (Some ''M1'') = (Inr r1, w1)
      \<and> r_data r1 = [] \<and> r_fromCache r1 = None \<and> requests w1 = []
      \<and> (\<exists>r2 w2. fetchGoogleMapsTraffic (advance 1000 w1)
                     ''drogheda ireland'' ''m1, drogheda, ireland'' (Some ''m1'') = (Inr r2, w2)
            \<and> r_data r2 = [] \<and> r_fromCache r2 = None \<and> requests w2 = [])"
      by auto
  }
qed

text \<open>
  Claim C8 as stated fails. The WebTRIS site request is answered, with an empty site
  list: the fetch resolves with no data and no error, and stores nothing, so the fetch
  that follows it at once for the same key is not answered from the cache and issues a
  second request. The Google Maps adapter does the same on an answer with status \<open>OK\<close>
  and no routes.
\<close>

theorem C8_counterexample:
  "map_sum id (\<lambda>r. (r_data r, r_error r, r_fromCache r))
     (fst (fetchWebTRISTraffic
        (fresh_world (network_with (TiiSituations []) (SitesList []) (ReportsList [])
           (GoogleBody ''OK'' [])) (Some ''key'')) ''M1''))
     = Inr ([], None, None)
   \<and> map_sum id r_fromCache
     (fst (fetchWebTRISTraffic (snd (fetchWebTRISTraffic
        (fresh_world (network_with (TiiSituations []) (SitesList []) (ReportsList [])
           (GoogleBody ''OK'' [])) (Some ''key'')) ''M1'')) ''M1''))
     = Inr None
   \<and> requests (snd (fetchWebTRISTraffic (snd (fetchWebTRISTraffic
        (fresh_world (network_with (TiiSituations []) (SitesList []) (ReportsList [])
           (GoogleBody ''OK'' [])) (Some ''key'')) ''M1'')) ''M1''))
     = [GET_webtris_sites ''M1'', GET_webtris_sites ''M1'']
   \<and> map_sum id (\<lambda>r. (r_data r, r_error r, r_fromCache r))
     (fst (fetchGoogleMapsTraffic
        (fresh_world (network_with (TiiSituations []) (SitesList []) (ReportsList [])
           (GoogleBody ''OK'' [])) (Some ''key'')) ''Drogheda'' ''Dublin'' None))
     = Inr ([], None, None)
   \<and> requests (snd (fetchGoogleMapsTraffic (snd (fetchGoogleMapsTraffic
        (fresh_world (network_with (TiiSituations []) (SitesList []) (ReportsList [])
           (GoogleBody ''OK'' [])) (Some ''key'')) ''Drogheda'' ''Dublin'' None))
        ''Drogheda'' ''Dublin'' None))
     = [GET_google_directions ''Drogheda'' ''Dublin'', GET_google_directions ''Drogheda'' ''Dublin'']"
  by code_simp

text \<open>
  The statement of C7 at the dead network, without an API key, at networks with
  payloads on which the code raises, a denied Google Maps request, a route without legs
  and a rejected report request, and at a network whose bodies hold no situations, no
  sites and no routes.
\<close>

theorem C7_witness:
  "(\<exists>r w'. fetchTIITraffic (fresh_world dead_network (Some ''key'')) ''M1'' = (Inr r, w')
        \<and> r_data r = [] \<and> r_error r = Some ''timeout of 10000ms exceeded'')
   \<and> (\<exists>r w'. fetchGoogleMapsTraffic (fresh_world dead_network (Some ''key''))
                 ''Drogheda'' ''Dublin'' None = (Inr r, w')
        \<and> r_data r = [] \<and> r_error r = Some ''timeout of 10000ms exceeded'')
   \<and> (\<exists>r w'. fetchWebTRISTraffic (fresh_world dead_network (Some ''key'')) ''M1'' = (Inr r, w')
        \<and> r_data r = [] \<and> r_error r = None)
   \<and> (\<exists>r w'. fetchGoogleMapsTraffic (fresh_world dead_network None)
                 ''Drogheda'' ''Dublin'' None = (Inr r, w')
        \<and> r_data r = [] \<and> r_error r = Some ''Google Maps API Key not configured''
        \<and> requests w' = [])
   \<and> (\<exists>r w'. fetchTIITraffic 
                 (fresh_world (network_with (TiiMalformed ''situations.map is not a function'')
                    (SitesMalformed ''sites.map is not a function'') (ReportsList [])
                    (GoogleBody ''REQUEST_DENIED'' [])) (Some ''key'')) ''M1'' = (Inr r, w')
        \<and> r_data r = [] \<and> r_error r = Some ''situations.map is not a function'')
   \<and> (\<exists>r w'. fetchWebTRISTraffic 
                 (fresh_world (network_with (TiiMalformed ''situations.map is not a function'')
                    (SitesMalformed ''sites.map is not a function'') (ReportsList [])
                    (GoogleBody ''REQUEST_DENIED'' [])) (Some ''key'')) ''M1'' = (Inr r, w')
        \<and> r_data r = [] \<and> r_error r = Some ''sites.map is not a function'')
   \<and> (\<exists>r w'. fetchGoogleMapsTraffic 
                 (fresh_world (network_with (TiiMalformed ''situations.map is not a function'')
                    (SitesMalformed ''sites.map is not a function'') (ReportsList [])
                    (GoogleBody ''REQUEST_DENIED'' [])) (Some ''key''))
                 ''Drogheda'' ''Dublin'' None = (Inr r, w')
        \<and> r_data r = [] \<and> r_error r = Some ''Google Maps API Error: REQUEST_DENIED'')
   \<and> (\<exists>r w'. fetchGoogleMapsTraffic 
                 (fresh_world (network_with (TiiSituations [])
                    (SitesList [webtris_site_of_length ''19446'' 7])
                    (ReportsMalformed ''reports.find is not a function'')
                    (GoogleBody ''OK'' [(google_route_with None None)\<lparr>route_legs := None\<rparr>]))
                    (Some ''key''))
                 ''Drogheda'' ''Dublin'' None = (Inr r, w')
        \<and> r_data r = []
        \<and> r_error r = Some ''Cannot read properties of undefined (reading 0)'')
   \<and> (\<exists>r w'. fetchWebTRISTraffic 
                 (fresh_world (network_with (TiiSituations [])
                    (SitesList [webtris_site_of_length ''19446'' 7])
                    (ReportsMalformed ''reports.find is not a function'')
                    (GoogleBody ''OK'' [(google_route_with None None)\<lparr>route_legs := None\<rparr>]))
                    (Some ''key'')) ''M1'' = (Inr r, w')
        \<and> r_data r = [] \<and> r_error r = Some ''reports.find is not a function'')
   \<and> (\<exists>r w'. fetchWebTRISTraffic 
                 (fresh_world (network_with (TiiSituations [])
                    (SitesList [webtris_site_of_length ''19446'' 7])
                    (ReportsFails ''timeout of 10000ms exceeded'')
                    (GoogleFails ''timeout of 10000ms exceeded'')) (Some ''key'')) ''M1'' = (Inr r, w')
        \<and> r_data r = [WebTRIS (normalizeWebTRISRecord 1000240
                                  (webtris_site_of_length ''19446'' 7) empty_report)]
        \<and> r_error r = None)
   \<and> (\<exists>r w'. fetchTIITraffic 
                 (fresh_world (network_with (TiiSituations []) (SitesList []) (ReportsList [])
                    (GoogleBody ''OK'' [])) (Some ''key'')) ''M1'' = (Inr r, w')
        \<and> r_data r = [] \<and> r_error r = None \<and> r_fromCache r = Some False)
   \<and> (\<exists>r w'. fetchWebTRISTraffic 
                 (fresh_world (network_with (TiiSituations []) (SitesList []) (ReportsList [])
                    (GoogleBody ''OK'' [])) (Some ''key'')) ''M1'' = (Inr r, w')
        \<and> r_data r = [] \<and> r_error r = None \<and> r_fromCache r = None)
   \<and> (\<exists>r w'. fetchGoogleMapsTraffic 
                 (fresh_world (network_with (TiiSituations []) (SitesList []) (ReportsList [])
                    (GoogleBody ''OK'' [])) (Some ''key''))
                 ''Drogheda'' ''Dublin'' None = (Inr r, w')
        \<and> r_data r = [] \<and> r_error r = None \<and> r_fromCache r = None)"
proof (intro conjI)
  let ?D = "fresh_world dead_network (Some ''key'')"
  let ?N = "fresh_world dead_network None"
  let ?A = "fresh_world (network_with (TiiMalformed ''situations.map is not a function'')
                    (SitesMalformed ''sites.map is not a function'') (ReportsList [])
                    (GoogleBody ''REQUEST_DENIED'' [])) (Some ''key'')"
  let ?B = "fresh_world (network_with (TiiSituations [])
                    (SitesList [webtris_site_of_length ''19446'' 7])
                    (ReportsMalformed ''reports.find is not a function'')
                    (GoogleBody ''OK'' [(google_route_with None None)\<lparr>route_legs := None\<rparr>]))
                    (Some ''key'')"
  let ?C = "fresh_world (network_with (TiiSituations [])
                    (SitesList [webtris_site_of_length ''19446'' 7])
                    (ReportsFails ''timeout of 10000ms exceeded'')
                    (GoogleFails ''timeout of 10000ms exceeded'')) (Some ''key'')"
  let ?E = "fresh_world (network_with (TiiSituations []) (SitesList []) (ReportsList [])
                    (GoogleBody ''OK'' [])) (Some ''key'')"
  let ?rt = "(google_route_with None None)\<lparr>route_legs := None\<rparr>"
  note defs = fresh_world_def dead_network_def network_with_def isCacheValid_def truthy_str_def
  {
    have h: "\<not> isCacheValid ?D (tii_cache ?D (tii_getCacheKey ''M1''))
        \<and> (tii_feed (net ?D) (length (requests ?D)) = TiiFails ''timeout of 10000ms exceeded''
             \<or> tii_feed (net ?D) (length (requests ?D)) = TiiMalformed ''timeout of 10000ms exceeded'')"
      by (simp add: defs)
    note T = C7_adapters_resolve_on_failure [where w = "?D" and road = "''M1''" and m = "''timeout of 10000ms exceeded''"]
    from T [THEN conjunct2, THEN conjunct2, THEN conjunct2, THEN conjunct2, THEN conjunct1, THEN mp, OF h]
    show "\<exists>r w'. fetchTIITraffic ?D ''M1'' = (Inr r, w')
        \<and> r_data r = [] \<and> r_error r = Some ''timeout of 10000ms exceeded''" .
  }
  {
    have h: "truthy_str (GOOGLE_MAPS_API_KEY ?D)
        \<and> \<not> isCacheValid ?D (google_cache ?D (google_getCacheKey ''Drogheda'' ''Dublin''))
        \<and> (google_directions (net ?D) (length (requests ?D)) ''Drogheda'' ''Dublin''
              = GoogleFails ''timeout of 10000ms exceeded''
            \<or> google_directions (net ?D) (length (requests ?D)) ''Drogheda'' ''Dublin''
              = GoogleMalformed ''timeout of 10000ms exceeded'')"
      by (simp add: defs)
    note T = C7_adapters_resolve_on_failure [where w = "?D" and origin = "''Drogheda''" and destination = "''Dublin''" and rd = "None" and m = "''timeout of 10000ms exceeded''"]
    from T [THEN conjunct2, THEN conjunct2, THEN conjunct2, THEN conjunct2, THEN conjunct2, THEN conjunct2, THEN conjunct2, THEN conjunct2, THEN conjunct2, THEN conjunct2, THEN conjunct2, THEN conjunct2, THEN conjunct2, THEN conjunct2, THEN conjunct2, THEN conjunct1, THEN mp, OF h]
    show "\<exists>r w'. fetchGoogleMapsTraffic ?D
                 ''Drogheda'' ''Dublin'' None = (Inr r, w')
        \<and> r_data r = [] \<and> r_error r = Some ''timeout of 10000ms exceeded''" .
  }
  {
    have h: "\<not> isCacheValid ?D (webtris_cache ?D (webtris_getCacheKey ''M1''))
        \<and> webtris_sites (net ?D) (length (requests ?D)) (toUpperCase ''M1'')
            = SitesFails ''timeout of 10000ms exceeded''"
      by (simp add: defs)
    note T = C7_adapters_resolve_on_failure [where w = "?D" and road = "''M1''" and m = "''timeout of 10000ms exceeded''"]
    from T [THEN conjunct2, THEN conjunct2, THEN conjunct2, THEN conjunct2, THEN conjunct2, THEN conjunct2, THEN conjunct2, THEN conjunct1, THEN mp, OF h]
    show "\<exists>r w'. fetchWebTRISTraffic ?D ''M1'' = (Inr r, w')
        \<and> r_data r = [] \<and> r_error r = None" .
  }
  {
    have h: "\<not> truthy_str (GOOGLE_MAPS_API_KEY ?N)"
      by (simp add: defs)
    note T = C7_adapters_resolve_on_failure [where w = "?N" and origin = "''Drogheda''" and destination = "''Dublin''" and rd = "None"]
    from T [THEN conjunct2, THEN conjunct2, THEN conjunct2, THEN conjunct2, THEN conjunct2, THEN conjunct2, THEN conjunct2, THEN conjunct2, THEN conjunct2, THEN conjunct2, THEN conjunct2, THEN conjunct2, THEN conjunct2, THEN conjunct1, THEN mp, OF h]
    have "\<exists>r w'. fetchGoogleMapsTraffic ?N
                 ''Drogheda'' ''Dublin'' None = (Inr r, w')
        \<and> r_data r = [] \<and> r_error r = Some ''Google Maps API Key not configured''
           \<and> requests w' = requests ?N" .
    then show "\<exists>r w'. fetchGoogleMapsTraffic ?N
                 ''Drogheda'' ''Dublin'' None = (Inr r, w')
        \<and> r_data r = [] \<and> r_error r = Some ''Google Maps API Key not configured''
        \<and> requests w' = []"
      by (simp add: fresh_world_def)
  }
  {
    have h: "\<not> isCacheValid ?A (tii_cache ?A (tii_getCacheKey ''M1''))
        \<and> (tii_feed (net ?A) (length (requests ?A)) = TiiFails ''situations.map is not a function''
             \<or> tii_feed (net ?A) (length (requests ?A))
                 = TiiMalformed ''situations.map is not a function'')"
      by (simp add: defs)
    note T = C7_adapters_resolve_on_failure [where w = "?A" and road = "''M1''" and m = "''situations.map is not a function''"]
    from T [THEN conjunct2, THEN conjunct2, THEN conjunct2, THEN conjunct2, THEN conjunct1, THEN mp, OF h]
    show "\<exists>r w'. fetchTIITraffic ?A ''M1'' = (Inr r, w')
        \<and> r_data r = [] \<and> r_error r = Some ''situations.map is not a function''" .
  }
  {
    have h: "\<not> isCacheValid ?A (webtris_cache ?A (webtris_getCacheKey ''M1''))
        \<and> webtris_sites (net ?A) (length (requests ?A)) (toUpperCase ''M1'')
            = SitesMalformed ''sites.map is not a function''"
      by (simp add: defs)
    note T = C7_adapters_resolve_on_failure [where w = "?A" and road = "''M1''" and m = "''sites.map is not a function''"]
    from T [THEN conjunct2, THEN conjunct2, THEN conjunct2, THEN conjunct2, THEN conjunct2, THEN conjunct2, THEN conjunct2, THEN conjunct2, THEN conjunct1, THEN mp, OF h]
    show "\<exists>r w'. fetchWebTRISTraffic ?A ''M1'' = (Inr r, w')
        \<and> r_data r = [] \<and> r_error r = Some ''sites.map is not a function''" .
  }
  {
    have h: "truthy_str (GOOGLE_MAPS_API_KEY ?A)
        \<and> \<not> isCacheValid ?A (google_cache ?A (google_getCacheKey ''Drogheda'' ''Dublin''))
        \<and> google_directions (net ?A) (length (requests ?A)) ''Drogheda'' ''Dublin''
             = GoogleBody ''REQUEST_DENIED'' []
        \<and> ''REQUEST_DENIED'' \<noteq> ''OK''"
      by (simp add: defs)
    note T = C7_adapters_resolve_on_failure [where w = "?A" and origin = "''Drogheda''" and destination = "''Dublin''" and rd = "None" and status = "''REQUEST_DENIED''" and routes = "[]"]
    from T [THEN conjunct2, THEN conjunct2, THEN conjunct2, THEN conjunct2, THEN conjunct2, THEN conjunct2, THEN conjunct2, THEN conjunct2, THEN conjunct2, THEN conjunct2, THEN conjunct2, THEN conjunct2, THEN conjunct2, THEN conjunct2, THEN conjunct2, THEN conjunct2, THEN conjunct1, THEN mp, OF h]
    have "\<exists>r w'. fetchGoogleMapsTraffic ?A
                 ''Drogheda'' ''Dublin'' None = (Inr r, w')
        \<and> r_data r = [] \<and> r_error r = Some (''Google Maps API Error: '' @ ''REQUEST_DENIED'')" .
    then show "\<exists>r w'. fetchGoogleMapsTraffic ?A
                 ''Drogheda'' ''Dublin'' None = (Inr r, w')
        \<and> r_data r = [] \<and> r_error r = Some ''Google Maps API Error: REQUEST_DENIED''"
      by (simp)
  }
  {
    have h: "truthy_str (GOOGLE_MAPS_API_KEY ?B)
        \<and> \<not> isCacheValid ?B (google_cache ?B (google_getCacheKey ''Drogheda'' ''Dublin''))
        \<and> google_directions (net ?B) (length (requests ?B)) ''Drogheda'' ''Dublin''
             = GoogleBody ''OK'' (?rt # [])
        \<and> normalizeGoogleMapsData (clock ?B + int (call_duration (net ?B) (length (requests ?B))))
             ?rt ''Drogheda'' ''Dublin'' None
            = Inl (TypeError ''Cannot read properties of undefined (reading 0)'')"
      by (simp add: defs normalizeGoogleMapsData_def)
    note T = C7_adapters_resolve_on_failure [where w = "?B" and origin = "''Drogheda''" and destination = "''Dublin''" and rd = "None" and routes = "[]" and route = "?rt" and e = "TypeError ''Cannot read properties of undefined (reading 0)''"]
    from T [THEN conjunct2, THEN conjunct2, THEN conjunct2, THEN conjunct2, THEN conjunct2, THEN conjunct2, THEN conjunct2, THEN conjunct2, THEN conjunct2, THEN conjunct2, THEN conjunct2, THEN conjunct2, THEN conjunct2, THEN conjunct2, THEN conjunct2, THEN conjunct2, THEN conjunct2, THEN conjunct2, THEN conjunct1, THEN mp, OF h]
    have "\<exists>r w'. fetchGoogleMapsTraffic ?B
                 ''Drogheda'' ''Dublin'' None = (Inr r, w')
        \<and> r_data r = []
        \<and> r_error r = Some (message (TypeError ''Cannot read properties of undefined (reading 0)''))" .
    then show "\<exists>r w'. fetchGoogleMapsTraffic ?B
                 ''Drogheda'' ''Dublin'' None = (Inr r, w')
        \<and> r_data r = []
        \<and> r_error r = Some ''Cannot read properties of undefined (reading 0)''"
      by (simp)
  }
  {
    have h: "\<not> isCacheValid ?B (webtris_cache ?B (webtris_getCacheKey ''M1''))
        \<and> webtris_sites (net ?B) (length (requests ?B)) (toUpperCase ''M1'')
            = SitesList [webtris_site_of_length ''19446'' 7]
        \<and> [webtris_site_of_length ''19446'' 7] \<noteq> []
        \<and> webtris_reports (net ?B) (Suc (length (requests ?B)))
             (map site_id [webtris_site_of_length ''19446'' 7])
            = ReportsMalformed ''reports.find is not a function''"
      by (simp add: defs)
    note T = C7_adapters_resolve_on_failure [where w = "?B" and road = "''M1''" and m = "''reports.find is not a function''" and sites = "[webtris_site_of_length ''19446'' 7]"]
    from T [THEN conjunct2, THEN conjunct2, THEN conjunct2, THEN conjunct2, THEN conjunct2, THEN conjunct2, THEN conjunct2, THEN conjunct2, THEN conjunct2, THEN conjunct2, THEN conjunct2, THEN conjunct1, THEN mp, OF h]
    show "\<exists>r w'. fetchWebTRISTraffic ?B ''M1'' = (Inr r, w')
        \<and> r_data r = [] \<and> r_error r = Some ''reports.find is not a function''" .
  }
  {
    have h: "\<not> isCacheValid ?C (webtris_cache ?C (webtris_getCacheKey ''M1''))
        \<and> webtris_sites (net ?C) (length (requests ?C)) (toUpperCase ''M1'')
            = SitesList [webtris_site_of_length ''19446'' 7]
        \<and> [webtris_site_of_length ''19446'' 7] \<noteq> []
        \<and> webtris_reports (net ?C) (Suc (length (requests ?C)))
             (map site_id [webtris_site_of_length ''19446'' 7])
            = ReportsFails ''timeout of 10000ms exceeded''"
      by (simp add: defs)
    note T = C7_adapters_resolve_on_failure [where w = "?C" and road = "''M1''" and m = "''timeout of 10000ms exceeded''" and sites = "[webtris_site_of_length ''19446'' 7]"]
    from T [THEN conjunct2, THEN conjunct2, THEN conjunct2, THEN conjunct2, THEN conjunct2, THEN conjunct2, THEN conjunct2, THEN conjunct2, THEN conjunct2, THEN conjunct2, THEN conjunct1, THEN mp, OF h]
    have "\<exists>r w'. fetchWebTRISTraffic ?C ''M1'' = (Inr r, w')
        \<and> r_data r = map (\<lambda>site. WebTRIS (normalizeWebTRISRecord
                                 (clock ?C + int (call_duration (net ?C) (length (requests ?C)))
                                    + int (call_duration (net ?C) (Suc (length (requests ?C)))))
                                 site empty_report)) [webtris_site_of_length ''19446'' 7]
           \<and> r_error r = None" .
    then show "\<exists>r w'. fetchWebTRISTraffic ?C ''M1'' = (Inr r, w')
        \<and> r_data r = [WebTRIS (normalizeWebTRISRecord 1000240
                                  (webtris_site_of_length ''19446'' 7) empty_report)]
        \<and> r_error r = None"
      by (simp add: fresh_world_def network_with_def)
  }
  {
    have h: "\<not> isCacheValid ?E (tii_cache ?E (tii_getCacheKey ''M1''))
        \<and> tii_feed (net ?E) (length (requests ?E)) = TiiSituations []"
      by (simp add: defs)
    note T = C7_adapters_resolve_on_failure [where w = "?E" and road = "''M1''" and items = "[]"]
    from T [THEN conjunct2, THEN conjunct2, THEN conjunct2, THEN conjunct2, THEN conjunct2, THEN conjunct1, THEN mp, OF h]
    have "\<exists>r w'. fetchTIITraffic ?E ''M1'' = (Inr r, w')
        \<and> r_data r = map (\<lambda>s. TII (normalizeTIIRecord (clock ?E + int (call_duration (net ?E) (length (requests ?E)))) s))
                        (if ''M1'' \<noteq> []
                         then filter (\<lambda>s. includes_str
                                        (toUpperCase (or_str (sr_roadName (first_situationRecord
                                                                (it_situationRecord s))) []))
                                        (toUpperCase ''M1'')) []
                         else [])
           \<and> r_error r = None \<and> r_fromCache r = Some False" .
    then show "\<exists>r w'. fetchTIITraffic ?E ''M1'' = (Inr r, w')
        \<and> r_data r = [] \<and> r_error r = None \<and> r_fromCache r = Some False"
      by (simp)
  }
  {
    have h: "\<not> isCacheValid ?E (webtris_cache ?E (webtris_getCacheKey ''M1''))
        \<and> webtris_sites (net ?E) (length (requests ?E)) (toUpperCase ''M1'') = SitesList []"
      by (simp add: defs)
    note T = C7_adapters_resolve_on_failure [where w = "?E" and road = "''M1''"]
    from T [THEN conjunct2, THEN conjunct2, THEN conjunct2, THEN conjunct2, THEN conjunct2, THEN conjunct2, THEN conjunct2, THEN conjunct2, THEN conjunct2, THEN conjunct1, THEN mp, OF h]
    show "\<exists>r w'. fetchWebTRISTraffic ?E ''M1'' = (Inr r, w')
        \<and> r_data r = [] \<and> r_error r = None \<and> r_fromCache r = None" .
  }
  {
    have h: "truthy_str (GOOGLE_MAPS_API_KEY ?E)
        \<and> \<not> isCacheValid ?E (google_cache ?E (google_getCacheKey ''Drogheda'' ''Dublin''))
        \<and> google_directions (net ?E) (length (requests ?E)) ''Drogheda'' ''Dublin'' = GoogleBody ''OK'' []"
      by (simp add: defs)
    note T = C7_adapters_resolve_on_failure [where w = "?E" and origin = "''Drogheda''" and destination = "''Dublin''" and rd = "None"]
    from T [THEN conjunct2, THEN conjunct2, THEN conjunct2, THEN conjunct2, THEN conjunct2, THEN conjunct2, THEN conjunct2, THEN conjunct2, THEN conjunct2, THEN conjunct2, THEN conjunct2, THEN conjunct2, THEN conjunct2, THEN conjunct2, THEN conjunct2, THEN conjunct2, THEN conjunct2, THEN conjunct1, THEN mp, OF h]
    show "\<exists>r w'. fetchGoogleMapsTraffic ?E
                 ''Drogheda'' ''Dublin'' None = (Inr r, w')
        \<and> r_data r = [] \<and> r_error r = None \<and> r_fromCache r = None" .
  }
qed

text \<open>
  With the TII feed timing out and the other providers answering, \<open>fetchTIITraffic\<close>
  reports the timeout, and the orchestrator's \<open>errors\<close> array is empty.
\<close>

lemma tii_timeout_stays_out_of_errors:
  "map_sum id (\<lambda>r. (r_data r, r_error r))
     (fst (fetchTIITraffic (fresh_world tii_down_network (Some ''key'')) ''M1''))
     = Inr ([], Some ''timeout of 10000ms exceeded'')
   \<and> map_sum id (\<lambda>rs. (errors rs, fallbackUsed rs, length (data rs)))
       (fst (fetchTrafficWithFallback (fresh_world tii_down_network (Some ''key'')) ''M1'' None None))
     = Inr ([], False, 1)"
  by code_simp

text \<open>
  On the dead network \<open>fetchWebTRISTraffic\<close> resolves with \<open>data = []\<close> and no \<open>error\<close> at
  all.
\<close>

lemma webtris_timeout_without_error:
  "map_sum id (\<lambda>r. (r_data r, r_error r))
     (fst (fetchWebTRISTraffic (fresh_world dead_network None) ''M1'')) = Inr ([], None)"
  by code_simp


subsection \<open>The fallback of the enrichment\<close>

lemma search_Some:
  "search r prev s = Some m \<Longrightarrow>
     \<exists>st0 st. st \<in> set (attempts r st0) \<and> snd m = groups st"
proof (induction r prev s rule: search.induct)
  case (1 r prev)
  show ?case
  proof (cases "attempts r \<lparr>behind = prev, ahead = [], groups = Map.empty\<rparr>")
    case Nil
    with 1 show ?thesis by simp
  next
    case (Cons st sts)
    with 1 have "snd m = groups st" by auto
    moreover from Cons have "st \<in> set (attempts r \<lparr>behind = prev, ahead = [], groups = Map.empty\<rparr>)"
      by simp
    ultimately show ?thesis by blast
  qed
next
  case (2 r prev c cs)
  show ?case
  proof (cases "attempts r \<lparr>behind = prev, ahead = c # cs, groups = Map.empty\<rparr>")
    case Nil
    with 2 show ?thesis by simp
  next
    case (Cons st sts)
    with 2(2) have "snd m = groups st" by auto
    moreover from Cons have "st \<in> set (attempts r \<lparr>behind = prev, ahead = c # cs, groups = Map.empty\<rparr>)"
      by simp
    ultimately show ?thesis by blast
  qed
qed

lemma road_group_defined:
  assumes "String_match road_pattern s = Some m"
  shows "\<exists>g. group m 1 = JStr g"
proof -
  from search_Some [OF assms [unfolded String_match_def]]
  obtain st0 st where a: "st \<in> set (attempts road_pattern st0)" and g: "snd m = groups st"
    by blast
  from a have "groups st 1 \<noteq> None"
    by (auto simp: road_pattern_def split: if_splits)
  with g show ?thesis by (auto simp: group_def)
qed

lemma createFallbackResult_text:
  "\<exists>r. createFallbackResult num (JStr s) = Inr r
       \<and> x_rawExtracted (x_fields r) = False
       \<and> x_segment (x_fields r) = JNull \<and> x_landmark (x_fields r) = JNull"
proof (cases "String_match road_pattern s")
  case None
  then show ?thesis by (simp add: createFallbackResult_def Let_def)
next
  case (Some m)
  from road_group_defined [OF Some] obtain g where "group m 1 = JStr g" by blast
  with Some show ?thesis by (simp add: createFallbackResult_def Let_def)
qed

lemma createFallbackResult_object:
  assumes "d \<noteq> JUndefined" "d \<noteq> JNull" "\<forall>s. d \<noteq> JStr s"
      and "\<not> (truthy (coordinate d ''lat'') \<and> truthy (coordinate d ''lon''))
           \<or> (\<exists>a b. coordinate d ''lat'' = JNum a \<and> coordinate d ''lon'' = JNum b)"
  shows "\<exists>r. createFallbackResult num d = Inr r
           \<and> x_rawExtracted (x_fields r) = False \<and> x_landmark (x_fields r) = JNull"
  using assms
  by (cases d) (auto simp: createFallbackResult_def Let_def call_toFixed_def)

lemma call_toFixed_throws:
  assumes "truthy v" "\<forall>a. v \<noteq> JNum a"
  shows "call_toFixed name v = Inl (TypeError (name @ ''.toFixed is not a function''))"
  using assms by (cases v) (simp_all add: call_toFixed_def)

lemma call_toFixed_cases:
  "(\<exists>t. call_toFixed name v = Inr t) \<or> (\<exists>m. call_toFixed name v = Inl (TypeError m))"
  by (cases v) (simp_all add: call_toFixed_def)

lemma createFallbackResult_throws:
  assumes "d \<noteq> JUndefined" "d \<noteq> JNull" "\<forall>s. d \<noteq> JStr s"
      and "truthy (coordinate d ''lat'')" "truthy (coordinate d ''lon'')"
      and "(\<forall>a. coordinate d ''lat'' \<noteq> JNum a) \<or> (\<forall>b. coordinate d ''lon'' \<noteq> JNum b)"
  shows "\<exists>m. createFallbackResult num d = Inl (TypeError m)"
proof (cases "\<forall>a. coordinate d ''lat'' \<noteq> JNum a")
  case True
  from call_toFixed_throws [OF assms(4) True, of "''lat''"] assms(1-5) show ?thesis
    by (cases d) (simp_all add: createFallbackResult_def Let_def)
next
  case False
  with assms(6) have "\<forall>b. coordinate d ''lon'' \<noteq> JNum b" by blast
  from call_toFixed_throws [OF assms(5) this, of "''lon''"]
  have lon: "call_toFixed ''lon'' (coordinate d ''lon'')
               = Inl (TypeError (''lon'' @ ''.toFixed is not a function''))" .
  from False obtain a where "coordinate d ''lat'' = JNum a" by blast
  then have lat: "call_toFixed ''lat'' (coordinate d ''lat'') = Inr (toFixed3 a)"
    by (simp add: call_toFixed_def)
  from lat lon assms(1-5) show ?thesis
    by (cases d) (simp_all add: createFallbackResult_def Let_def)
qed

lemma createFallbackResult_null:
  "createFallbackResult num JNull
     = Inl (TypeError ''Cannot read properties of null (reading location)'')"
  by (simp add: createFallbackResult_def)

text \<open>Without an API key the language model path fails before any request.\<close>

lemma extractSegment_try_unconfigured:
  assumes "\<not> truthy_str (LLM_API_KEY w)"
  shows "extractSegment_try w useCache key
           = (Inl (Error ''LLM not configured: LLM_API_KEY not set''), w)"
  using assms
  by (simp add: extractSegment_try_def callLLM_def getLLMConfig_def Let_def)

text \<open>
  With \<open>fallback\<close> enabled the outcome of \<open>extractSegment\<close> after a failed \<open>try\<close> block is the
  outcome of \<open>createFallbackResult\<close>.
\<close>

lemma extractSegment_after_failure:
  assumes "getCacheKey w d = Inr key"
      and "\<not> useCache \<or> (case segment_cache w key of
                               None \<Rightarrow> True
                             | Some entry \<Rightarrow> \<not> lw_clock w - snd entry < CACHE_TTL)"
      and "extractSegment_try w useCache key = (Inl err, w1)"
  shows "extractSegment w d useCache True
           = (case createFallbackResult (Number_toString w1) d of
                Inl e \<Rightarrow> (Inl e, w1)
              | Inr fallbackResult \<Rightarrow>
                  (Inr (fallbackResult\<lparr>x_extractionError := Some (message err),
                                       x_fallback := Some True\<rparr>), w1))"
  using assms
  by (auto simp: extractSegment_def extractSegment_catch_def split: option.splits prod.splits)

lemma getCacheKey_defined:
  assumes "d \<noteq> JUndefined"
  shows "\<exists>key. getCacheKey w d = Inr key"
  using assms by (cases d) (simp_all add: getCacheKey_def)

lemma getCacheKey_undefined: "getCacheKey w JUndefined
    = Inl (TypeError ''Cannot read properties of undefined (reading length)'')"
  by (simp add: getCacheKey_def)

text \<open>
  Claim C9. Let \<open>extractSegment\<close> run with \<open>fallback\<close> enabled on an input that has a cache key
  and no valid cache entry, and let the language model path (the \<open>try\<close> block) fail with
  any exception \<open>err\<close>. On raw text, and on a value other than \<open>null\<close> whose \<open>lat\<close> and
  \<open>lon\<close> are both numbers or not both truthy, it returns a result with \<open>fallback = true\<close>,
  \<open>rawExtracted = false\<close> and the message of \<open>err\<close> as \<open>extractionError\<close>. On \<open>null\<close>, and on a
  record object whose \<open>lat\<close> and \<open>lon\<close> are both truthy and not both numbers (coordinates
  sent as text, for one), the fallback itself throws a \<open>TypeError\<close>, which leaves
  \<open>extractSegment\<close>: the claim that the fallback never throws fails there.
\<close>

theorem C9_fallback_returns_or_throws:
  "getCacheKey w d = Inr key \<Longrightarrow>
   \<not> useCache \<or> (case segment_cache w key of
                      None \<Rightarrow> True
                    | Some entry \<Rightarrow> \<not> lw_clock w - snd entry < CACHE_TTL) \<Longrightarrow>
   extractSegment_try w useCache key = (Inl err, w1) \<Longrightarrow>
     (((\<exists>s. d = JStr s)
       \<or> (d \<noteq> JNull
           \<and> (\<not> (truthy (coordinate d ''lat'') \<and> truthy (coordinate d ''lon''))
               \<or> (\<exists>a b. coordinate d ''lat'' = JNum a \<and> coordinate d ''lon'' = JNum b))))
      \<longrightarrow> (\<exists>r. extractSegment w d useCache True = (Inr r, w1)
                \<and> x_fallback r = Some True
                \<and> x_rawExtracted (x_fields r) = False
                \<and> x_extractionError r = Some (message err)))
   \<and> ((\<forall>s. d \<noteq> JStr s)
        \<and> (d = JNull
            \<or> (truthy (coordinate d ''lat'') \<and> truthy (coordinate d ''lon'')
                \<and> ((\<forall>a. coordinate d ''lat'' \<noteq> JNum a)
                    \<or> (\<forall>b. coordinate d ''lon'' \<noteq> JNum b))))
      \<longrightarrow> (\<exists>m. extractSegment w d useCache True = (Inl (TypeError m), w1)))"
proof -
  assume key: "getCacheKey w d = Inr key"
     and miss: "\<not> useCache \<or> (case segment_cache w key of
                      None \<Rightarrow> True
                    | Some entry \<Rightarrow> \<not> lw_clock w - snd entry < CACHE_TTL)"
     and fails: "extractSegment_try w useCache key = (Inl err, w1)"
  note run = extractSegment_after_failure [OF key miss fails]
  from key have defined: "d \<noteq> JUndefined" by (auto simp: getCacheKey_undefined)
  have ok: "\<exists>r. extractSegment w d useCache True = (Inr r, w1)
                \<and> x_fallback r = Some True
                \<and> x_rawExtracted (x_fields r) = False
                \<and> x_extractionError r = Some (message err)"
    if "\<exists>r. createFallbackResult (Number_toString w1) d = Inr r
             \<and> x_rawExtracted (x_fields r) = False"
  proof -
    from that obtain r where "createFallbackResult (Number_toString w1) d = Inr r"
      "x_rawExtracted (x_fields r) = False" by blast
    then show ?thesis unfolding run by simp
  qed
  have bad: "\<exists>m. extractSegment w d useCache True = (Inl (TypeError m), w1)"
    if "\<exists>m. createFallbackResult (Number_toString w1) d = Inl (TypeError m)"
    using that unfolding run by auto
  show ?thesis
  proof (intro conjI impI)
    assume a: "(\<exists>s. d = JStr s)
       \<or> (d \<noteq> JNull
           \<and> (\<not> (truthy (coordinate d ''lat'') \<and> truthy (coordinate d ''lon''))
               \<or> (\<exists>a b. coordinate d ''lat'' = JNum a \<and> coordinate d ''lon'' = JNum b)))"
    show "\<exists>r. extractSegment w d useCache True = (Inr r, w1)
                \<and> x_fallback r = Some True
                \<and> x_rawExtracted (x_fields r) = False
                \<and> x_extractionError r = Some (message err)"
    proof (cases "\<exists>s. d = JStr s")
      case True
      then obtain s where "d = JStr s" ..
      with createFallbackResult_text [of "Number_toString w1" s] show ?thesis
        by (intro ok) auto
    next
      case False
      with a defined createFallbackResult_object [of d "Number_toString w1"] show ?thesis
        by (intro ok) auto
    qed
  next
    assume b: "(\<forall>s. d \<noteq> JStr s)
        \<and> (d = JNull
            \<or> (truthy (coordinate d ''lat'') \<and> truthy (coordinate d ''lon'')
                \<and> ((\<forall>a. coordinate d ''lat'' \<noteq> JNum a)
                    \<or> (\<forall>b. coordinate d ''lon'' \<noteq> JNum b))))"
    show "\<exists>m. extractSegment w d useCache True = (Inl (TypeError m), w1)"
    proof (cases "d = JNull")
      case True
      then show ?thesis by (intro bad) (simp add: createFallbackResult_null)
    next
      case False
      with b defined createFallbackResult_throws [of d "Number_toString w1"] show ?thesis
        by (intro bad) blast
    qed
  qed
qed

text \<open>A request the backend does not answer with a 2xx response fails the \<open>try\<close> block.\<close>

lemma extractSegment_try_fails:
  assumes "\<forall>body. llm_backend w (length (llm_requests w)) \<noteq> Replied body"
  shows "\<exists>err w1. extractSegment_try w useCache key = (Inl err, w1)"
proof -
  have "\<exists>err w1. callLLM w = (Inl err, w1)"
    using assms
    by (cases "llm_backend w (length (llm_requests w))"; cases "lc_config (getLLMConfig w)")
       (simp_all add: callLLM_def Let_def)
  then show ?thesis by (auto simp: extractSegment_try_def)
qed

text \<open>A reply that \<open>parseLLMResponse\<close> cannot read fails the \<open>try\<close> block.\<close>

lemma extractSegment_try_unparseable:
  assumes "callLLM w = (Inr llmResponse, w1)" "parseLLMResponse w1 llmResponse = Inr None"
  shows "extractSegment_try w useCache key
           = (Inl (Error ''Failed to extract segment data from LLM response''), w1)"
  using assms by (simp add: extractSegment_try_def)

text \<open>
  The statement of C9 on a host without an API key and on a rate-limited one: the
  record with text coordinates makes \<open>extractSegment\<close> throw
  \<open>lat.toFixed is not a function\<close>; the same record with numbers, and a raw text, get the
  annotated fallback result.
\<close>

theorem C9_witness:
  "(\<exists>m. extractSegment (llm_host None Aborted) record_with_text_coordinates True True
            = (Inl (TypeError m), llm_host None Aborted))
   \<and> fst (extractSegment (llm_host None Aborted) record_with_text_coordinates True True)
       = Inl (TypeError ''lat.toFixed is not a function'')
   \<and> (\<exists>m w1. extractSegment (llm_host (Some ''key'') (Rejected 429 JNull))
                 record_with_text_coordinates True True = (Inl (TypeError m), w1))
   \<and> (\<exists>r. extractSegment (llm_host None Aborted) record_with_coordinates True True
            = (Inr r, llm_host None Aborted)
          \<and> x_fallback r = Some True \<and> x_rawExtracted (x_fields r) = False
          \<and> x_extractionError r = Some ''LLM not configured: LLM_API_KEY not set'')
   \<and> (\<exists>r. extractSegment (llm_host None Aborted)
              (JStr ''Heavy traffic on M50 northbound at 45 km/h'') True True
            = (Inr r, llm_host None Aborted)
          \<and> x_fallback r = Some True \<and> x_rawExtracted (x_fields r) = False
          \<and> x_extractionError r = Some ''LLM not configured: LLM_API_KEY not set'')"
proof (intro conjI)
  let ?W = "llm_host None Aborted"
  let ?R = "llm_host (Some ''key'') (Rejected 429 JNull)"
  let ?t = record_with_text_coordinates
  let ?n = record_with_coordinates
  let ?s = "JStr ''Heavy traffic on M50 northbound at 45 km/h''"
  have nokey: "\<not> truthy_str (LLM_API_KEY ?W)" by (simp add: llm_host_def truthy_str_def)
  note unconfigured = extractSegment_try_unconfigured [OF nokey, of True]
  have miss: "\<not> True \<or> (case segment_cache (llm_host k r) key of
                      None \<Rightarrow> True
                    | Some entry \<Rightarrow> \<not> lw_clock (llm_host k r) - snd entry < CACHE_TTL)"
    for k r key by (simp add: llm_host_def)
  have t_shape: "\<forall>s. ?t \<noteq> JStr s" by (simp add: record_with_text_coordinates_def)
  have t_lat: "truthy (coordinate ?t ''lat'')" by code_simp
  have t_lon: "truthy (coordinate ?t ''lon'')" by code_simp
  have t_text: "\<forall>a. coordinate ?t ''lat'' \<noteq> JNum a"
    by (simp add: record_with_text_coordinates_def coordinate_def property_def opt_property_def
          or_js_def)
  from t_shape t_lat t_lon t_text
  have t_hyp: "(\<forall>s. ?t \<noteq> JStr s)
        \<and> (?t = JNull
            \<or> (truthy (coordinate ?t ''lat'') \<and> truthy (coordinate ?t ''lon'')
                \<and> ((\<forall>a. coordinate ?t ''lat'' \<noteq> JNum a)
                    \<or> (\<forall>b. coordinate ?t ''lon'' \<noteq> JNum b))))" by blast
  {
    obtain key where key: "getCacheKey ?W ?t = Inr key"
      using getCacheKey_defined [of ?t ?W] by (auto simp: record_with_text_coordinates_def)
    from C9_fallback_returns_or_throws [OF key miss unconfigured, THEN conjunct2, THEN mp, OF t_hyp]
    show "\<exists>m. extractSegment ?W ?t True True = (Inl (TypeError m), ?W)" .
  }
  {
    show "fst (extractSegment ?W ?t True True) = Inl (TypeError ''lat.toFixed is not a function'')"
      by code_simp
  }
  {
    obtain key where key: "getCacheKey ?R ?t = Inr key"
      using getCacheKey_defined [of ?t ?R] by (auto simp: record_with_text_coordinates_def)
    have "\<forall>body. llm_backend ?R (length (llm_requests ?R)) \<noteq> Replied body"
      by (simp add: llm_host_def)
    from extractSegment_try_fails [OF this, of True key]
    obtain err w1 where fails: "extractSegment_try ?R True key = (Inl err, w1)" by blast
    from C9_fallback_returns_or_throws [OF key miss fails, THEN conjunct2, THEN mp, OF t_hyp]
    show "\<exists>m w1. extractSegment ?R ?t True True = (Inl (TypeError m), w1)" by blast
  }
  {
    obtain key where key: "getCacheKey ?W ?n = Inr key"
      using getCacheKey_defined [of ?n ?W] by (auto simp: record_with_coordinates_def)
    have "coordinate ?n ''lat'' = JNum (5372 / 100) \<and> coordinate ?n ''lon'' = JNum (- 635 / 100)"
      by code_simp
    then have "\<exists>a b. coordinate ?n ''lat'' = JNum a \<and> coordinate ?n ''lon'' = JNum b"
      by blast
    moreover have "?n \<noteq> JNull" by (simp add: record_with_coordinates_def)
    ultimately have n_hyp: "(\<exists>s. ?n = JStr s)
       \<or> (?n \<noteq> JNull
           \<and> (\<not> (truthy (coordinate ?n ''lat'') \<and> truthy (coordinate ?n ''lon''))
               \<or> (\<exists>a b. coordinate ?n ''lat'' = JNum a \<and> coordinate ?n ''lon'' = JNum b)))"
      by blast
    from C9_fallback_returns_or_throws [OF key miss unconfigured, THEN conjunct1, THEN mp, OF n_hyp]
    show "\<exists>r. extractSegment ?W ?n True True = (Inr r, ?W)
          \<and> x_fallback r = Some True \<and> x_rawExtracted (x_fields r) = False
          \<and> x_extractionError r = Some ''LLM not configured: LLM_API_KEY not set''"
      by simp
  }
  {
    obtain key where key: "getCacheKey ?W ?s = Inr key"
      using getCacheKey_defined [of ?s ?W] by auto
    have s_hyp: "(\<exists>s. ?s = JStr s)
       \<or> (?s \<noteq> JNull
           \<and> (\<not> (truthy (coordinate ?s ''lat'') \<and> truthy (coordinate ?s ''lon''))
               \<or> (\<exists>a b. coordinate ?s ''lat'' = JNum a \<and> coordinate ?s ''lon'' = JNum b)))"
      by simp
    from C9_fallback_returns_or_throws [OF key miss unconfigured, THEN conjunct1, THEN mp, OF s_hyp]
    show "\<exists>r. extractSegment ?W ?s True True = (Inr r, ?W)
          \<and> x_fallback r = Some True \<and> x_rawExtracted (x_fields r) = False
          \<and> x_extractionError r = Some ''LLM not configured: LLM_API_KEY not set''"
      by simp
  }
qed

end
